theory Spec2Isabelle
  imports Complex_Main "HOL-Library.Sublist" "HOL-Library.Char_ord" "HOL-Library.List_Lexorder"
begin

section \<open>Numbers and text\<close>

text \<open>
  The development embeds the pricing engine of \<^verbatim>\<open>recipe-price-runner-modifier.ts\<close> and the
  preview endpoint of \<^verbatim>\<open>server.ts\<close>.

  A finite JavaScript number is modelled as an exact rational: \<open>Math.round x\<close> is \<open>round x\<close>
  (\<open>\<lfloor>x + 1/2\<rfloor>\<close>), \<open>Math.ceil\<close> is \<open>ceiling\<close>; the rounding error of IEEE doubles, their
  overflow and the sign of zero are outside the model. The numbers read from the database and
  from the bundled data are finite; a number computed from them is a \<open>jsnum\<close>: a rational,
  one of the two infinities, or \<open>NaN\<close>.

  Strings are modelled over ISO-8859-1: a \<^typ>\<open>char\<close> is the code unit of a JavaScript string
  restricted to U+0000..U+00FF. On that alphabet \<open>toLowerCase\<close>, \<open>normalize('NFD')\<close>
  followed by the removal of U+0300..U+036F, \<open>trim\<close> and the class \<open>\s\<close> are the functions
  below.
\<close>

type_synonym number = rat

datatype jsnum = Fin number | PosInf | NegInf | NaN

fun jsTimes :: "jsnum \<Rightarrow> jsnum \<Rightarrow> jsnum" where
  "jsTimes NaN y = NaN"
| "jsTimes x NaN = NaN"
| "jsTimes (Fin a) (Fin b) = Fin (a * b)"
| "jsTimes (Fin a) PosInf = (if a = 0 then NaN else if 0 < a then PosInf else NegInf)"
| "jsTimes (Fin a) NegInf = (if a = 0 then NaN else if 0 < a then NegInf else PosInf)"
| "jsTimes PosInf (Fin b) = (if b = 0 then NaN else if 0 < b then PosInf else NegInf)"
| "jsTimes NegInf (Fin b) = (if b = 0 then NaN else if 0 < b then NegInf else PosInf)"
| "jsTimes PosInf PosInf = PosInf"
| "jsTimes PosInf NegInf = NegInf"
| "jsTimes NegInf PosInf = NegInf"
| "jsTimes NegInf NegInf = PosInf"

fun jsDivide :: "jsnum \<Rightarrow> jsnum \<Rightarrow> jsnum" where
  "jsDivide NaN y = NaN"
| "jsDivide x NaN = NaN"
| "jsDivide (Fin a) (Fin b) =
     (if b \<noteq> 0 then Fin (a / b) else if a = 0 then NaN else if 0 < a then PosInf else NegInf)"
| "jsDivide (Fin a) PosInf = Fin 0"
| "jsDivide (Fin a) NegInf = Fin 0"
| "jsDivide PosInf (Fin b) = (if b < 0 then NegInf else PosInf)"
| "jsDivide NegInf (Fin b) = (if b < 0 then PosInf else NegInf)"
| "jsDivide PosInf PosInf = NaN"
| "jsDivide PosInf NegInf = NaN"
| "jsDivide NegInf PosInf = NaN"
| "jsDivide NegInf NegInf = NaN"

fun jsPlus :: "jsnum \<Rightarrow> jsnum \<Rightarrow> jsnum" where
  "jsPlus NaN y = NaN"
| "jsPlus x NaN = NaN"
| "jsPlus (Fin a) (Fin b) = Fin (a + b)"
| "jsPlus (Fin a) PosInf = PosInf"
| "jsPlus (Fin a) NegInf = NegInf"
| "jsPlus PosInf (Fin b) = PosInf"
| "jsPlus NegInf (Fin b) = NegInf"
| "jsPlus PosInf PosInf = PosInf"
| "jsPlus PosInf NegInf = NaN"
| "jsPlus NegInf PosInf = NaN"
| "jsPlus NegInf NegInf = NegInf"

text \<open>\<open>x < y\<close>; \<open>x > y\<close> is \<open>jsLess y x\<close>. Every comparison with \<open>NaN\<close> is false.\<close>

fun jsLess :: "jsnum \<Rightarrow> jsnum \<Rightarrow> bool" where
  "jsLess NaN y = False"
| "jsLess x NaN = False"
| "jsLess (Fin a) (Fin b) = (a < b)"
| "jsLess (Fin a) PosInf = True"
| "jsLess (Fin a) NegInf = False"
| "jsLess PosInf y = False"
| "jsLess NegInf (Fin b) = True"
| "jsLess NegInf PosInf = True"
| "jsLess NegInf NegInf = False"

text \<open>\<open>Math.min\<close>, \<open>Math.max\<close> and \<open>Math.round\<close>; \<open>jsRoundCents x\<close> is
  \<open>Math.round(x * 100) / 100\<close>.\<close>

definition jsMin :: "jsnum \<Rightarrow> jsnum \<Rightarrow> jsnum" where
  "jsMin x y = (if x = NaN \<or> y = NaN then NaN else if jsLess y x then y else x)"

definition jsMax :: "jsnum \<Rightarrow> jsnum \<Rightarrow> jsnum" where
  "jsMax x y = (if x = NaN \<or> y = NaN then NaN else if jsLess x y then y else x)"

definition jsRound :: "jsnum \<Rightarrow> jsnum" where
  "jsRound x = (case x of Fin a \<Rightarrow> Fin (of_int (round a)) | _ \<Rightarrow> x)"

definition jsRoundCents :: "jsnum \<Rightarrow> jsnum" where
  "jsRoundCents x = jsDivide (jsRound (jsTimes x (Fin 100))) (Fin 100)"

text \<open>
  The tables of the engine are object literals, read with \<open>table[key]\<close>. Such a read finds
  the own keys of the literal and, behind them, the properties that every object inherits
  from \<open>Object.prototype\<close>: a function, or the prototype itself for \<open>__proto__\<close>. An
  inherited value differs from \<open>undefined\<close>, is truthy, and is \<open>NaN\<close> once used as a number.
\<close>

datatype property = Missing | Own number | Inherited

definition objectPrototypeKeys :: "string list" where
  "objectPrototypeKeys =
     [''constructor'', ''__proto__'', ''hasOwnProperty'', ''isPrototypeOf'',
      ''propertyIsEnumerable'', ''toLocaleString'', ''toString'', ''valueOf'',
      ''__defineGetter__'', ''__defineSetter__'', ''__lookupGetter__'', ''__lookupSetter__'']"

definition getProperty :: "(string \<times> number) list \<Rightarrow> string \<Rightarrow> property" where
  "getProperty table key =
     (case map_of table key of
        Some v \<Rightarrow> Own v
      | None \<Rightarrow> if key \<in> set objectPrototypeKeys then Inherited else Missing)"

definition toNumber :: "property \<Rightarrow> jsnum" where
  "toNumber v = (case v of Own x \<Rightarrow> Fin x | Inherited \<Rightarrow> NaN | Missing \<Rightarrow> NaN)"

definition isWhitespace :: "char \<Rightarrow> bool" where
  "isWhitespace c = (c \<in> set [CHR 0x09, CHR 0x0A, CHR 0x0B, CHR 0x0C, CHR 0x0D, CHR 0x20, CHR 0xA0])"

definition isAsciiLetter :: "char \<Rightarrow> bool" where
  "isAsciiLetter c = (let n = (of_char c :: int) in (65 \<le> n \<and> n \<le> 90) \<or> (97 \<le> n \<and> n \<le> 122))"

text \<open>\<open>toLowerCase\<close> on one code unit: \<open>A\<close>..\<open>Z\<close> and U+00C0..U+00DE (without the
  multiplication sign U+00D7) move up by 32; every other code unit below 256 is unchanged.\<close>

definition toLowerCaseChar :: "char \<Rightarrow> char" where
  "toLowerCaseChar c = (let n = (of_char c :: int) in
     if (65 \<le> n \<and> n \<le> 90) \<or> (192 \<le> n \<and> n \<le> 222 \<and> n \<noteq> 215)
     then char_of (n + 32) else c)"

text \<open>Canonical decomposition followed by the removal of the combining marks: the accented
  letters of U+00C0..U+00FF lose their accent; U+00C6, U+00D0, U+00D7, U+00D8, U+00DE, U+00DF
  and the lower-case forms U+00E6, U+00F0, U+00F7, U+00F8, U+00FE have no decomposition.\<close>

definition stripMarks :: "char \<Rightarrow> char" where
  "stripMarks c = (let n = (of_char c :: int) in
     if n < 192 then c
     else if n \<le> 197 then CHR ''A''
     else if n = 199 then CHR ''C''
     else if 200 \<le> n \<and> n \<le> 203 then CHR ''E''
     else if 204 \<le> n \<and> n \<le> 207 then CHR ''I''
     else if n = 209 then CHR ''N''
     else if 210 \<le> n \<and> n \<le> 214 then CHR ''O''
     else if 217 \<le> n \<and> n \<le> 220 then CHR ''U''
     else if n = 221 then CHR ''Y''
     else if 224 \<le> n \<and> n \<le> 229 then CHR ''a''
     else if n = 231 then CHR ''c''
     else if 232 \<le> n \<and> n \<le> 235 then CHR ''e''
     else if 236 \<le> n \<and> n \<le> 239 then CHR ''i''
     else if n = 241 then CHR ''n''
     else if 242 \<le> n \<and> n \<le> 246 then CHR ''o''
     else if 249 \<le> n \<and> n \<le> 252 then CHR ''u''
     else if n = 253 \<or> n = 255 then CHR ''y''
     else c)"

definition toLowerCase :: "string \<Rightarrow> string" where
  "toLowerCase s = map toLowerCaseChar s"

definition trim :: "string \<Rightarrow> string" where
  "trim s = rev (dropWhile isWhitespace (rev (dropWhile isWhitespace s)))"

definition normalizeText :: "string \<Rightarrow> string" where
  "normalizeText text = map stripMarks (toLowerCase text)"

definition includesStr :: "string \<Rightarrow> string \<Rightarrow> bool" where
  "includesStr s sub = sublist sub s"

definition startsWith :: "string \<Rightarrow> string \<Rightarrow> bool" where
  "startsWith s p = prefix p s"

definition endsWith :: "string \<Rightarrow> string \<Rightarrow> bool" where
  "endsWith s p = suffix p s"

function splitWs :: "string \<Rightarrow> string list" where
  "splitWs s =
     (let tok = takeWhile (\<lambda>c. \<not> isWhitespace c) s;
          rest = dropWhile (\<lambda>c. \<not> isWhitespace c) s
      in if rest = [] then [tok] else tok # splitWs (dropWhile isWhitespace rest))"
  by pat_completeness auto
termination
proof (relation "measure length")
  fix s tok rest
  assume r: "rest = dropWhile (\<lambda>c. \<not> isWhitespace c) s" and ne: "rest \<noteq> []"
  from ne obtain c cs where rc: "rest = c # cs" by (cases rest) auto
  have "isWhitespace c" using r rc dropWhile_eq_Cons_conv[of "\<lambda>c. \<not> isWhitespace c" s c cs] by auto
  then have "length (dropWhile isWhitespace rest) \<le> length cs"
    using rc by (simp add: length_dropWhile_le)
  moreover have "length rest \<le> length s" using r by (simp add: length_dropWhile_le)
  ultimately show "(dropWhile isWhitespace rest, s) \<in> measure length" using rc by simp
qed simp

declare splitWs.simps [simp del]

section \<open>Product matching\<close>

datatype error = SyntaxError | DbError string

text \<open>
  \<open>matchesWholeWord\<close> builds a regular expression from its argument without escaping it.
  For a word free of syntax characters the expression is a literal search, case-insensitive,
  bounded on both sides by the start or end of the text or by a character outside
  \<open>[a-zA-Z]\<close>; this is \<open>wholeWordSearch\<close>. A word that opens a group it never closes makes
  the \<open>RegExp\<close> constructor throw. For every other word the engine of the runtime, which is
  not part of the repository, is the parameter \<open>rx pattern text\<close>: \<open>None\<close> when the constructor
  throws, otherwise the result of \<open>test\<close> under flag \<open>i\<close>.
\<close>

type_synonym regexp_engine = "string \<Rightarrow> string \<Rightarrow> bool option"

definition regExpSyntaxChars :: "string" where
  "regExpSyntaxChars = ''^$.*+?()[]{}|'' @ [CHR 0x5C]"

definition hasSyntaxChar :: "string \<Rightarrow> bool" where
  "hasSyntaxChar word = (\<exists>c \<in> set word. c \<in> set regExpSyntaxChars)"

definition opensUnclosedGroup :: "string \<Rightarrow> bool" where
  "opensUnclosedGroup word =
     (CHR ''('' \<in> set word \<and> CHR '')'' \<notin> set word \<and> CHR ''['' \<notin> set word \<and> CHR 0x5C \<notin> set word)"

definition leftBoundary :: "char option \<Rightarrow> bool" where
  "leftBoundary prev = (case prev of None \<Rightarrow> True | Some p \<Rightarrow> \<not> isAsciiLetter p)"

definition rightBoundary :: "string \<Rightarrow> bool" where
  "rightBoundary rest = (case rest of [] \<Rightarrow> True | d # _ \<Rightarrow> \<not> isAsciiLetter d)"

fun wholeWordSearch :: "char option \<Rightarrow> string \<Rightarrow> string \<Rightarrow> bool" where
  "wholeWordSearch prev [] word = (leftBoundary prev \<and> word = [])"
| "wholeWordSearch prev (c # rest) word =
     ((leftBoundary prev \<and> prefix (toLowerCase word) (toLowerCase (c # rest))
         \<and> rightBoundary (drop (length word) (c # rest)))
      \<or> wholeWordSearch (Some c) rest word)"

definition wholeWordPattern :: "string \<Rightarrow> string" where
  "wholeWordPattern word =
     ''(^|'' @ [CHR 0x5C] @ ''s|[^a-z])'' @ word @ ''($|'' @ [CHR 0x5C] @ ''s|[^a-z])''"

definition matchesWholeWord :: "regexp_engine \<Rightarrow> string \<Rightarrow> string \<Rightarrow> error + bool" where
  "matchesWholeWord rx text word =
     (if \<not> hasSyntaxChar word then Inr (wholeWordSearch None text word)
      else if opensUnclosedGroup word then Inl SyntaxError
      else (case rx (wholeWordPattern word) text of None \<Rightarrow> Inl SyntaxError | Some b \<Rightarrow> Inr b))"

definition INGREDIENT_KEYWORDS :: "(string \<times> string list) list" where
  "INGREDIENT_KEYWORDS = [
   (''poulet'', [''poulet'', ''volaille'', ''poitrine poulet'', ''cuisse poulet'', ''aile poulet'']),
   (''boeuf'', [''boeuf'', ''bifteck'', ''steak'', ''viande hachee'', ''hach'' @ [CHR 0xE9]]),
   (''porc'', [''porc'', ''cotelette'', ''longe'', ''filet porc'', ''bacon'', ''jambon'']),
   (''poisson'', [''poisson'', ''saumon'', ''tilapia'', ''truite'', ''morue'', ''sole'', ''thon'']),
   (''oeuf'', [''oeuf'', ''oeufs'']),
   (''lait'', [''lait'', ''lactose'']),
   (''fromage'', [''fromage'', ''cheddar'', ''mozzarella'', ''parmesan'', ''brie'', ''feta'']),
   (''yogourt'', [''yogourt'', ''yaourt'', ''grec'', ''iogo'']),
   (''pain'', [''pain'', ''baguette'', ''croute'', ''tranche'']),
   (''pates'', [''pate'', ''pates'', ''spaghetti'', ''macaroni'', ''penne'', ''fusilli'', ''catelli'']),
   (''riz'', [''riz'', ''basmati'', ''jasmin'']),
   (''tomate'', [''tomate'', ''tomates'']),
   (''oignon'', [''oignon'', ''oignons'', ''echalote'']),
   (''ail'', [''ail'', ''gousse'']),
   (''carotte'', [''carotte'', ''carottes'']),
   (''pomme de terre'', [''pomme terre'', ''patate'', ''patates'', ''pommes terre'']),
   (''beurre'', [''beurre'', ''margarine'']),
   (''huile'', [''huile'', ''olive'', ''canola'', ''vegetale'']),
   (''sucre'', [''sucre'', ''cassonade'']),
   (''farine'', [''farine'', ''ble'']),
   (''legumes'', [''legume'', ''legumes'', ''brocoli'', ''epinard'', ''courgette'', ''poivron'']),
   (''fruits'', [''pomme'', ''banane'', ''orange'', ''fraise'', ''bleuet'', ''framboise''])]"

definition dedupe :: "'a list \<Rightarrow> 'a list" where
  "dedupe xs = rev (remdups (rev xs))"

definition getRelatedKeywords :: "string \<Rightarrow> string list" where
  "getRelatedKeywords ingredientName =
     (let normalized = normalizeText ingredientName in
      dedupe (concat (map (\<lambda>(key, values).
        (let keyNorm = normalizeText key in
         (if includesStr normalized keyNorm \<or> includesStr keyNorm normalized then values else [])
         @ (if \<exists>v \<in> set values. includesStr normalized (normalizeText v) then values else [])))
        INGREDIENT_KEYWORDS)))"

definition EXCLUDED_PRODUCT_KEYWORDS :: "string list" where
  "EXCLUDED_PRODUCT_KEYWORDS = [
   ''pampers'', ''huggies'', ''couche'', ''couches'', ''diaper'', ''diapers'', ''tablet'',
   ''tablette'', ''samsung'', ''apple'', ''iphone'', ''ipad'', ''galaxy'', ''television'',
   ''televiseur'', ''tele'', ''ecran'', ''monitor'', ''matelas'', ''meuble'', ''meubles'',
   ''furniture'', ''velo'', ''v'' @ [CHR 0xE9] @ ''lo'', ''bicycle'', ''exercice'',
   ''fitness'', ''pelle'', ''neige'', ''outils'', ''tools'', ''shampoo'', ''shampooing'',
   ''savon'', ''soap'', ''detergent'', ''nettoyant'', ''papier toilette'', ''toilet paper'',
   ''mouchoir'', ''tissue'', ''vetement'', ''v'' @ [CHR 0xEA] @ ''tement'', ''clothing'',
   ''shirt'', ''pantalon'', ''matcha'', ''supplement'', ''vitamine'', ''vitamin'',
   ''fonctionnel'', ''functional'', ''adaptogene'', ''adaptogen'']"

definition isExcludedProduct :: "string \<Rightarrow> bool" where
  "isExcludedProduct promoNorm = (\<exists>excluded \<in> set EXCLUDED_PRODUCT_KEYWORDS. includesStr promoNorm excluded)"

definition wordsOf :: "string \<Rightarrow> string list" where
  "wordsOf normalized = filter (\<lambda>w. length w \<ge> 2) (splitWs normalized)"

text \<open>One turn of the loop over the ingredient's words: the pair is
  \<open>(exactWordMatches, partialMatches)\<close>.\<close>

definition tallyWord :: "string list \<Rightarrow> string \<Rightarrow> nat \<times> number \<Rightarrow> nat \<times> number" where
  "tallyWord promoWords ingWord acc =
     (if \<exists>pw \<in> set promoWords. pw = ingWord then (fst acc + 1, snd acc)
      else if \<exists>pw \<in> set promoWords. startsWith pw ingWord \<or> endsWith pw ingWord
      then (if length ingWord \<ge> 4 then (fst acc, snd acc + 0.5) else acc)
      else acc)"

definition baseScore :: "string list \<Rightarrow> string list \<Rightarrow> number" where
  "baseScore ingredientWords promoWords =
     (let (exactWordMatches, partialMatches) = fold (tallyWord promoWords) ingredientWords (0, 0);
          exactScore = of_nat exactWordMatches / of_nat (length ingredientWords);
          partialScore = partialMatches / of_nat (length ingredientWords) * 0.3
      in exactScore + partialScore)"

fun keywordHit :: "regexp_engine \<Rightarrow> string list \<Rightarrow> string \<Rightarrow> string list \<Rightarrow> error + bool" where
  "keywordHit rx promoWords promoNorm [] = Inr False"
| "keywordHit rx promoWords promoNorm (kw # kws) =
     (if \<exists>pw \<in> set promoWords. pw = kw then Inr True
      else (case matchesWholeWord rx promoNorm kw of
              Inl e \<Rightarrow> Inl e
            | Inr True \<Rightarrow> Inr True
            | Inr False \<Rightarrow> keywordHit rx promoWords promoNorm kws))"

definition fullNameMatch :: "regexp_engine \<Rightarrow> string list \<Rightarrow> string \<Rightarrow> string \<Rightarrow> error + bool" where
  "fullNameMatch rx promoWords promoNorm ingredientNorm =
     (if \<exists>pw \<in> set promoWords. pw = ingredientNorm then Inr True
      else matchesWholeWord rx promoNorm ingredientNorm)"

definition scorePromoMatch :: "regexp_engine \<Rightarrow> string \<Rightarrow> string \<Rightarrow> error + number" where
  "scorePromoMatch rx ingredientName promoName =
     (let ingredientNorm = normalizeText ingredientName;
          promoNorm = normalizeText promoName
      in if isExcludedProduct promoNorm then Inr 0
         else
          (let ingredientWords = wordsOf ingredientNorm;
               promoWords = wordsOf promoNorm
           in case fullNameMatch rx promoWords promoNorm ingredientNorm of
                Inl e \<Rightarrow> Inl e
              | Inr True \<Rightarrow> Inr 1
              | Inr False \<Rightarrow>
                  if ingredientWords = [] then Inr 0
                  else (case keywordHit rx promoWords promoNorm (getRelatedKeywords ingredientName) of
                          Inl e \<Rightarrow> Inl e
                        | Inr True \<Rightarrow> Inr (max (baseScore ingredientWords promoWords) 0.5)
                        | Inr False \<Rightarrow> Inr (baseScore ingredientWords promoWords))))"

text \<open>The two tallies of the loop, stated on their own: a word of the ingredient is an exact
  match when it is one of the candidate's words, and a partial match when it is not, has at
  least four characters and starts or ends one of the candidate's words.\<close>

definition isExactWord :: "string list \<Rightarrow> string \<Rightarrow> bool" where
  "isExactWord promoWords w = (w \<in> set promoWords)"

definition isPartialWord :: "string list \<Rightarrow> string \<Rightarrow> bool" where
  "isPartialWord promoWords w =
     (w \<notin> set promoWords \<and> 4 \<le> length w \<and> (\<exists>pw \<in> set promoWords. prefix w pw \<or> suffix w pw))"

text \<open>The score before the keyword floor as the specification words it:
  \<open>exactWordMatches / ingredientWordCount + 0.3 \<times> (partialMatches / ingredientWordCount)\<close>,
  with \<open>partialMatches\<close> the number of partial matches.\<close>

definition specBaseScore :: "string list \<Rightarrow> string list \<Rightarrow> number" where
  "specBaseScore ingredientWords promoWords =
     of_nat (length (filter (isExactWord promoWords) ingredientWords)) / of_nat (length ingredientWords)
     + 0.3 * (of_nat (length (filter (isPartialWord promoWords) ingredientWords))
              / of_nat (length ingredientWords))"

section \<open>Unit conversion tables\<close>

definition categoryEstimates :: "(string \<times> number) list" where
  "categoryEstimates = [
   (''Viandes'', 8.99), (''Poissons'', 12.99), (''Produits laitiers'', 4.99),
   (''Fruits et l'' @ [CHR 0xE9] @ ''gumes'', 2.99), (''Boulangerie'', 3.49),
   ([CHR 0xC9] @ ''picerie'', 3.99), (''Surgel'' @ [CHR 0xE9] @ ''s'', 5.99)]"

definition UNIT_TO_ML :: "(string \<times> number) list" where
  "UNIT_TO_ML = [
   (''c. '' @ [CHR 0xE0] @ '' soupe'', 15), (''c.s.'', 15), (''tbsp'', 15),
   (''cuill'' @ [CHR 0xE8] @ ''re '' @ [CHR 0xE0] @ '' soupe'', 15),
   (''cuilleres a soupe'', 15), (''c. '' @ [CHR 0xE0] @ '' th'' @ [CHR 0xE9], 5),
   (''c.t.'', 5), (''tsp'', 5),
   (''cuill'' @ [CHR 0xE8] @ ''re '' @ [CHR 0xE0] @ '' th'' @ [CHR 0xE9], 5),
   (''cuilleres a the'', 5), (''tasse'', 250), (''tasses'', 250), (''cup'', 250),
   (''cups'', 250), (''ml'', 1), (''millilitre'', 1), (''millilitres'', 1), (''cl'', 10),
   (''centilitre'', 10), (''centilitres'', 10), (''l'', 1000), (''litre'', 1000),
   (''litres'', 1000)]"

definition UNIT_TO_G :: "(string \<times> number) list" where
  "UNIT_TO_G = [
   (''g'', 1), (''gramme'', 1), (''grammes'', 1), (''kg'', 1000), (''kilogramme'', 1000),
   (''kilogrammes'', 1000), (''lb'', 454), (''lbs'', 454), (''livre'', 454), (''livres'', 454),
   (''oz'', 28.35), (''once'', 28.35), (''onces'', 28.35),
   (''pinc'' @ [CHR 0xE9] @ ''e'', 0.5), (''pincee'', 0.5), (''pinch'', 0.5)]"

datatype size_unit = Ml | G

definition PRODUCT_STANDARD_SIZES :: "(string \<times> number \<times> size_unit) list" where
  "PRODUCT_STANDARD_SIZES = [
   (''huile'', 750, Ml), (''huile d'' @ [CHR 0x27] @ ''olive'', 750, Ml),
   (''huile olive'', 750, Ml),
   (''huile v'' @ [CHR 0xE9] @ ''g'' @ [CHR 0xE9] @ ''tale'', 946, Ml),
   (''huile vegetale'', 946, Ml), (''huile de canola'', 946, Ml), (''vinaigre'', 500, Ml),
   (''vinaigre balsamique'', 250, Ml), (''sauce soya'', 450, Ml), (''sauce soja'', 450, Ml),
   (''sirop d'' @ [CHR 0x27] @ [CHR 0xE9] @ ''rable'', 540, Ml), (''sirop erable'', 540, Ml),
   (''miel'', 500, Ml), (''lait'', 2000, Ml), (''cr'' @ [CHR 0xE8] @ ''me'', 473, Ml),
   (''creme'', 473, Ml), (''bouillon'', 900, Ml), (''moutarde'', 250, Ml),
   (''moutarde de dijon'', 250, Ml), (''mayonnaise'', 450, Ml), (''ketchup'', 750, Ml),
   (''sriracha'', 480, Ml), (''sauce piquante'', 150, Ml), (''tabasco'', 60, Ml),
   (''sambal'', 200, Ml), (''p'' @ [CHR 0xE2] @ ''te de tomate'', 156, Ml),
   (''pate de tomate'', 156, Ml), (''p'' @ [CHR 0xE2] @ ''te de tomates'', 156, Ml),
   (''pate de tomates'', 156, Ml), (''vin'', 750, Ml), (''vin rouge'', 750, Ml),
   (''vin blanc'', 750, Ml), (''bouillon de boeuf'', 900, Ml),
   (''bouillon de poulet'', 900, Ml), (''bouillon de l'' @ [CHR 0xE9] @ ''gumes'', 900, Ml),
   (''bouillon de legumes'', 900, Ml), (''paprika'', 50, G),
   (''paprika fum'' @ [CHR 0xE9], 50, G), (''paprika fume'', 50, G), (''cumin'', 50, G),
   (''origan'', 25, G), (''oregano'', 25, G), (''thym'', 25, G), (''thym frais'', 25, G),
   (''feuille de laurier'', 10, G), (''feuilles de laurier'', 10, G), (''laurier'', 10, G),
   (''basilic'', 250, Ml), (''basilic frais'', 250, Ml),
   (''basilic hach'' @ [CHR 0xE9], 250, Ml), (''romarin'', 250, Ml),
   (''romarin frais'', 250, Ml), (''persil'', 250, Ml), (''persil frais'', 250, Ml),
   (''persil hach'' @ [CHR 0xE9], 250, Ml), (''coriandre'', 250, Ml),
   (''coriandre fra'' @ [CHR 0xEE] @ ''che'', 250, Ml), (''coriandre fraiche'', 250, Ml),
   (''coriandre hach'' @ [CHR 0xE9] @ ''e'', 250, Ml), (''coriandre hachee'', 250, Ml),
   (''menthe'', 250, Ml), (''menthe fra'' @ [CHR 0xEE] @ ''che'', 250, Ml),
   (''menthe fraiche'', 250, Ml), (''ciboulette'', 250, Ml), (''aneth'', 250, Ml),
   (''cannelle'', 50, G), (''muscade'', 30, G), (''poivre'', 50, G), (''sel'', 500, G),
   (''ail en poudre'', 50, G), (''poudre d'' @ [CHR 0x27] @ ''ail'', 50, G),
   (''oignon en poudre'', 50, G), (''poudre d'' @ [CHR 0x27] @ ''oignon'', 50, G),
   (''herbes de provence'', 30, G), ([CHR 0xE9] @ ''pices italiennes'', 30, G),
   (''epices italiennes'', 30, G), (''cari'', 50, G), (''curry'', 50, G),
   (''gingembre moulu'', 40, G), (''piment'', 40, G), (''cayenne'', 40, G),
   (''farine'', 2500, G), (''sucre'', 2000, G), (''cassonade'', 1000, G), (''riz'', 900, G),
   (''p'' @ [CHR 0xE2] @ ''tes'', 450, G), (''pates'', 450, G), (''spaghetti'', 450, G),
   (''quinoa'', 400, G), (''avoine'', 1000, G), (''chapelure'', 425, G), (''beurre'', 454, G),
   (''fromage'', 400, G), (''parmesan'', 200, G), (''yogourt'', 650, G),
   (''cr'' @ [CHR 0xE8] @ ''me fra'' @ [CHR 0xEE] @ ''che'', 250, Ml),
   (''creme fraiche'', 250, Ml), (''cr'' @ [CHR 0xE8] @ ''me sure'', 500, Ml),
   (''creme sure'', 500, Ml)]"

text \<open>The set literal of the source also lists \<open>oeuf\<close> a second time and two spellings with
  the ligature U+0153, which is outside the alphabet of the model; every string over the
  alphabet that is part of one of them is part of \<open>oeufs\<close>.\<close>

definition UNIT_BASED_INGREDIENTS :: "string list" where
  "UNIT_BASED_INGREDIENTS = [
   ''oeuf'', ''oeufs'', ''oignon'', ''oignons'', ''oignon vert'', ''oignons verts'',
   [CHR 0xE9] @ ''chalote verte'', ''echalote verte'', ''ail'',
   ''gousse d'' @ [CHR 0x27] @ ''ail'', ''gousses d'' @ [CHR 0x27] @ ''ail'', ''citron'',
   ''citrons'', ''lime'', ''limes'', ''orange'', ''oranges'', ''pomme'', ''pommes'',
   ''banane'', ''bananes'', ''avocat'', ''avocats'', ''tomate'', ''tomates'', ''poivron'',
   ''poivrons'', ''concombre'', ''concombres'', ''carotte'', ''carottes'', ''pomme de terre'',
   ''pommes de terre'', ''patate'', ''patates'', ''poulet'', ''poitrine de poulet'',
   ''cuisse de poulet'', ''pain'', ''baguette'', ''piment'', ''piment oiseau'',
   ''jalape'' @ [CHR 0xF1] @ ''o'', ''jalapeno'']"

definition UNIT_WEIGHT_IN_GRAMS :: "(string \<times> number) list" where
  "UNIT_WEIGHT_IN_GRAMS = [
   (''ail'', 5), (''gousse d'' @ [CHR 0x27] @ ''ail'', 5),
   (''gousses d'' @ [CHR 0x27] @ ''ail'', 5), (''oignon'', 150), (''oignons'', 150),
   (''oeuf'', 50), (''oeufs'', 50), (''citron'', 100), (''citrons'', 100), (''lime'', 70),
   (''limes'', 70), (''orange'', 180), (''oranges'', 180), (''pomme'', 180), (''pommes'', 180),
   (''banane'', 120), (''bananes'', 120), (''avocat'', 200), (''avocats'', 200),
   (''tomate'', 150), (''tomates'', 150), (''poivron'', 150), (''poivrons'', 150),
   (''concombre'', 300), (''concombres'', 300), (''carotte'', 80), (''carottes'', 80),
   (''pomme de terre'', 200), (''pommes de terre'', 200), (''patate'', 200),
   (''patates'', 200), (''thym frais'', 10), (''thym'', 10), (''feuille de laurier'', 0.3),
   (''feuilles de laurier'', 0.3), (''laurier'', 0.3), (''basilic frais'', 15),
   (''romarin frais'', 10), (''romarin'', 10), (''persil frais'', 15), (''persil'', 15),
   (''coriandre fra'' @ [CHR 0xEE] @ ''che'', 15), (''coriandre fraiche'', 15),
   (''coriandre'', 15), (''menthe fra'' @ [CHR 0xEE] @ ''che'', 10), (''menthe fraiche'', 10),
   (''menthe'', 10), (''oignon vert'', 15), (''oignons verts'', 15),
   ([CHR 0xE9] @ ''chalote verte'', 15), (''echalote verte'', 15), (''piment oiseau'', 5),
   (''piment'', 10), (''jalape'' @ [CHR 0xF1] @ ''o'', 15), (''jalapeno'', 15),
   (''gingembre'', 10), (''gingembre frais'', 10), ([CHR 0xE9] @ ''chalote'', 30),
   (''echalote'', 30), (''brocoli'', 300), (''laitue'', 400), (''chou'', 500),
   (''chou-fleur'', 500), (''courgette'', 200), (''courgettes'', 200),
   (''c'' @ [CHR 0xE9] @ ''leri'', 40), (''celeri'', 40), (''champignon'', 20),
   (''champignons'', 20)]"

section \<open>The equivalence cache\<close>

text \<open>The cache is a \<open>Map\<close> from normalised ingredient names to \<open>{toQuantity, toUnit}\<close>; an
  association list keeps its iteration order, which is the order of first insertion.\<close>

type_synonym equivalence_cache = "(string \<times> number \<times> string) list"

fun mapSet :: "'k \<Rightarrow> 'v \<Rightarrow> ('k \<times> 'v) list \<Rightarrow> ('k \<times> 'v) list" where
  "mapSet k v [] = [(k, v)]"
| "mapSet k v ((k', v') # m) = (if k' = k then (k, v) # m else (k', v') # mapSet k v m)"

definition partialEquivalence :: "equivalence_cache \<Rightarrow> string \<Rightarrow> number option" where
  "partialEquivalence cache normalized =
     map_option (\<lambda>(key, toQuantity, toUnit). toQuantity)
       (find (\<lambda>(key, toQuantity, toUnit).
                toUnit = ''g'' \<and> (includesStr normalized key \<or> includesStr key normalized)) cache)"

definition getUnitWeightFromEquivalences :: "equivalence_cache \<Rightarrow> string \<Rightarrow> number option" where
  "getUnitWeightFromEquivalences cache ingredientName =
     (let normalized = normalizeText ingredientName in
      case map_of cache normalized of
        Some (toQuantity, toUnit) \<Rightarrow>
          if toUnit = ''g'' then Some toQuantity else partialEquivalence cache normalized
      | None \<Rightarrow> partialEquivalence cache normalized)"

definition getUnitWeightInGrams :: "equivalence_cache \<Rightarrow> string \<Rightarrow> number option" where
  "getUnitWeightInGrams cache ingredientName =
     (case getUnitWeightFromEquivalences cache ingredientName of
        Some dbWeight \<Rightarrow> Some dbWeight
      | None \<Rightarrow>
          (let normalized = normalizeText ingredientName in
           map_option snd
             (find (\<lambda>(key, weight).
                      (let keyNorm = normalizeText key in
                       normalized = keyNorm \<or> includesStr normalized keyNorm \<or> includesStr keyNorm normalized))
                   UNIT_WEIGHT_IN_GRAMS)))"

definition getProductStandardSize :: "string \<Rightarrow> (number \<times> size_unit) option" where
  "getProductStandardSize ingredientName =
     (let normalized = normalizeText ingredientName in
      case find (\<lambda>(key, v). normalizeText key = normalized) PRODUCT_STANDARD_SIZES of
        Some (key, v) \<Rightarrow> Some v
      | None \<Rightarrow>
          map_option snd
            (find (\<lambda>(key, v).
                     (let keyNorm = normalizeText key in
                      includesStr normalized keyNorm \<or> includesStr keyNorm normalized))
                  PRODUCT_STANDARD_SIZES))"

definition isUnitBasedIngredient :: "string \<Rightarrow> bool" where
  "isUnitBasedIngredient ingredientName =
     (let normalized = normalizeText ingredientName in
      \<exists>item \<in> set UNIT_BASED_INGREDIENTS.
        includesStr normalized (normalizeText item) \<or> includesStr (normalizeText item) normalized)"

definition weightUnits :: "string list" where
  "weightUnits = [
   ''g'', ''kg'', ''gramme'', ''grammes'', ''kilogramme'', ''kilogrammes'', ''lb'', ''lbs'',
   ''oz'']"

definition volumeUnits :: "string list" where
  "volumeUnits = [
   ''ml'', ''l'', ''cl'', ''millilitre'', ''millilitres'', ''litre'', ''litres'',
   ''centilitre'', ''centilitres'', ''c. '' @ [CHR 0xE0] @ '' soupe'', ''c.s.'', ''tbsp'',
   ''cuill'' @ [CHR 0xE8] @ ''re '' @ [CHR 0xE0] @ '' soupe'', ''cuilleres a soupe'',
   ''c. '' @ [CHR 0xE0] @ '' th'' @ [CHR 0xE9], ''c.t.'', ''tsp'',
   ''cuill'' @ [CHR 0xE8] @ ''re '' @ [CHR 0xE0] @ '' th'' @ [CHR 0xE9], ''cuilleres a the'',
   ''tasse'', ''tasses'', ''cup'', ''cups'']"

definition isWeightOrVolumeUnit :: "string \<Rightarrow> bool" where
  "isWeightOrVolumeUnit unit =
     (let u = trim (toLowerCase unit) in u \<in> set weightUnits \<or> u \<in> set volumeUnits)"

definition countingUnits :: "string list" where
  "countingUnits = [
   ''gousse'', ''gousses'', ''branche'', ''branches'', ''tige'', ''tiges'', ''feuille'',
   ''feuilles'', ''tranche'', ''tranches'', ''morceau'', ''morceaux'', ''unit'' @ [CHR 0xE9],
   ''unit'' @ [CHR 0xE9] @ ''s'', ''pi'' @ [CHR 0xE8] @ ''ce'', ''pi'' @ [CHR 0xE8] @ ''ces'',
   '''']"

section \<open>Cost of a quantity\<close>


text \<open>The estimated package size in grams and the flag \<open>isProbablyPerItemPrice\<close>, by
  ingredient family and displayed price.\<close>

definition packageHeuristic :: "string \<Rightarrow> jsnum \<Rightarrow> number \<times> bool" where
  "packageHeuristic normalized productPrice =
     (let has = includesStr normalized in
      if has ''ail'' \<or> has ''gousse'' then (50, False)
      else if has ''oignon vert'' \<or> has ''oignons vert'' \<or> has ''oignons verts''
              \<or> has ''echalote verte'' \<or> has ''echalotes verte'' \<or> has ''echalotes vertes''
      then (100, False)
      else if has ''herbe'' \<or> has ''thym'' \<or> has ''romarin'' \<or> has ''basilic''
              \<or> has ''persil'' \<or> has ''coriandre'' \<or> has ''menthe'' \<or> has ''laurier''
      then (30, False)
      else if has ''carotte'' then (if jsLess productPrice (Fin 0.80) then (80, True) else (1000, False))
      else if has ''oignon'' \<and> \<not> has ''vert''
      then (if jsLess productPrice (Fin 0.80) then (150, True) else (1500, False))
      else if (has ''pomme'' \<and> has ''terre'') \<or> has ''patate''
      then (if jsLess productPrice (Fin 0.80) then (200, True) else (2000, False))
      else if has ''citron'' \<or> has ''lime''
      then (if jsLess productPrice (Fin 1.50) then (100, True) else (1000, False))
      else if has ''orange'' then (if jsLess productPrice (Fin 1.50) then (180, True) else (1000, False))
      else if has ''piment'' \<or> has ''jalapeno'' then (100, False)
      else if has ''banane'' then (if jsLess productPrice (Fin 1.00) then (120, True) else (1000, False))
      else if has ''pomme'' \<and> \<not> has ''terre''
      then (if jsLess productPrice (Fin 1.50) then (180, True) else (1000, False))
      else if has ''tomate'' then (if jsLess productPrice (Fin 1.50) then (150, True) else (1000, False))
      else if has ''avocat'' then (if jsLess productPrice (Fin 3.00) then (200, True) else (600, False))
      else if has ''concombre'' then (if jsLess productPrice (Fin 1.50) then (300, True) else (600, False))
      else if has ''poivron'' then (if jsLess productPrice (Fin 1.50) then (150, True) else (500, False))
      else if has ''celeri'' then (500, False)
      else (500, False))"

text \<open>The default package size when the table has none and the unit is a weight or a volume.\<close>

definition defaultStandardSize :: "string \<Rightarrow> string \<Rightarrow> (number \<times> size_unit) option" where
  "defaultStandardSize normalized unitLower =
     (let has = includesStr normalized in
      if has ''poulet'' \<or> has ''boeuf'' \<or> has ''porc'' \<or> has ''viande''
         \<or> has ''jambon'' \<or> has ''saucisse'' \<or> has ''bacon'' \<or> has ''dinde''
      then Some (1000, G)
      else if has ''poisson'' \<or> has ''saumon'' \<or> has ''crevette'' \<or> has ''morue''
      then Some (500, G)
      else if has ''fromage'' then Some (400, G)
      else if unitLower = ''g'' \<or> unitLower = ''kg'' then Some (500, G)
      else if unitLower = ''ml'' \<or> unitLower = ''l'' then Some (500, Ml)
      else None)"

text \<open>The branches of \<open>calculateProportionalCost\<close>: the test of its first \<open>if\<close>, the variable
  \<open>standardSize\<close> after the defaults, and the variable \<open>recipeQuantityInStandardUnit\<close>,
  \<open>None\<close> for \<open>null\<close>.\<close>

definition countBased :: "string \<Rightarrow> string \<Rightarrow> bool" where
  "countBased unitLower ingredientName =
     (let hasWeightVolumeUnit = isWeightOrVolumeUnit unitLower;
          isCountingUnit = (unitLower \<in> set countingUnits)
      in \<not> hasWeightVolumeUnit \<and> (isUnitBasedIngredient ingredientName \<or> isCountingUnit))"

definition standardSize :: "string \<Rightarrow> string \<Rightarrow> (number \<times> size_unit) option" where
  "standardSize ingredientName unitLower =
     (case getProductStandardSize ingredientName of
        Some sz \<Rightarrow> Some sz
      | None \<Rightarrow>
          if isWeightOrVolumeUnit unitLower
          then defaultStandardSize (normalizeText ingredientName) unitLower
          else None)"

definition recipeQuantityInStandardUnit :: "size_unit \<Rightarrow> number \<Rightarrow> string \<Rightarrow> jsnum option" where
  "recipeQuantityInStandardUnit sizeUnit quantity unitLower =
     (case sizeUnit of
        Ml \<Rightarrow>
          if getProperty UNIT_TO_ML unitLower \<noteq> Missing
          then Some (jsTimes (Fin quantity) (toNumber (getProperty UNIT_TO_ML unitLower)))
          else if getProperty UNIT_TO_G unitLower \<noteq> Missing
          then Some (jsTimes (Fin quantity) (toNumber (getProperty UNIT_TO_G unitLower)))
          else None
      | G \<Rightarrow>
          if getProperty UNIT_TO_G unitLower \<noteq> Missing
          then Some (jsTimes (Fin quantity) (toNumber (getProperty UNIT_TO_G unitLower)))
          else if getProperty UNIT_TO_ML unitLower \<noteq> Missing
          then Some (jsTimes (Fin quantity) (toNumber (getProperty UNIT_TO_ML unitLower)))
          else None)"

definition calculateProportionalCost ::
  "equivalence_cache \<Rightarrow> number \<Rightarrow> string \<Rightarrow> jsnum \<Rightarrow> string \<Rightarrow> jsnum" where
  "calculateProportionalCost cache quantity unit productPrice ingredientName =
     (let unitLower = trim (toLowerCase unit) in
      if countBased unitLower ingredientName then
        (case getUnitWeightInGrams cache ingredientName of
           Some unitWeight \<Rightarrow>
             (let totalWeightNeeded = quantity * unitWeight;
                  (packageSizeGrams, isProbablyPerItemPrice) =
                     packageHeuristic (normalizeText ingredientName) productPrice;
                  cost = (if isProbablyPerItemPrice then jsTimes productPrice (Fin quantity)
                          else (let proportion = totalWeightNeeded / packageSizeGrams;
                                    numPackagesNeeded = of_int \<lceil>proportion\<rceil>
                                in jsMin (jsTimes productPrice (Fin proportion))
                                         (jsTimes productPrice (Fin numPackagesNeeded))))
              in jsMax (Fin 0.01) (jsRoundCents cost))
         | None \<Rightarrow>
             (let multiplier = min (of_int \<lceil>quantity\<rceil>) 2 in jsTimes productPrice (Fin multiplier)))
      else
        (case standardSize ingredientName unitLower of
           None \<Rightarrow> productPrice
         | Some (stdSize, sizeUnit) \<Rightarrow>
             (case recipeQuantityInStandardUnit sizeUnit quantity unitLower of
                None \<Rightarrow> productPrice
              | Some q \<Rightarrow>
                  (let proportion = jsDivide q (Fin stdSize);
                       proportionalPrice = jsTimes productPrice proportion
                   in jsMax (Fin 0.01) (jsRoundCents proportionalPrice)))))"

definition unite :: "string" where
  "unite = ''unit'' @ [CHR 0xE9]"

definition isPieceUnit :: "string \<Rightarrow> bool" where
  "isPieceUnit unitLower =
     (unitLower = [] \<or> unitLower = unite \<or> unitLower = unite @ ''s''
      \<or> unitLower = ''pi'' @ [CHR 0xE8] @ ''ce'' \<or> unitLower = ''pi'' @ [CHR 0xE8] @ ''ces'')"

text \<open>The variable \<open>quantityNormalized\<close> of \<open>calculateCostFromUnitPrice\<close> before the test
  for \<open>null\<close>: the quantity of the recipe in kilograms or litres.\<close>

definition quantityNormalized ::
  "equivalence_cache \<Rightarrow> number \<Rightarrow> string \<Rightarrow> string \<Rightarrow> string \<Rightarrow> jsnum option" where
  "quantityNormalized cache quantity unitLower ingredientName priceUnitLower =
     (if priceUnitLower = ''kg'' then
        (if getProperty UNIT_TO_G unitLower \<noteq> Missing
         then Some (jsDivide (jsTimes (Fin quantity) (toNumber (getProperty UNIT_TO_G unitLower))) (Fin 1000))
         else if unitLower = ''g'' then Some (Fin (quantity / 1000))
         else if unitLower = ''kg'' then Some (Fin quantity)
         else if getProperty UNIT_TO_ML unitLower \<noteq> Missing
         then Some (jsDivide (jsTimes (Fin quantity) (toNumber (getProperty UNIT_TO_ML unitLower))) (Fin 1000))
         else if isPieceUnit unitLower
         then map_option (\<lambda>unitWeight. Fin ((quantity * unitWeight) / 1000))
                (getUnitWeightInGrams cache ingredientName)
         else None)
      else if priceUnitLower = ''l'' then
        (if getProperty UNIT_TO_ML unitLower \<noteq> Missing
         then Some (jsDivide (jsTimes (Fin quantity) (toNumber (getProperty UNIT_TO_ML unitLower))) (Fin 1000))
         else if unitLower = ''ml'' then Some (Fin (quantity / 1000))
         else if unitLower = ''l'' then Some (Fin quantity)
         else if getProperty UNIT_TO_G unitLower \<noteq> Missing
         then Some (jsDivide (jsTimes (Fin quantity) (toNumber (getProperty UNIT_TO_G unitLower))) (Fin 1000))
         else None)
      else None)"

definition calculateCostFromUnitPrice ::
  "equivalence_cache \<Rightarrow> number \<Rightarrow> string \<Rightarrow> jsnum \<Rightarrow> string \<Rightarrow> string \<Rightarrow> jsnum" where
  "calculateCostFromUnitPrice cache quantity unit unitPrice ingredientName priceUnit =
     (let unitLower = trim (toLowerCase unit);
          priceUnitLower = toLowerCase priceUnit
      in
      if priceUnitLower = unite \<or> priceUnitLower = []
      then jsMax (Fin 0.01) (jsRoundCents (jsTimes unitPrice (Fin quantity)))
      else
        (case quantityNormalized cache quantity unitLower ingredientName priceUnitLower of
           Some q \<Rightarrow> jsMax (Fin 0.01) (jsRoundCents (jsTimes unitPrice q))
         | None \<Rightarrow>
             if isUnitBasedIngredient ingredientName \<and> priceUnitLower = ''kg''
             then (let defaultUnitWeight = 100
                   in jsMax (Fin 0.01)
                        (jsRoundCents (jsTimes unitPrice (Fin ((quantity * defaultUnitWeight) / 1000)))))
             else jsMax (Fin 0.01) (jsRoundCents (jsTimes unitPrice (Fin quantity)))))"

section \<open>Price selection\<close>

definition GLOBAL_MAX_INGREDIENT_PRICE :: "number" where
  "GLOBAL_MAX_INGREDIENT_PRICE = 50"

definition GLOBAL_MAX_INGREDIENT_COST :: "number" where
  "GLOBAL_MAX_INGREDIENT_COST = 60"

definition INGREDIENT_PRICE_CAPS :: "(string \<times> number) list" where
  "INGREDIENT_PRICE_CAPS = [
   (''eau'', 3), (''water'', 3), (''sel'', 4), (''salt'', 4), (''poivre'', 8), (''pepper'', 8),
   (''sucre'', 6), (''sugar'', 6), (''miel'', 12), (''honey'', 12), (''sirop'', 12),
   (''syrup'', 12), (''sauce soya'', 6), (''soy sauce'', 6), (''sauce soja'', 6),
   (''sauce poisson'', 6), (''fish sauce'', 6), (''vinaigre'', 6), (''vinegar'', 6),
   (''huile'', 12), (''oil'', 12), (''moutarde'', 5), (''mustard'', 5), (''ketchup'', 5),
   (''mayonnaise'', 6), (''mayo'', 6), (''sambal'', 6), (''sriracha'', 6), (''ail'', 5),
   (''garlic'', 5), (''oignon'', 4), (''onion'', 4), (''echalote'', 4), (''shallot'', 4),
   (''oignons verts'', 4), (''green onion'', 4), (''gingembre'', 5), (''ginger'', 5),
   (''coriandre'', 4), (''cilantro'', 4), (''persil'', 4), (''parsley'', 4), (''basilic'', 4),
   (''basil'', 4), (''thym'', 4), (''thyme'', 4), (''romarin'', 4), (''rosemary'', 4),
   (''menthe'', 4), (''mint'', 4), (''laurier'', 4), (''bay'', 4), (''piment'', 4),
   (''chili'', 4), (''jalapeno'', 4), (''cumin'', 5), (''paprika'', 5), (''curcuma'', 5),
   (''carotte'', 5), (''carrot'', 5), (''celeri'', 4), (''celery'', 4),
   (''pomme de terre'', 6), (''potato'', 6), (''patate'', 6), (''tomate'', 6), (''tomato'', 6),
   (''concombre'', 4), (''cucumber'', 4), (''poivron'', 5), (''bell pepper'', 5),
   (''laitue'', 4), (''lettuce'', 4), (''epinard'', 5), (''spinach'', 5), (''brocoli'', 5),
   (''broccoli'', 5), (''chou'', 4), (''cabbage'', 4), (''courgette'', 4), (''zucchini'', 4),
   (''champignon'', 6), (''mushroom'', 6), (''citron'', 4), (''lemon'', 4), (''lime'', 4),
   (''orange'', 5), (''pomme'', 5), (''apple'', 5), (''banane'', 4), (''banana'', 4),
   (''beurre'', 8), (''butter'', 8), (''creme'', 6), (''cream'', 6), (''lait'', 6),
   (''milk'', 6), (''yogourt'', 6), (''yogurt'', 6), (''ricotta'', 8), (''feta'', 10),
   (''parmesan'', 12), (''bouillon'', 5), (''broth'', 5), (''stock'', 5), (''pate tomate'', 4),
   (''tomato paste'', 4), (''concentre'', 5), (''farine'', 6), (''flour'', 6), (''oeuf'', 8),
   (''egg'', 8), (''tapioca'', 6), (''fecule'', 5), (''starch'', 5), (''levure'', 5),
   (''yeast'', 5), (''gelatine'', 5), (''pates'', 6), (''pasta'', 6), (''spaghetti'', 6),
   (''macaroni'', 6), (''riz'', 8), (''rice'', 8), (''quinoa'', 10), (''couscous'', 6),
   (''noix'', 15), (''nut'', 15), (''amande'', 15), (''almond'', 15), (''arachide'', 8),
   (''peanut'', 8), (''sesame'', 8)]"

definition getIngredientPriceCap :: "string \<Rightarrow> number" where
  "getIngredientPriceCap ingredientName =
     (let normalized = normalizeText ingredientName in
      case find (\<lambda>(key, cap). includesStr normalized (normalizeText key)
                               \<or> includesStr (normalizeText key) normalized)
                INGREDIENT_PRICE_CAPS of
        Some (key, cap) \<Rightarrow> cap
      | None \<Rightarrow> GLOBAL_MAX_INGREDIENT_PRICE)"

record UnifiedPriceData =
  genericProduct :: "string option"
  regularPrice :: "number option"
  salePrice :: "number option"
  unitPrice :: "number option"
  unified_quantity :: "number"
  unified_unit :: "string"

record Promo =
  promo_productName :: "string"
  promoPrice :: "number"

record Ref =
  ref_productName :: "string"
  ref_price :: "number"

record CachedStoreData =
  unified :: "UnifiedPriceData list"
  promos :: "Promo list"
  refs :: "Ref list"

datatype source = Unified | FromPromo | Reference | Estimate

record IngredientPricingResult =
  ingredientName :: "string"
  price :: "jsnum"
  source :: "source"
  normalizedUnit :: "string option"

record UnifiedMatch =
  match_unitPrice :: "number"
  match_normalizedUnit :: "string"
  match_productPrice :: "number"
  match_quantity :: "number"
  match_unit :: "string"

text \<open>The loop of \<open>findUnifiedPrice\<close> over the catalogue: \<open>bestMatch\<close> and \<open>bestScore\<close> are the
  accumulators, an exact name ends the loop.\<close>

fun bestUnifiedMatch ::
  "string \<Rightarrow> string list \<Rightarrow> UnifiedPriceData list \<Rightarrow> UnifiedPriceData option \<Rightarrow> number
     \<Rightarrow> UnifiedPriceData option" where
  "bestUnifiedMatch fullNameNorm searchTerms [] bestMatch bestScore = bestMatch"
| "bestUnifiedMatch fullNameNorm searchTerms (u # us) bestMatch bestScore =
     (case genericProduct u of
        None \<Rightarrow> bestUnifiedMatch fullNameNorm searchTerms us bestMatch bestScore
      | Some name \<Rightarrow>
          if name = [] then bestUnifiedMatch fullNameNorm searchTerms us bestMatch bestScore
          else
            (let productNorm = normalizeText name in
             if productNorm = fullNameNorm then Some u
             else
               (let matches = (includesStr productNorm fullNameNorm \<or> includesStr fullNameNorm productNorm
                               \<or> (\<exists>term \<in> set searchTerms. includesStr productNorm term))
                in if matches then
                     (let score = of_nat (length fullNameNorm) / of_nat (length productNorm) in
                      if bestMatch = None \<or> score > bestScore
                      then bestUnifiedMatch fullNameNorm searchTerms us (Some u) score
                      else bestUnifiedMatch fullNameNorm searchTerms us bestMatch bestScore)
                   else bestUnifiedMatch fullNameNorm searchTerms us bestMatch bestScore)))"

definition findUnifiedPrice :: "string \<Rightarrow> CachedStoreData \<Rightarrow> UnifiedMatch option" where
  "findUnifiedPrice name storeData =
     (let searchTerms = filter (\<lambda>t. length t > 2) (splitWs (normalizeText name));
          fullNameNorm = normalizeText name
      in case bestUnifiedMatch fullNameNorm searchTerms (unified storeData) None 0 of
           None \<Rightarrow> None
         | Some bestMatch \<Rightarrow>
             (let productPrice = (case salePrice bestMatch of
                                    Some p \<Rightarrow> p
                                  | None \<Rightarrow> (case regularPrice bestMatch of Some p \<Rightarrow> p | None \<Rightarrow> 0))
              in if productPrice = 0 then None
                 else
                   (let unit = toLowerCase (unified_unit bestMatch);
                        quantity = (if unified_quantity bestMatch = 0 then 1 else unified_quantity bestMatch);
                        orUnite = (if unit = [] then unite else unit)
                    in case unitPrice bestMatch of
                         Some up \<Rightarrow>
                           Some \<lparr>match_unitPrice = up,
                                 match_normalizedUnit =
                                   (if unit = ''g'' \<or> unit = ''kg'' then ''kg''
                                    else if unit = ''ml'' \<or> unit = ''l'' then ''l''
                                    else orUnite),
                                 match_productPrice = productPrice,
                                 match_quantity = unified_quantity bestMatch,
                                 match_unit = unified_unit bestMatch\<rparr>
                       | None \<Rightarrow>
                           if quantity > 0 then
                             Some \<lparr>match_unitPrice =
                                     (if unit = ''g'' \<or> unit = ''ml'' then (productPrice / quantity) * 1000
                                      else productPrice / quantity),
                                   match_normalizedUnit =
                                     (if unit = ''g'' \<or> unit = ''kg'' then ''kg''
                                      else if unit = ''ml'' \<or> unit = ''l'' then ''l''
                                      else orUnite),
                                   match_productPrice = productPrice,
                                   match_quantity = unified_quantity bestMatch,
                                   match_unit = unified_unit bestMatch\<rparr>
                           else None)))"

text \<open>The loops over promotions and reference prices keep the best \<open>(price, score)\<close> so far;
  an exception of \<open>scorePromoMatch\<close> ends them.\<close>

fun bestOffer ::
  "regexp_engine \<Rightarrow> string \<Rightarrow> number \<Rightarrow> (string \<times> number) list \<Rightarrow> (number \<times> number) option
     \<Rightarrow> error + (number \<times> number) option" where
  "bestOffer rx name cap [] best = Inr best"
| "bestOffer rx name cap ((productName, offerPrice) # offers) best =
     (if offerPrice > cap then bestOffer rx name cap offers best
      else (case scorePromoMatch rx name productName of
              Inl e \<Rightarrow> Inl e
            | Inr score \<Rightarrow>
                if score \<ge> 0.5 then
                  (case best of
                     None \<Rightarrow> bestOffer rx name cap offers (Some (offerPrice, score))
                   | Some (bestPrice, bestScore) \<Rightarrow>
                       if score > bestScore \<or> (score = bestScore \<and> offerPrice < bestPrice)
                       then bestOffer rx name cap offers (Some (offerPrice, score))
                       else bestOffer rx name cap offers best)
                else bestOffer rx name cap offers best))"

text \<open>\<open>ingredientCategory ? categoryEstimates[ingredientCategory] || 3.99 : 3.99\<close>: an own
  estimate other than zero, an inherited value, or the default.\<close>

definition categoryEstimate :: "string option \<Rightarrow> property" where
  "categoryEstimate ingredientCategory =
     (case ingredientCategory of
        None \<Rightarrow> Own 3.99
      | Some category \<Rightarrow>
          if category = [] then Own 3.99
          else (case getProperty categoryEstimates category of
                  Own e \<Rightarrow> (if e = 0 then Own 3.99 else Own e)
                | Inherited \<Rightarrow> Inherited
                | Missing \<Rightarrow> Own 3.99))"

definition findBestPrice ::
  "regexp_engine \<Rightarrow> string \<Rightarrow> string option \<Rightarrow> CachedStoreData \<Rightarrow> error + IngredientPricingResult" where
  "findBestPrice rx name ingredientCategory storeData =
     (let ingredientPriceCap = getIngredientPriceCap name;
          unifiedMatch = findUnifiedPrice name storeData
      in case (case unifiedMatch of
                 Some m \<Rightarrow> if match_unitPrice m > 0 then Some m else None
               | None \<Rightarrow> None) of
           Some m \<Rightarrow>
             Inr \<lparr>ingredientName = name, price = Fin (min (match_unitPrice m) ingredientPriceCap),
                  source = Unified, normalizedUnit = Some (match_normalizedUnit m)\<rparr>
         | None \<Rightarrow>
             (case bestOffer rx name ingredientPriceCap
                     (map (\<lambda>p. (promo_productName p, promoPrice p)) (promos storeData)) None of
                Inl e \<Rightarrow> Inl e
              | Inr (Some (bestPrice, bestScore)) \<Rightarrow>
                  Inr \<lparr>ingredientName = name, price = Fin bestPrice, source = FromPromo, normalizedUnit = None\<rparr>
              | Inr None \<Rightarrow>
                  (case bestOffer rx name ingredientPriceCap
                          (map (\<lambda>r. (ref_productName r, ref_price r)) (refs storeData)) None of
                     Inl e \<Rightarrow> Inl e
                   | Inr (Some (bestPrice, bestScore)) \<Rightarrow>
                       Inr \<lparr>ingredientName = name, price = Fin bestPrice, source = Reference,
                            normalizedUnit = None\<rparr>
                   | Inr None \<Rightarrow>
                       Inr \<lparr>ingredientName = name,
                            price = jsMin (toNumber (categoryEstimate ingredientCategory)) (Fin ingredientPriceCap),
                            source = Estimate, normalizedUnit = None\<rparr>)))"

section \<open>Pricing one recipe at one store\<close>

record RecipeIngredient =
  ri_recipeId :: "string"
  ri_ingredientId :: "string"
  ri_quantity :: "number option"
  ri_unit :: "string option"

record Ingredient =
  ingredient_id :: "string"
  ingredient_name :: "string"
  ingredient_category :: "string option"

record IngredientBreakdownItem =
  item_ingredientId :: "string"
  item_ingredientName :: "string"
  item_quantity :: "number"
  item_unit :: "string"
  item_unitPrice :: "jsnum"
  item_priceUnit :: "string"
  item_calculatedCost :: "jsnum"
  item_source :: "source"

text \<open>\<open>q || 1\<close> and \<open>u || unite\<close>: a missing value, zero and the empty string are falsy.\<close>

definition quantityOr1 :: "number option \<Rightarrow> number" where
  "quantityOr1 q = (case q of None \<Rightarrow> 1 | Some v \<Rightarrow> if v = 0 then 1 else v)"

definition unitOrUnite :: "string option \<Rightarrow> string" where
  "unitOrUnite u = (case u of None \<Rightarrow> unite | Some v \<Rightarrow> if v = [] then unite else v)"

text \<open>\<open>aggregatedIngs\<close>: one entry \<open>(quantity, unit)\<close> per ingredient id, in the order of first
  appearance; a repeated ingredient adds its quantity and keeps the first unit.\<close>

definition aggregateStep ::
  "RecipeIngredient \<Rightarrow> (string \<times> number \<times> string) list \<Rightarrow> (string \<times> number \<times> string) list" where
  "aggregateStep ri aggregatedIngs =
     (case map_of aggregatedIngs (ri_ingredientId ri) of
        Some (quantity, unit) \<Rightarrow>
          mapSet (ri_ingredientId ri) (quantity + quantityOr1 (ri_quantity ri), unit) aggregatedIngs
      | None \<Rightarrow>
          mapSet (ri_ingredientId ri) (quantityOr1 (ri_quantity ri), unitOrUnite (ri_unit ri))
            aggregatedIngs)"

definition aggregateIngredients :: "RecipeIngredient list \<Rightarrow> (string \<times> number \<times> string) list" where
  "aggregateIngredients recipeIngs = fold aggregateStep recipeIngs []"

definition capIngredientCost :: "jsnum \<Rightarrow> jsnum" where
  "capIngredientCost costForQuantity =
     (if jsLess (Fin GLOBAL_MAX_INGREDIENT_COST) costForQuantity then Fin GLOBAL_MAX_INGREDIENT_COST
      else costForQuantity)"

definition usesUnitPrice :: "IngredientPricingResult \<Rightarrow> bool" where
  "usesUnitPrice pricing =
     (source pricing = Unified \<and> (case normalizedUnit pricing of None \<Rightarrow> False | Some nu \<Rightarrow> nu \<noteq> []))"

definition priceUnitLabel :: "IngredientPricingResult \<Rightarrow> string \<Rightarrow> string" where
  "priceUnitLabel pricing unit =
     (if usesUnitPrice pricing then the (normalizedUnit pricing)
      else (let unitLower = toLowerCase unit in
            if \<exists>u \<in> set [''g'', ''kg'', ''lb'', ''oz'']. includesStr unitLower u then ''kg''
            else if \<exists>u \<in> set [''ml'', ''l'', ''cl'', ''tasse'', ''cup'']. includesStr unitLower u then ''l''
            else unite))"

definition costForQuantity ::
  "equivalence_cache \<Rightarrow> IngredientPricingResult \<Rightarrow> number \<Rightarrow> string \<Rightarrow> string \<Rightarrow> jsnum" where
  "costForQuantity cache pricing quantity unit name =
     capIngredientCost
       (if usesUnitPrice pricing
        then calculateCostFromUnitPrice cache quantity unit (price pricing) name (the (normalizedUnit pricing))
        else calculateProportionalCost cache quantity unit (price pricing) name)"

text \<open>The loop over the aggregated ingredients; the accumulator is
  \<open>(totalCost, missingCount, breakdown)\<close>. An ingredient id without an ingredient counts as
  missing and is skipped; an exception of \<open>findBestPrice\<close> leaves the loop.\<close>

fun priceIngredients ::
  "regexp_engine \<Rightarrow> equivalence_cache \<Rightarrow> (string \<rightharpoonup> Ingredient) \<Rightarrow> CachedStoreData
     \<Rightarrow> (string \<times> number \<times> string) list \<Rightarrow> jsnum \<times> nat \<times> IngredientBreakdownItem list
     \<Rightarrow> error + jsnum \<times> nat \<times> IngredientBreakdownItem list" where
  "priceIngredients rx cache ingredientMap storeData [] acc = Inr acc"
| "priceIngredients rx cache ingredientMap storeData ((ingredientId, riQuantity, riUnit) # rest)
       (totalCost, missingCount, breakdown) =
     (case ingredientMap ingredientId of
        None \<Rightarrow>
          priceIngredients rx cache ingredientMap storeData rest (totalCost, missingCount + 1, breakdown)
      | Some ingredient \<Rightarrow>
          (case findBestPrice rx (ingredient_name ingredient) (ingredient_category ingredient) storeData of
             Inl e \<Rightarrow> Inl e
           | Inr pricing \<Rightarrow>
               (let missingCount' = (if source pricing = Estimate then missingCount + 1 else missingCount);
                    quantity = (if riQuantity = 0 then 1 else riQuantity);
                    unit = (if riUnit = [] then unite else riUnit);
                    cost = costForQuantity cache pricing quantity unit (ingredient_name ingredient);
                    item = \<lparr>item_ingredientId = ingredientId,
                            item_ingredientName = ingredient_name ingredient,
                            item_quantity = quantity,
                            item_unit = unit,
                            item_unitPrice = price pricing,
                            item_priceUnit = priceUnitLabel pricing unit,
                            item_calculatedCost = jsRoundCents cost,
                            item_source = source pricing\<rparr>
                in priceIngredients rx cache ingredientMap storeData rest
                     (jsPlus totalCost cost, missingCount', breakdown @ [item]))))"

definition MAX_RECIPE_TOTAL :: "number" where
  "MAX_RECIPE_TOTAL = 200"

record PairResult =
  pair_totalCost :: "jsnum"
  pair_missingCount :: "nat"
  pair_isComplete :: "bool"
  pair_breakdown :: "IngredientBreakdownItem list"

definition priceRecipeAtStore ::
  "regexp_engine \<Rightarrow> equivalence_cache \<Rightarrow> (string \<rightharpoonup> Ingredient) \<Rightarrow> CachedStoreData
     \<Rightarrow> RecipeIngredient list \<Rightarrow> error + PairResult" where
  "priceRecipeAtStore rx cache ingredientMap storeData recipeIngs =
     (case priceIngredients rx cache ingredientMap storeData (aggregateIngredients recipeIngs) (Fin 0, 0, []) of
        Inl e \<Rightarrow> Inl e
      | Inr (summed, missingCount, breakdown) \<Rightarrow>
          (let rounded = jsRoundCents summed;
               totalCost = (if jsLess (Fin MAX_RECIPE_TOTAL) rounded then Fin MAX_RECIPE_TOTAL else rounded);
               isComplete = (missingCount = 0 \<and> jsLess (Fin 0) totalCost)
           in Inr \<lparr>pair_totalCost = totalCost, pair_missingCount = missingCount,
                   pair_isComplete = isComplete, pair_breakdown = breakdown\<rparr>))"

text \<open>What the loop is expected to count, stated on the aggregated list: the ingredient ids
  that have no ingredient, and the known ingredients for which \<open>findBestPrice\<close> returns a
  category estimate.\<close>

definition unknownIngredients :: "(string \<rightharpoonup> Ingredient) \<Rightarrow> (string \<times> number \<times> string) list \<Rightarrow> nat" where
  "unknownIngredients ingredientMap aggregatedIngs =
     length (filter (\<lambda>(ingredientId, q, u). ingredientMap ingredientId = None) aggregatedIngs)"

definition fallsBackToEstimate ::
  "regexp_engine \<Rightarrow> (string \<rightharpoonup> Ingredient) \<Rightarrow> CachedStoreData \<Rightarrow> string \<Rightarrow> bool" where
  "fallsBackToEstimate rx ingredientMap storeData ingredientId =
     (case ingredientMap ingredientId of
        None \<Rightarrow> False
      | Some ingredient \<Rightarrow>
          (case findBestPrice rx (ingredient_name ingredient) (ingredient_category ingredient) storeData of
             Inl e \<Rightarrow> False
           | Inr pricing \<Rightarrow> source pricing = Estimate))"

definition estimateFallbacks ::
  "regexp_engine \<Rightarrow> (string \<rightharpoonup> Ingredient) \<Rightarrow> CachedStoreData
     \<Rightarrow> (string \<times> number \<times> string) list \<Rightarrow> nat" where
  "estimateFallbacks rx ingredientMap storeData aggregatedIngs =
     length (filter (\<lambda>(ingredientId, q, u). fallsBackToEstimate rx ingredientMap storeData ingredientId)
               aggregatedIngs)"



section \<open>The calculation run\<close>

text \<open>
  The database is a record of tables. A statement of the run that the database rejects is
  given by a record of faults: each field names a statement and holds the message of the
  exception it throws, if any. The clock holds the readings of the run: \<open>Date.now()\<close> in
  milliseconds, today's ISO date, the ISO date of the Monday of the week, and the timestamp
  written to the rows. Dates compare as strings.
\<close>

record Recipe =
  recipe_id :: "string"
  recipe_name :: "string"
  estimatedPrice :: "jsnum option"

record Store =
  store_id :: "string"
  store_name :: "string"

record RecipeStorePrice =
  row_id :: "nat"
  row_recipeId :: "string"
  row_storeId :: "string"
  row_weekOf :: "string"
  row_totalCost :: "jsnum"
  row_missingIngredientsCount :: "nat"
  row_isComplete :: "bool"
  row_ingredientBreakdown :: "IngredientBreakdownItem list"
  row_calculatedAt :: "string"

record EquivalenceRow =
  eq_ingredientName :: "string"
  eq_toQuantity :: "number option"
  eq_toUnit :: "string option"

record Database =
  db_recipes :: "Recipe list"
  db_stores :: "Store list"
  db_ingredients :: "Ingredient list"
  db_recipeIngredients :: "RecipeIngredient list"
  db_unifiedPrices :: "(string \<times> UnifiedPriceData) list"
  db_flyerPromotions :: "(string \<times> string \<times> Promo) list"
  db_referencePrices :: "(string \<times> Ref) list"
  db_equivalences :: "EquivalenceRow list"
  db_recipeStorePrices :: "RecipeStorePrice list"

record Faults =
  fault_equivalences :: "string option"
  fault_recipes :: "string option"
  fault_stores :: "string option"
  fault_ingredients :: "string option"
  fault_recipeIngredients :: "string option"
  fault_unified :: "string \<Rightarrow> string option"
  fault_promos :: "string \<Rightarrow> string option"
  fault_refs :: "string \<Rightarrow> string option"
  fault_upsert :: "string \<Rightarrow> string \<Rightarrow> string option"
  fault_rollup :: "string option"

record Clock =
  clock_now :: "int"
  clock_today :: "string"
  clock_weekOf :: "string"
  clock_calculatedAt :: "string"

record ModuleState =
  isCalculating :: "bool"
  calculationStartTime :: "int option"
  ingredientEquivalenceCache :: "equivalence_cache"
  lastEquivalenceCacheLoad :: "int"
  database :: "Database"

record Summary =
  success :: "bool"
  recipesProcessed :: "nat"
  storesProcessed :: "nat"
  errors :: "string list"

definition EQUIVALENCE_CACHE_TTL :: "int" where
  "EQUIVALENCE_CACHE_TTL = 5 * 60 * 1000"

definition MAX_CALCULATION_TIME_MS :: "int" where
  "MAX_CALCULATION_TIME_MS = 10 * 60 * 1000"

text \<open>The module \<^verbatim>\<open>./types\<close> that exports \<open>STORE_IDS\<close> is not among the sources; the two
  identifiers are those of the export of the same name in \<^verbatim>\<open>mock-data.ts\<close>.\<close>

definition STORE_IDS_ADONIS :: "string" where
  "STORE_IDS_ADONIS = ''adonis''"

definition STORE_IDS_PROVIGO :: "string" where
  "STORE_IDS_PROVIGO = ''provigo''"

definition isAllowedStoreId :: "string \<Rightarrow> bool" where
  "isAllowedStoreId sid = (sid \<noteq> STORE_IDS_ADONIS \<and> sid \<noteq> STORE_IDS_PROVIGO)"

text \<open>\<open>error instanceof Error ? error.message : 'Unknown error'\<close>. The text of the message
  of a \<open>SyntaxError\<close> depends on the engine; only its first words are kept.\<close>

definition errorMessage :: "error \<Rightarrow> string" where
  "errorMessage e = (case e of SyntaxError \<Rightarrow> ''Invalid regular expression'' | DbError m \<Rightarrow> m)"

definition forceResetCalculationFlag :: "ModuleState \<Rightarrow> ModuleState" where
  "forceResetCalculationFlag st = st\<lparr>isCalculating := False, calculationStartTime := None\<rparr>"

definition forceResetCalculationLock :: "ModuleState \<Rightarrow> ModuleState \<times> bool" where
  "forceResetCalculationLock st =
     (st\<lparr>isCalculating := False, calculationStartTime := None\<rparr>, isCalculating st)"

definition cacheEquivalence :: "EquivalenceRow \<Rightarrow> equivalence_cache \<Rightarrow> equivalence_cache" where
  "cacheEquivalence row cache =
     (case (eq_toQuantity row, eq_toUnit row) of
        (Some toQuantity, Some toUnit) \<Rightarrow>
          if toUnit \<noteq> [] then mapSet (normalizeText (eq_ingredientName row)) (toQuantity, toUnit) cache
          else cache
      | _ \<Rightarrow> cache)"

definition loadIngredientEquivalences :: "Faults \<Rightarrow> Clock \<Rightarrow> ModuleState \<Rightarrow> ModuleState" where
  "loadIngredientEquivalences faults clock st =
     (if clock_now clock - lastEquivalenceCacheLoad st < EQUIVALENCE_CACHE_TTL
         \<and> ingredientEquivalenceCache st \<noteq> []
      then st
      else (case fault_equivalences faults of
              Some message \<Rightarrow> st
            | None \<Rightarrow>
                st\<lparr>ingredientEquivalenceCache := fold cacheEquivalence (db_equivalences (database st)) [],
                   lastEquivalenceCacheLoad := clock_now clock\<rparr>))"

text \<open>The upsert of one row. \<open>existingPrice\<close> is the row that the \<open>select\<close> of the pair
  and the week returns, the first in the table. The identifier of an inserted row is chosen
  by the database; here it is the successor of the largest identifier in the table.\<close>

definition freshId :: "RecipeStorePrice list \<Rightarrow> nat" where
  "freshId rows = Suc (fold max (map row_id rows) 0)"

definition existingPrice ::
  "Clock \<Rightarrow> string \<Rightarrow> string \<Rightarrow> RecipeStorePrice list \<Rightarrow> RecipeStorePrice option" where
  "existingPrice clock recipeId storeId rows =
     find (\<lambda>row. row_recipeId row = recipeId \<and> row_storeId row = storeId
                 \<and> row_weekOf row = clock_weekOf clock) rows"

definition upsertRow ::
  "Clock \<Rightarrow> string \<Rightarrow> string \<Rightarrow> PairResult \<Rightarrow> RecipeStorePrice list \<Rightarrow> RecipeStorePrice list" where
  "upsertRow clock recipeId storeId res rows =
     (case existingPrice clock recipeId storeId rows of
        Some existing \<Rightarrow>
          map (\<lambda>row. if row_id row = row_id existing
                      then row\<lparr>row_totalCost := pair_totalCost res,
                               row_missingIngredientsCount := pair_missingCount res,
                               row_isComplete := pair_isComplete res,
                               row_ingredientBreakdown := pair_breakdown res,
                               row_calculatedAt := clock_calculatedAt clock\<rparr>
                      else row) rows
      | None \<Rightarrow>
          rows @ [\<lparr>row_id = freshId rows, row_recipeId = recipeId, row_storeId = storeId,
                    row_weekOf = clock_weekOf clock, row_totalCost = pair_totalCost res,
                    row_missingIngredientsCount = pair_missingCount res,
                    row_isComplete = pair_isComplete res,
                    row_ingredientBreakdown = pair_breakdown res,
                    row_calculatedAt = clock_calculatedAt clock\<rparr>])"

definition pairErrorText :: "string \<Rightarrow> string \<Rightarrow> string \<Rightarrow> string" where
  "pairErrorText recipeId storeId message =
     ''Recipe '' @ recipeId @ '' / Store '' @ storeId @ '': '' @ message"

text \<open>One turn of the loop over the recipes, inside its \<open>try\<close>: the accumulator is
  \<open>(rows, storesProcessed, errors)\<close>.\<close>

definition processPair ::
  "regexp_engine \<Rightarrow> Faults \<Rightarrow> Clock \<Rightarrow> equivalence_cache \<Rightarrow> (string \<rightharpoonup> Ingredient)
     \<Rightarrow> RecipeIngredient list \<Rightarrow> CachedStoreData \<Rightarrow> Store \<Rightarrow> Recipe
     \<Rightarrow> RecipeStorePrice list \<times> nat \<times> string list \<Rightarrow> RecipeStorePrice list \<times> nat \<times> string list" where
  "processPair rx faults clock cache ingredientMap allRecipeIngredients storeData store recipe acc =
     (case acc of (rows, processed, errs) \<Rightarrow>
        (case priceRecipeAtStore rx cache ingredientMap storeData
                (filter (\<lambda>ri. ri_recipeId ri = recipe_id recipe) allRecipeIngredients) of
           Inl e \<Rightarrow>
             (rows, processed, errs @ [pairErrorText (recipe_id recipe) (store_id store) (errorMessage e)])
         | Inr res \<Rightarrow>
             (case fault_upsert faults (recipe_id recipe) (store_id store) of
                Some message \<Rightarrow>
                  (rows, processed, errs @ [pairErrorText (recipe_id recipe) (store_id store) message])
              | None \<Rightarrow>
                  (upsertRow clock (recipe_id recipe) (store_id store) res rows, processed + 1, errs))))"

definition loadStoreData :: "Database \<Rightarrow> Clock \<Rightarrow> Store \<Rightarrow> CachedStoreData" where
  "loadStoreData db clock store =
     \<lparr>unified = map snd (filter (\<lambda>(sid, u). sid = store_id store) (db_unifiedPrices db)),
      promos = map (\<lambda>(sid, validUntil, p). p)
                 (filter (\<lambda>(sid, validUntil, p). sid = store_id store \<and> validUntil \<ge> clock_today clock)
                    (db_flyerPromotions db)),
      refs = map snd (filter (\<lambda>(sid, r). sid = store_id store) (db_referencePrices db))\<rparr>"

definition storeFault :: "Faults \<Rightarrow> Store \<Rightarrow> string option" where
  "storeFault faults store =
     (case fault_unified faults (store_id store) of
        Some message \<Rightarrow> Some message
      | None \<Rightarrow>
          (case fault_promos faults (store_id store) of
             Some message \<Rightarrow> Some message
           | None \<Rightarrow> fault_refs faults (store_id store)))"

text \<open>The loop over the stores: the accumulator is
  \<open>(rows, recipesProcessed, storesProcessed, errors)\<close>; a failing catalogue query leaves the
  loop with its message.\<close>

fun processStores ::
  "regexp_engine \<Rightarrow> Faults \<Rightarrow> Clock \<Rightarrow> equivalence_cache \<Rightarrow> Database \<Rightarrow> (string \<rightharpoonup> Ingredient)
     \<Rightarrow> Recipe list \<Rightarrow> Store list \<Rightarrow> RecipeStorePrice list \<times> nat \<times> nat \<times> string list
     \<Rightarrow> string option \<times> RecipeStorePrice list \<times> nat \<times> nat \<times> string list" where
  "processStores rx faults clock cache db ingredientMap allRecipes [] acc = (None, acc)"
| "processStores rx faults clock cache db ingredientMap allRecipes (store # rest)
       (rows, recipesDone, processed, errs) =
     (case storeFault faults store of
        Some message \<Rightarrow> (Some message, rows, recipesDone, processed, errs)
      | None \<Rightarrow>
          (case fold (processPair rx faults clock cache ingredientMap (db_recipeIngredients db)
                        (loadStoreData db clock store) store)
                  allRecipes (rows, processed, errs) of
             (rows', processed', errs') \<Rightarrow>
               processStores rx faults clock cache db ingredientMap allRecipes rest
                 (rows', length allRecipes, processed', errs')))"

text \<open>The final \<open>UPDATE\<close>: a recipe with a complete row of positive total gets the least such
  total as its estimated price. The table holds the totals as the run wrote them; a total that
  is \<open>NaN\<close> is taken to fail the test \<open>total_cost > 0\<close>, as it does in JavaScript.\<close>

definition completeTotals :: "RecipeStorePrice list \<Rightarrow> string \<Rightarrow> jsnum list" where
  "completeTotals rows recipeId =
     map row_totalCost
       (filter (\<lambda>row. row_recipeId row = recipeId \<and> jsLess (Fin 0) (row_totalCost row)
                      \<and> row_isComplete row) rows)"

definition rollup :: "RecipeStorePrice list \<Rightarrow> Recipe list \<Rightarrow> Recipe list" where
  "rollup rows recipes =
     map (\<lambda>r. case completeTotals rows (recipe_id r) of
                 [] \<Rightarrow> r
               | c # cs \<Rightarrow> r\<lparr>estimatedPrice := Some (fold jsMin cs c)\<rparr>) recipes"

definition baseLoadFault :: "Faults \<Rightarrow> string option" where
  "baseLoadFault faults =
     (case fault_recipes faults of
        Some message \<Rightarrow> Some message
      | None \<Rightarrow>
          (case fault_stores faults of
             Some message \<Rightarrow> Some message
           | None \<Rightarrow>
               (case fault_ingredients faults of
                  Some message \<Rightarrow> Some message
                | None \<Rightarrow> fault_recipeIngredients faults)))"

text \<open>\<open>new Map(allIngredients.map(i => [i.id, i]))\<close>: the last ingredient of an id wins.\<close>

definition ingredientMapOf :: "Database \<Rightarrow> (string \<rightharpoonup> Ingredient)" where
  "ingredientMapOf db = map_of (rev (map (\<lambda>i. (ingredient_id i, i)) (db_ingredients db)))"

definition allowedStores :: "Database \<Rightarrow> Store list" where
  "allowedStores db = filter (\<lambda>store. isAllowedStoreId (store_id store)) (db_stores db)"

text \<open>The body of the \<open>try\<close> with its \<open>catch\<close>: the new database and the summary.\<close>

definition runBody ::
  "regexp_engine \<Rightarrow> Faults \<Rightarrow> Clock \<Rightarrow> equivalence_cache \<Rightarrow> Database \<Rightarrow> Database \<times> Summary" where
  "runBody rx faults clock cache db =
     (case baseLoadFault faults of
        Some message \<Rightarrow>
          (db, \<lparr>success = False, recipesProcessed = 0, storesProcessed = 0, errors = [message]\<rparr>)
      | None \<Rightarrow>
          (let allRecipes = db_recipes db;
               allStores = allowedStores db;
               ingredientMap = ingredientMapOf db
           in case processStores rx faults clock cache db ingredientMap allRecipes allStores
                     (db_recipeStorePrices db, 0, 0, []) of
                (Some message, rows, recipesDone, processed, errs) \<Rightarrow>
                  (db\<lparr>db_recipeStorePrices := rows\<rparr>,
                   \<lparr>success = False, recipesProcessed = recipesDone, storesProcessed = processed,
                    errors = errs @ [message]\<rparr>)
              | (None, rows, recipesDone, processed, errs) \<Rightarrow>
                  (case fault_rollup faults of
                     Some message \<Rightarrow>
                       (db\<lparr>db_recipeStorePrices := rows\<rparr>,
                        \<lparr>success = False, recipesProcessed = recipesDone, storesProcessed = processed,
                         errors = errs @ [message]\<rparr>)
                   | None \<Rightarrow>
                       (db\<lparr>db_recipeStorePrices := rows, db_recipes := rollup rows (db_recipes db)\<rparr>,
                        \<lparr>success = True, recipesProcessed = recipesDone, storesProcessed = processed,
                         errors = errs\<rparr>))))"

definition autoReset :: "Clock \<Rightarrow> ModuleState \<Rightarrow> ModuleState" where
  "autoReset clock st =
     (case calculationStartTime st of
        Some started \<Rightarrow>
          if isCalculating st \<and> started \<noteq> 0 \<and> clock_now clock - started > MAX_CALCULATION_TIME_MS
          then st\<lparr>isCalculating := False, calculationStartTime := None\<rparr>
          else st
      | None \<Rightarrow> st)"

definition alreadyInProgress :: "Summary" where
  "alreadyInProgress =
     \<lparr>success = False, recipesProcessed = 0, storesProcessed = 0,
      errors = [''Calculation already in progress'']\<rparr>"

definition runRecipePriceCalculation ::
  "regexp_engine \<Rightarrow> Faults \<Rightarrow> Clock \<Rightarrow> ModuleState \<Rightarrow> ModuleState \<times> Summary" where
  "runRecipePriceCalculation rx faults clock st =
     (let st1 = autoReset clock st in
      if isCalculating st1 then (st1, alreadyInProgress)
      else
        (let st2 = st1\<lparr>isCalculating := True, calculationStartTime := Some (clock_now clock)\<rparr>;
             st3 = loadIngredientEquivalences faults clock st2
         in case runBody rx faults clock (ingredientEquivalenceCache st3) (database st3) of
              (db', summary) \<Rightarrow>
                (st3\<lparr>database := db', isCalculating := False, calculationStartTime := None\<rparr>, summary)))"

text \<open>A run is accepted when, after the automatic reset of a stuck lock, no run is in
  progress.\<close>

definition accepted :: "Clock \<Rightarrow> ModuleState \<Rightarrow> bool" where
  "accepted clock st = (\<not> isCalculating (autoReset clock st))"

text \<open>A fault is fatal when it lies outside the \<open>try\<close> of a pair: a base table, the
  catalogue of a store that is iterated, or the final \<open>UPDATE\<close>.\<close>

definition fatalFault :: "Faults \<Rightarrow> Database \<Rightarrow> bool" where
  "fatalFault faults db =
     (baseLoadFault faults \<noteq> None
      \<or> (\<exists>store \<in> set (allowedStores db). storeFault faults store \<noteq> None)
      \<or> fault_rollup faults \<noteq> None)"

text \<open>The stores whose loop over the recipes is run: every non-excluded store before the
  first one with a failing catalogue query, when the base tables load.\<close>

definition pricedStores :: "Faults \<Rightarrow> Database \<Rightarrow> Store list" where
  "pricedStores faults db =
     (if baseLoadFault faults = None
      then takeWhile (\<lambda>store. storeFault faults store = None) (allowedStores db)
      else [])"

text \<open>The aggregated ingredient lines of a recipe and the pricing of a pair, as the loop
  computes them from the tables.\<close>

definition aggregatedIngsOf :: "Database \<Rightarrow> Recipe \<Rightarrow> (string \<times> number \<times> string) list" where
  "aggregatedIngsOf db recipe =
     aggregateIngredients (filter (\<lambda>ri. ri_recipeId ri = recipe_id recipe) (db_recipeIngredients db))"

definition pairPricing ::
  "regexp_engine \<Rightarrow> equivalence_cache \<Rightarrow> Database \<Rightarrow> Clock \<Rightarrow> Store \<Rightarrow> Recipe \<Rightarrow> error + PairResult" where
  "pairPricing rx cache db clock store recipe =
     priceRecipeAtStore rx cache (ingredientMapOf db) (loadStoreData db clock store)
       (filter (\<lambda>ri. ri_recipeId ri = recipe_id recipe) (db_recipeIngredients db))"

text \<open>A pair is processed without error when its pricing returns and its upsert is
  accepted.\<close>

definition pairSucceeds ::
  "regexp_engine \<Rightarrow> Faults \<Rightarrow> Clock \<Rightarrow> equivalence_cache \<Rightarrow> Database \<Rightarrow> Store \<times> Recipe \<Rightarrow> bool" where
  "pairSucceeds rx faults clock cache db pair =
     (case pair of (store, recipe) \<Rightarrow>
        (case priceRecipeAtStore rx cache (ingredientMapOf db) (loadStoreData db clock store)
                (filter (\<lambda>ri. ri_recipeId ri = recipe_id recipe) (db_recipeIngredients db)) of
           Inl e \<Rightarrow> False
         | Inr res \<Rightarrow> fault_upsert faults (recipe_id recipe) (store_id store) = None))"

text \<open>A database that accepts every statement, and an engine that rejects every pattern
  handed to it; the concrete runs below hold no name with a syntax character, so the engine
  is not consulted.\<close>

definition noFaults :: "Faults" where
  "noFaults =
     \<lparr>fault_equivalences = None, fault_recipes = None, fault_stores = None,
      fault_ingredients = None, fault_recipeIngredients = None,
      fault_unified = (\<lambda>storeId. None), fault_promos = (\<lambda>storeId. None),
      fault_refs = (\<lambda>storeId. None), fault_upsert = (\<lambda>recipeId storeId. None),
      fault_rollup = None\<rparr>"

definition rejectingEngine :: "regexp_engine" where
  "rejectingEngine pattern text = None"

section \<open>The preview endpoint\<close>

text \<open>
  \<^verbatim>\<open>server.ts\<close> compares identifiers with \<open>===\<close> and \<open>includes\<close> without regard to their
  type, and reads properties that the objects of \<^verbatim>\<open>mock-data.ts\<close> do not have. An
  identifier is therefore a JavaScript value: a number, a string, or \<open>undefined\<close> for an
  absent property; \<open>===\<close> on these is equality.
\<close>

datatype jsval = JNum number | JStr string | JUndefined

record PriceEntry =
  entry_storeId :: "jsval"
  entry_ingredientId :: "jsval"
  entry_price :: "number"
  entry_quantity :: "number"
  entry_unit :: "string"

record PreviewIngredient =
  pv_id :: "jsval"
  pv_ingredientId :: "jsval"
  pv_quantity :: "number"
  pv_unit :: "string"

record PreviewRecipe =
  pv_recipeId :: "jsval"
  pv_name :: "jsval"
  pv_title :: "jsval"
  pv_ingredients :: "PreviewIngredient list"

definition getStandardQuantityInGrams :: "number \<Rightarrow> string \<Rightarrow> number" where
  "getStandardQuantityInGrams quantity unit =
     (let u = trim (toLowerCase unit) in
      if u = ''kg'' then quantity * 1000
      else if u = ''lb'' \<or> u = ''lbs'' \<or> u = ''livre'' then quantity * 454
      else if u = ''l'' then quantity * 1000
      else if u = ''ml'' then quantity
      else quantity)"

definition allowedStoreIds :: "jsval list" where
  "allowedStoreIds = [JNum 1, JNum 2, JNum 3, JNum 4]"

text \<open>\<open>parseFloat(x.toFixed(2))\<close>: the nearest hundredth, a tie going away from zero; an
  infinity and \<open>NaN\<close> are printed and read back unchanged.\<close>

definition toFixed2 :: "number \<Rightarrow> number" where
  "toFixed2 x = (if x < 0 then - (of_int \<lfloor>- x * 100 + 1 / 2\<rfloor> / 100) else of_int \<lfloor>x * 100 + 1 / 2\<rfloor> / 100)"

definition parseFloatToFixed2 :: "jsnum \<Rightarrow> jsnum" where
  "parseFloatToFixed2 x = (case x of Fin a \<Rightarrow> Fin (toFixed2 a) | _ \<Rightarrow> x)"

record BestDeal =
  deal_storeId :: "jsval"
  deal_price :: "number"
  deal_unit :: "string"
  deal_costCalculated :: "jsnum"

text \<open>The result for one ingredient: the error, or \<open>bestDeal\<close>, which is \<open>null\<close> (\<open>None\<close>) when
  no cost was below \<open>Infinity\<close>, together with \<open>bestPrice\<close>, which is added to the total of
  the recipe.\<close>

datatype ingredient_result = NoPrice string | Deal "BestDeal option" jsnum

text \<open>The \<open>forEach\<close> over the available prices; the accumulator is \<open>(bestDeal, bestPrice)\<close>.
  A price entry of quantity zero gives a cost that is infinite or \<open>NaN\<close>.\<close>

fun bestDealLoop ::
  "PreviewIngredient \<Rightarrow> PriceEntry list \<Rightarrow> BestDeal option \<times> jsnum \<Rightarrow> BestDeal option \<times> jsnum" where
  "bestDealLoop ingredient [] (bestDeal, bestPrice) = (bestDeal, bestPrice)"
| "bestDealLoop ingredient (p # ps) (bestDeal, bestPrice) =
     (let storeQtyInGrams = getStandardQuantityInGrams (entry_quantity p) (entry_unit p);
          pricePerGram = jsDivide (Fin (entry_price p)) (Fin storeQtyInGrams);
          recipeNeedInGrams = getStandardQuantityInGrams (pv_quantity ingredient) (pv_unit ingredient);
          costForRecipe = jsTimes pricePerGram (Fin recipeNeedInGrams)
      in if jsLess costForRecipe bestPrice
         then bestDealLoop ingredient ps
                (Some \<lparr>deal_storeId = entry_storeId p, deal_price = entry_price p,
                        deal_unit = entry_unit p,
                        deal_costCalculated = parseFloatToFixed2 costForRecipe\<rparr>,
                 costForRecipe)
         else bestDealLoop ingredient ps (bestDeal, bestPrice))"

definition availablePrices :: "PriceEntry list \<Rightarrow> PreviewIngredient \<Rightarrow> PriceEntry list" where
  "availablePrices prices ingredient =
     filter (\<lambda>p. entry_ingredientId p = pv_id ingredient \<and> entry_storeId p \<in> set allowedStoreIds) prices"

definition unavailable :: "string" where
  "unavailable = ''Non disponible dans les '' @ [CHR 0xE9] @ ''piceries s'' @ [CHR 0xE9] @ ''lectionn'' @ [CHR 0xE9] @ ''es''"

definition calculateIngredient :: "PriceEntry list \<Rightarrow> PreviewIngredient \<Rightarrow> ingredient_result" where
  "calculateIngredient prices ingredient =
     (case availablePrices prices ingredient of
        [] \<Rightarrow> NoPrice unavailable
      | p # ps \<Rightarrow>
          (case bestDealLoop ingredient (p # ps) (None, PosInf) of
             (bestDeal, bestPrice) \<Rightarrow> Deal bestDeal bestPrice))"

record RecipeResult =
  result_recipeName :: "jsval"
  result_ingredients :: "(PreviewIngredient \<times> ingredient_result) list"
  result_totalPrice :: "jsnum"

text \<open>The total of a recipe: 0 when an ingredient has no price, else the rounded sum of the
  best prices.\<close>

definition addBestPrice :: "ingredient_result \<Rightarrow> jsnum \<Rightarrow> jsnum" where
  "addBestPrice r recipeTotalPrice =
     (case r of NoPrice e \<Rightarrow> recipeTotalPrice | Deal bestDeal bestPrice \<Rightarrow> jsPlus recipeTotalPrice bestPrice)"

definition calculateRecipe :: "PriceEntry list \<Rightarrow> PreviewRecipe \<Rightarrow> RecipeResult" where
  "calculateRecipe prices recipe =
     (let calculatedIngredients = map (\<lambda>i. (i, calculateIngredient prices i)) (pv_ingredients recipe);
          results = map snd calculatedIngredients;
          isRecipeValid = (\<forall>r \<in> set results. case r of NoPrice e \<Rightarrow> False | _ \<Rightarrow> True);
          recipeTotalPrice = fold addBestPrice results (Fin 0)
      in \<lparr>result_recipeName = pv_name recipe,
          result_ingredients = calculatedIngredients,
          result_totalPrice = (if isRecipeValid then parseFloatToFixed2 recipeTotalPrice else Fin 0)\<rparr>)"

definition calculate :: "PreviewRecipe list \<Rightarrow> PriceEntry list \<Rightarrow> RecipeResult list" where
  "calculate recipes prices = map (calculateRecipe prices) recipes"

subsection \<open>The bundled data\<close>

definition mockIngredient :: "string \<Rightarrow> number \<Rightarrow> string \<Rightarrow> PreviewIngredient" where
  "mockIngredient ingredientId quantity unit =
     \<lparr>pv_id = JUndefined, pv_ingredientId = JStr ingredientId, pv_quantity = quantity, pv_unit = unit\<rparr>"

definition mockRecipes :: "PreviewRecipe list" where
  "mockRecipes =
     [\<lparr>pv_recipeId = JStr ''rec_pate_chinois'', pv_name = JUndefined,
       pv_title = JStr (''P'' @ [CHR 0xE2] @ ''t'' @ [CHR 0xE9] @ '' Chinois Classique''),
       pv_ingredients = [mockIngredient ''ing_boeuf'' 1 ''lb'', mockIngredient ''ing_patates'' 1 ''kg'',
                         mockIngredient ''ing_mais'' 398 ''ml'']\<rparr>,
      \<lparr>pv_recipeId = JStr ''rec_paella'', pv_name = JUndefined,
       pv_title = JStr (''Paella (Recette Incompl'' @ [CHR 0xE8] @ ''te)''),
       pv_ingredients = [mockIngredient ''ing_safran'' 2 ''g'', mockIngredient ''ing_boeuf'' 500 ''g'']\<rparr>]"

definition mockPrice :: "string \<Rightarrow> string \<Rightarrow> number \<Rightarrow> number \<Rightarrow> string \<Rightarrow> PriceEntry" where
  "mockPrice storeId ingredientId p quantity unit =
     \<lparr>entry_storeId = JStr storeId, entry_ingredientId = JStr ingredientId, entry_price = p,
      entry_quantity = quantity, entry_unit = unit\<rparr>"

definition mockPrices :: "PriceEntry list" where
  "mockPrices =
     [mockPrice ''iga'' ''ing_boeuf'' 6.99 1 ''lb'',
      mockPrice ''iga'' ''ing_patates'' 4.99 5 ''lb'',
      mockPrice ''iga'' ''ing_mais'' 1.99 398 ''ml'',
      mockPrice ''super-c'' ''ing_boeuf'' 4.44 1 ''lb'',
      mockPrice ''super-c'' ''ing_patates'' 2.99 5 ''lb'',
      mockPrice ''super-c'' ''ing_mais'' 0.99 398 ''ml'',
      mockPrice ''metro'' ''ing_boeuf'' 5.49 1 ''lb'',
      mockPrice ''metro'' ''ing_patates'' 3.49 5 ''lb'',
      mockPrice ''metro'' ''ing_mais'' 1.49 398 ''ml'',
      mockPrice ''maxi'' ''ing_boeuf'' 4.99 1 ''lb'',
      mockPrice ''maxi'' ''ing_patates'' 2.49 5 ''lb'',
      mockPrice ''maxi'' ''ing_mais'' 0.89 398 ''ml'',
      mockPrice ''adonis'' ''ing_boeuf'' 1.00 1 ''lb'',
      mockPrice ''adonis'' ''ing_patates'' 0.99 5 ''lb'',
      mockPrice ''adonis'' ''ing_mais'' 0.49 398 ''ml'',
      mockPrice ''provigo'' ''ing_boeuf'' 5.99 1 ''lb'']"

section \<open>Invariants of the price table\<close>

text \<open>\<open>rowsAllowed\<close>: every row belongs to a store outside the exclusion set.
  \<open>rowsInv R\<close>: the identifiers are a key, and every row outside \<open>R\<close> belongs to such a store.\<close>

definition rowsAllowed :: "RecipeStorePrice list \<Rightarrow> bool" where
  "rowsAllowed rows = (\<forall>row \<in> set rows. isAllowedStoreId (row_storeId row))"

definition rowsInv :: "RecipeStorePrice set \<Rightarrow> RecipeStorePrice list \<Rightarrow> bool" where
  "rowsInv R rows = (distinct (map row_id rows)
                     \<and> (\<forall>row \<in> set rows. row \<in> R \<or> isAllowedStoreId (row_storeId row)))"

text \<open>\<open>storedAs\<close>: the row of the pair for the week holds the result \<open>res\<close>.
  \<open>rowsStored done\<close>: the identifiers are a key, and every pair of \<open>done\<close> whose pricing
  returned and whose upsert was accepted is stored as its result.\<close>

definition storedAs :: "Clock \<Rightarrow> RecipeStorePrice list \<Rightarrow> string \<Rightarrow> string \<Rightarrow> PairResult \<Rightarrow> bool" where
  "storedAs clock rows recipeId storeId res =
     (case existingPrice clock recipeId storeId rows of
        None \<Rightarrow> False
      | Some row \<Rightarrow>
          row_totalCost row = pair_totalCost res
          \<and> row_missingIngredientsCount row = pair_missingCount res
          \<and> row_isComplete row = pair_isComplete res
          \<and> row_ingredientBreakdown row = pair_breakdown res)"

definition rowsStored ::
  "regexp_engine \<Rightarrow> Faults \<Rightarrow> Clock \<Rightarrow> equivalence_cache \<Rightarrow> Database \<Rightarrow> (Store \<times> Recipe) set
     \<Rightarrow> RecipeStorePrice list \<Rightarrow> bool" where
  "rowsStored rx faults clock cache db done rows =
     (distinct (map row_id rows)
      \<and> (\<forall>(store, recipe) \<in> done. \<forall>res.
            pairPricing rx cache db clock store recipe = Inr res
            \<longrightarrow> fault_upsert faults (recipe_id recipe) (store_id store) = None
            \<longrightarrow> storedAs clock rows (recipe_id recipe) (store_id store) res))"

section \<open>A small catalogue\<close>

text \<open>Two recipes that need salt, two stores that sell it, the second one in the exclusion
  set and cheaper. The table of prices is empty in \<open>exampleDatabase\<close>; in \<open>staleDatabase\<close> it
  holds one complete row of the excluded store, written before the run.\<close>

definition exampleClock :: "Clock" where
  "exampleClock =
     \<lparr>clock_now = 1000000, clock_today = ''2026-01-07'', clock_weekOf = ''2026-01-05'',
      clock_calculatedAt = ''2026-01-07T08:00:00.000Z''\<rparr>"

definition saltAt :: "number \<Rightarrow> UnifiedPriceData" where
  "saltAt perKg =
     \<lparr>genericProduct = Some ''sel'', regularPrice = Some perKg, salePrice = None,
      unitPrice = Some perKg, unified_quantity = 1, unified_unit = ''kg''\<rparr>"

definition exampleDatabase :: "Database" where
  "exampleDatabase =
     \<lparr>db_recipes = [\<lparr>recipe_id = ''r1'', recipe_name = ''saumure'', estimatedPrice = None\<rparr>,
                    \<lparr>recipe_id = ''r2'', recipe_name = ''morue'', estimatedPrice = None\<rparr>],
      db_stores = [\<lparr>store_id = ''iga'', store_name = ''IGA''\<rparr>,
                   \<lparr>store_id = ''adonis'', store_name = ''Adonis''\<rparr>],
      db_ingredients = [\<lparr>ingredient_id = ''i1'', ingredient_name = ''sel'', ingredient_category = None\<rparr>],
      db_recipeIngredients =
        [\<lparr>ri_recipeId = ''r1'', ri_ingredientId = ''i1'', ri_quantity = Some 500, ri_unit = Some ''g''\<rparr>,
         \<lparr>ri_recipeId = ''r2'', ri_ingredientId = ''i1'', ri_quantity = Some 1, ri_unit = Some ''kg''\<rparr>],
      db_unifiedPrices = [(''iga'', saltAt 4), (''adonis'', saltAt 1)],
      db_flyerPromotions = [],
      db_referencePrices = [],
      db_equivalences = [],
      db_recipeStorePrices = []\<rparr>"

definition staleRow :: "RecipeStorePrice" where
  "staleRow =
     \<lparr>row_id = 7, row_recipeId = ''r1'', row_storeId = ''adonis'', row_weekOf = ''2025-12-29'',
      row_totalCost = Fin 0.5, row_missingIngredientsCount = 0, row_isComplete = True,
      row_ingredientBreakdown = [], row_calculatedAt = ''2025-12-31T08:00:00.000Z''\<rparr>"

definition staleDatabase :: "Database" where
  "staleDatabase = exampleDatabase\<lparr>db_recipeStorePrices := [staleRow]\<rparr>"

text \<open>Two variants of the catalogue: the first recipe has a second line whose ingredient id
  is in no table; no store sells salt, so that its price is a category estimate.\<close>

definition unknownLineDatabase :: "Database" where
  "unknownLineDatabase =
     exampleDatabase\<lparr>db_recipeIngredients :=
       db_recipeIngredients exampleDatabase
       @ [\<lparr>ri_recipeId = ''r1'', ri_ingredientId = ''i2'', ri_quantity = Some 1, ri_unit = None\<rparr>]\<rparr>"

definition estimateDatabase :: "Database" where
  "estimateDatabase = exampleDatabase\<lparr>db_unifiedPrices := []\<rparr>"

definition igaStore :: "Store" where
  "igaStore = \<lparr>store_id = ''iga'', store_name = ''IGA''\<rparr>"

definition saumure :: "Recipe" where
  "saumure = \<lparr>recipe_id = ''r1'', recipe_name = ''saumure'', estimatedPrice = None\<rparr>"

text \<open>A price table for the preview whose identifiers have the types the endpoint compares:
  a pound of beef, sold at two allowed stores, at an excluded store, at a store outside the
  list, and at an allowed store with a quantity of zero.\<close>

definition beefRecipe :: "PreviewRecipe" where
  "beefRecipe =
     \<lparr>pv_recipeId = JNum 1, pv_name = JStr ''Boeuf'', pv_title = JUndefined,
      pv_ingredients = [\<lparr>pv_id = JNum 10, pv_ingredientId = JUndefined, pv_quantity = 1, pv_unit = ''lb''\<rparr>]\<rparr>"

definition beefPrice :: "jsval \<Rightarrow> number \<Rightarrow> number \<Rightarrow> PriceEntry" where
  "beefPrice storeId p quantity =
     \<lparr>entry_storeId = storeId, entry_ingredientId = JNum 10, entry_price = p,
      entry_quantity = quantity, entry_unit = ''lb''\<rparr>"

definition beefPrices :: "PriceEntry list" where
  "beefPrices =
     [beefPrice (JNum 1) 6.99 1, beefPrice (JNum 2) 3 0, beefPrice (JNum 4) 4.44 1,
      beefPrice (JStr ''adonis'') 1 1, beefPrice (JNum 5) 0.5 1]"

definition idleState :: "Database \<Rightarrow> ModuleState" where
  "idleState db =
     \<lparr>isCalculating = False, calculationStartTime = None, ingredientEquivalenceCache = [],
      lastEquivalenceCacheLoad = 0, database = db\<rparr>"

definition runningState :: "Database \<Rightarrow> ModuleState" where
  "runningState db = (idleState db)\<lparr>isCalculating := True, calculationStartTime := Some 900000\<rparr>"

definition brokenFaults :: "Faults" where
  "brokenFaults = noFaults\<lparr>fault_recipes := Some ''connection refused''\<rparr>"

section \<open>Properties of the product matcher\<close>

lemma wholeWordSearch_self: "wholeWordSearch None x x"
  by (cases x) (simp_all add: leftBoundary_def rightBoundary_def)

lemma splitWs_single:
  assumes "\<forall>c \<in> set s. \<not> isWhitespace c"
  shows "splitWs s = [s]"
proof -
  have "takeWhile (\<lambda>c. \<not> isWhitespace c) s = s" "dropWhile (\<lambda>c. \<not> isWhitespace c) s = []"
    using assms by simp_all
  then show ?thesis by (subst splitWs.simps) (simp add: Let_def)
qed

lemma fold_tallyWord:
  "fold (tallyWord promoWords) ws (e, p) =
     (e + length (filter (isExactWord promoWords) ws),
      p + 0.5 * of_nat (length (filter (isPartialWord promoWords) ws)))"
proof (induction ws arbitrary: e p)
  case Nil
  show ?case by simp
next
  case (Cons w ws)
  have step: "tallyWord promoWords w (e, p) =
      (if isExactWord promoWords w then (e + 1, p)
       else if isPartialWord promoWords w then (e, p + 0.5) else (e, p))"
    by (auto simp: tallyWord_def isExactWord_def isPartialWord_def startsWith_def endsWith_def)
  have excl: "isExactWord promoWords w \<Longrightarrow> \<not> isPartialWord promoWords w"
    by (simp add: isExactWord_def isPartialWord_def)
  show ?case
  proof (cases "isExactWord promoWords w")
    case True
    then show ?thesis using excl by (simp add: step Cons.IH)
  next
    case False
    then show ?thesis by (simp add: step Cons.IH algebra_simps)
  qed
qed

lemma baseScore_counts:
  "baseScore ingredientWords promoWords =
     of_nat (length (filter (isExactWord promoWords) ingredientWords)) / of_nat (length ingredientWords)
     + 0.3 * (0.5 * of_nat (length (filter (isPartialWord promoWords) ingredientWords))
              / of_nat (length ingredientWords))"
  by (simp add: baseScore_def fold_tallyWord)

lemma keywords_plain: "\<forall>kw \<in> set (concat (map snd INGREDIENT_KEYWORDS)). \<not> hasSyntaxChar kw"
  by code_simp

lemma getRelatedKeywords_subset:
  "set (getRelatedKeywords name) \<subseteq> set (concat (map snd INGREDIENT_KEYWORDS))"
  by (auto simp: getRelatedKeywords_def dedupe_def Let_def split: if_splits)

lemma keywordHit_total:
  "\<forall>kw \<in> set kws. \<not> hasSyntaxChar kw \<Longrightarrow> \<exists>b. keywordHit rx promoWords promoNorm kws = Inr b"
  by (induction kws) (auto simp: matchesWholeWord_def split: bool.splits)

lemma keywordHit_related:
  "\<exists>b. keywordHit rx promoWords promoNorm (getRelatedKeywords name) = Inr b"
  using keywordHit_total [of "getRelatedKeywords name"] keywords_plain getRelatedKeywords_subset [of name]
  by blast
text \<open>
  Claim C9, as amended. A name whose normal form holds no denylisted keyword, and which either
  holds no regular-expression syntax character or is a single token of two characters or more
  without white space, scores exactly 1 against itself, whatever the engine does elsewhere.
\<close>

theorem scorePromoMatch_self:
  assumes notExcluded: "\<not> isExcludedProduct (normalizeText x)"
      and plain: "\<not> hasSyntaxChar (normalizeText x)
                  \<or> (2 \<le> length (normalizeText x) \<and> (\<forall>c \<in> set (normalizeText x). \<not> isWhitespace c))"
  shows "scorePromoMatch rx x x = Inr 1"
proof -
  have "fullNameMatch rx (wordsOf (normalizeText x)) (normalizeText x) (normalizeText x) = Inr True"
  proof (cases "\<exists>pw \<in> set (wordsOf (normalizeText x)). pw = normalizeText x")
    case True
    then show ?thesis by (simp add: fullNameMatch_def)
  next
    case False
    have "hasSyntaxChar (normalizeText x) \<Longrightarrow> False"
    proof -
      assume "hasSyntaxChar (normalizeText x)"
      with plain have "2 \<le> length (normalizeText x)" "\<forall>c \<in> set (normalizeText x). \<not> isWhitespace c"
        by auto
      then have "normalizeText x \<in> set (wordsOf (normalizeText x))"
        using splitWs_single [of "normalizeText x"] by (simp add: wordsOf_def)
      with False show False by blast
    qed
    then show ?thesis using False
      by (auto simp: fullNameMatch_def matchesWholeWord_def wholeWordSearch_self)
  qed
  then show ?thesis using notExcluded by (simp add: scorePromoMatch_def Let_def)
qed

text \<open>The hypotheses of C9 hold for \<open>Boeuf hache\<close>, which scores 1 against itself.\<close>

theorem scorePromoMatch_self_witness:
  "\<forall>rx. scorePromoMatch rx (''Boeuf hach'' @ [CHR 0xE9]) (''Boeuf hach'' @ [CHR 0xE9]) = Inr 1"
proof
  fix rx
  have a: "\<not> isExcludedProduct (normalizeText (''Boeuf hach'' @ [CHR 0xE9]))" by code_simp
  have b: "\<not> hasSyntaxChar (normalizeText (''Boeuf hach'' @ [CHR 0xE9]))" by code_simp
  show "scorePromoMatch rx (''Boeuf hach'' @ [CHR 0xE9]) (''Boeuf hach'' @ [CHR 0xE9]) = Inr 1"
    using scorePromoMatch_self [of "''Boeuf hach'' @ [CHR 0xE9]" rx] a b by blast
qed

text \<open>Claim C9 as stated fails: the denylist is consulted first, so \<open>savon\<close> scores 0 against
  itself.\<close>

theorem scorePromoMatch_self_counterexample:
  "\<not> (\<forall>rx x. scorePromoMatch rx x x = Inr 1)"
proof
  assume "\<forall>rx x. scorePromoMatch rx x x = Inr 1"
  then have "scorePromoMatch (\<lambda>p t. None) ''savon'' ''savon'' = Inr 1" by blast
  moreover have "scorePromoMatch (\<lambda>p t. None) ''savon'' ''savon'' = Inr 0" by code_simp
  ultimately show False by simp
qed

text \<open>
  Claim C7, as amended. When the candidate is not denylisted and the full name does not match
  as a whole word, the score before the keyword floor is
  \<open>exact / n + 0.3 \<times> (0.5 \<times> partial / n)\<close>: \<open>n\<close> counts the ingredient's words of two characters
  or more, \<open>exact\<close> those that are words of the candidate, \<open>partial\<close> those that are not, have
  four characters or more and start or end a word of the candidate; each partial match adds
  0.5 to the tally. The returned score is 0 when \<open>n = 0\<close>, else that value, raised to 0.5 when a
  related keyword hits.
\<close>

theorem scorePromoMatch_base_formula:
  fixes rx :: regexp_engine and ingredientName promoName :: string
  defines "ingredientWords \<equiv> wordsOf (normalizeText ingredientName)"
      and "promoWords \<equiv> wordsOf (normalizeText promoName)"
  assumes notExcluded: "\<not> isExcludedProduct (normalizeText promoName)"
      and noFullMatch: "fullNameMatch rx promoWords (normalizeText promoName) (normalizeText ingredientName) = Inr False"
  shows "baseScore ingredientWords promoWords =
           of_nat (length (filter (isExactWord promoWords) ingredientWords)) / of_nat (length ingredientWords)
           + 0.3 * (0.5 * of_nat (length (filter (isPartialWord promoWords) ingredientWords))
                    / of_nat (length ingredientWords))
         \<and> scorePromoMatch rx ingredientName promoName =
             Inr (if ingredientWords = [] then 0
                  else if keywordHit rx promoWords (normalizeText promoName) (getRelatedKeywords ingredientName) = Inr True
                  then max (baseScore ingredientWords promoWords) 0.5
                  else baseScore ingredientWords promoWords)"
proof -
  obtain b where b: "keywordHit rx promoWords (normalizeText promoName) (getRelatedKeywords ingredientName) = Inr b"
    using keywordHit_related by blast
  have "scorePromoMatch rx ingredientName promoName =
             Inr (if ingredientWords = [] then 0
                  else if keywordHit rx promoWords (normalizeText promoName) (getRelatedKeywords ingredientName) = Inr True
                  then max (baseScore ingredientWords promoWords) 0.5
                  else baseScore ingredientWords promoWords)"
    using notExcluded noFullMatch b
    by (cases b) (simp_all add: scorePromoMatch_def Let_def ingredientWords_def promoWords_def)
  then show ?thesis using baseScore_counts by blast
qed

text \<open>The hypotheses of C7 hold for \<open>tomate\<close> against \<open>tomates cerises\<close>: one partial match,
  base score 0.15, returned score 0.5 through the keyword \<open>tomates\<close>.\<close>

theorem scorePromoMatch_base_formula_witness:
  "\<forall>rx. baseScore (wordsOf (normalizeText ''tomate'')) (wordsOf (normalizeText ''tomates cerises'')) = 0.15
     \<and> scorePromoMatch rx ''tomate'' ''tomates cerises'' = Inr 0.5"
proof
  fix rx :: regexp_engine
  have a: "\<not> isExcludedProduct (normalizeText ''tomates cerises'')" by code_simp
  have b: "fullNameMatch rx (wordsOf (normalizeText ''tomates cerises'')) (normalizeText ''tomates cerises'')
             (normalizeText ''tomate'') = Inr False" by code_simp
  have c: "wordsOf (normalizeText ''tomate'') = [''tomate'']" by code_simp
  have d: "wordsOf (normalizeText ''tomates cerises'') = [''tomates'', ''cerises'']" by code_simp
  have e: "keywordHit rx [''tomates'', ''cerises''] (normalizeText ''tomates cerises'') (getRelatedKeywords ''tomate'') = Inr True"
    by code_simp
  have f: "\<not> isExactWord [''tomates'', ''cerises''] ''tomate''" by code_simp
  have g: "isPartialWord [''tomates'', ''cerises''] ''tomate''" by code_simp
  show "baseScore (wordsOf (normalizeText ''tomate'')) (wordsOf (normalizeText ''tomates cerises'')) = 0.15
     \<and> scorePromoMatch rx ''tomate'' ''tomates cerises'' = Inr 0.5"
    using scorePromoMatch_base_formula [OF a b] by (simp add: c d e f g)
qed

text \<open>Claim C7 as stated fails on the same input: the code yields 0.15 where
  \<open>0.3 \<times> (partialMatches / ingredientWordCount)\<close> is 0.3.\<close>

theorem scorePromoMatch_base_formula_counterexample:
  "baseScore (wordsOf (normalizeText ''tomate'')) (wordsOf (normalizeText ''tomates cerises''))
     \<noteq> specBaseScore (wordsOf (normalizeText ''tomate'')) (wordsOf (normalizeText ''tomates cerises''))"
  by code_simp

text \<open>Two companions of C7 and C9: a denylisted candidate scores 0 whatever the ingredient,
  and \<open>ail\<close> finds nothing in \<open>taille\<close>.\<close>

lemma scorePromoMatch_denylisted:
  "isExcludedProduct (normalizeText promoName) \<Longrightarrow> scorePromoMatch rx ingredient promoName = Inr 0"
  by (simp add: scorePromoMatch_def)

lemma scorePromoMatch_ail_taille: "scorePromoMatch rx ''ail'' ''taille'' = Inr 0"
  by code_simp
section \<open>Properties of the cost functions\<close>











lemma getProperty_plain:
  assumes "k \<notin> set objectPrototypeKeys"
  shows "getProperty table k = Missing \<or> (\<exists>v. getProperty table k = Own v)"
  using assms by (simp add: getProperty_def split: option.splits)













lemma find_Some_D: "find P xs = Some x \<Longrightarrow> x \<in> set xs \<and> P x"
  by (induction xs) (auto split: if_splits)
























section \<open>Properties of the price selection\<close>

lemma bestOffer_le_cap:
  assumes "bestOffer rx name cap offers best = Inr (Some (p, s))"
      and "\<And>p0 s0. best = Some (p0, s0) \<Longrightarrow> p0 \<le> cap"
  shows "p \<le> cap"
  using assms
proof (induction offers arbitrary: best)
  case Nil
  then show ?case by simp
next
  case (Cons offer offers)
  obtain productName offerPrice where o: "offer = (productName, offerPrice)" by (cases offer)
  show ?case
  proof (cases "offerPrice > cap")
    case True
    with Cons o show ?thesis by simp
  next
    case False
    then have le: "offerPrice \<le> cap" by simp
    from Cons.prems(1) o False obtain score where sc: "scorePromoMatch rx name productName = Inr score"
      by (cases "scorePromoMatch rx name productName") auto
    from Cons.prems(1) o False sc
    have "\<exists>best'. bestOffer rx name cap offers best' = Inr (Some (p, s))
            \<and> (best' = best \<or> best' = Some (offerPrice, score))"
      by (auto split: if_splits option.splits)
    then obtain best' where b: "bestOffer rx name cap offers best' = Inr (Some (p, s))"
      and c: "best' = best \<or> best' = Some (offerPrice, score)" by blast
    have "\<And>p0 s0. best' = Some (p0, s0) \<Longrightarrow> p0 \<le> cap"
      using c le Cons.prems(2) by auto
    with Cons.IH [OF b] show ?thesis by blast
  qed
qed

lemma categoryEstimate_found: "categoryEstimate category \<noteq> Missing"
  by (simp add: categoryEstimate_def split: option.splits property.splits)

lemma estimate_le_cap:
  "jsMin (toNumber (categoryEstimate category)) (Fin cap) = NaN
   \<or> (\<exists>p. jsMin (toNumber (categoryEstimate category)) (Fin cap) = Fin p \<and> p \<le> cap)"
  using categoryEstimate_found [of category]
  by (cases "categoryEstimate category") (simp_all add: toNumber_def jsMin_def)

text \<open>A returned price is a number within the cap of the ingredient, or \<open>NaN\<close>; it is \<open>NaN\<close>
  exactly when the estimate is read from an inherited key of the estimate table.\<close>

lemma findBestPrice_price_le_cap:
  assumes "findBestPrice rx name category storeData = Inr r"
  shows "price r = NaN \<or> (\<exists>p. price r = Fin p \<and> p \<le> getIngredientPriceCap name)"
  using assms bestOffer_le_cap [of rx name "getIngredientPriceCap name" _ None]
        estimate_le_cap [of category "getIngredientPriceCap name"]
  unfolding findBestPrice_def Let_def
  by (auto split: option.splits sum.splits if_splits)

lemma findBestPrice_price_NaN_iff:
  assumes "findBestPrice rx name category storeData = Inr r"
  shows "price r = NaN \<longleftrightarrow> source r = Estimate \<and> categoryEstimate category = Inherited"
proof -
  have "jsMin (toNumber (categoryEstimate category)) (Fin (getIngredientPriceCap name)) = NaN
        \<longleftrightarrow> categoryEstimate category = Inherited"
    using categoryEstimate_found [of category]
    by (cases "categoryEstimate category") (simp_all add: toNumber_def jsMin_def)
  then show ?thesis
    using assms unfolding findBestPrice_def Let_def
    by (auto split: option.splits sum.splits if_splits)
qed

lemma categoryEstimate_inherited:
  "categoryEstimate (Some ''constructor'') = Inherited \<and> categoryEstimate (Some ''toString'') = Inherited"
  by code_simp

lemma scorePromoMatch_total:
  assumes "\<not> hasSyntaxChar (normalizeText name)"
  shows "\<exists>s. scorePromoMatch rx name productName = Inr s"
proof -
  have "\<exists>b. fullNameMatch rx (wordsOf (normalizeText productName)) (normalizeText productName)
                    (normalizeText name) = Inr b"
    using assms by (auto simp: fullNameMatch_def matchesWholeWord_def)
  then obtain b where "fullNameMatch rx (wordsOf (normalizeText productName)) (normalizeText productName)
                    (normalizeText name) = Inr b" by blast
  moreover obtain h where "keywordHit rx (wordsOf (normalizeText productName)) (normalizeText productName)
                    (getRelatedKeywords name) = Inr h"
    using keywordHit_related by blast
  ultimately show ?thesis
    by (cases b; cases h) (simp_all add: scorePromoMatch_def Let_def)
qed

lemma bestOffer_total:
  assumes "\<not> hasSyntaxChar (normalizeText name)"
  shows "\<exists>b. bestOffer rx name cap offers best = Inr b"
proof (induction offers arbitrary: best)
  case Nil
  show ?case by simp
next
  case (Cons offer offers)
  obtain productName offerPrice where o: "offer = (productName, offerPrice)" by (cases offer)
  obtain s where s: "scorePromoMatch rx name productName = Inr s"
    using scorePromoMatch_total [OF assms] by blast
  show ?case using Cons.IH by (simp add: o s split: option.split)
qed

lemma findBestPrice_total:
  assumes "\<not> hasSyntaxChar (normalizeText name)"
  shows "\<exists>r. findBestPrice rx name category storeData = Inr r"
proof -
  obtain bp where bp: "bestOffer rx name (getIngredientPriceCap name)
        (map (\<lambda>p. (promo_productName p, promoPrice p)) (promos storeData)) None = Inr bp"
    using bestOffer_total [OF assms] by blast
  obtain br where br: "bestOffer rx name (getIngredientPriceCap name)
        (map (\<lambda>r. (ref_productName r, ref_price r)) (refs storeData)) None = Inr br"
    using bestOffer_total [OF assms] by blast
  show ?thesis
    unfolding findBestPrice_def Let_def
    by (simp add: bp br split: option.split)
qed

lemma bestOffer_none_iff:
  "bestOffer rx name cap offers best = Inr None \<longleftrightarrow>
     best = None \<and> (\<forall>(productName, offerPrice) \<in> set offers.
        offerPrice > cap \<or> (\<exists>s. scorePromoMatch rx name productName = Inr s \<and> s < 0.5))"
proof (induction offers arbitrary: best)
  case Nil
  show ?case by simp
next
  case (Cons offer offers)
  obtain productName offerPrice where o: "offer = (productName, offerPrice)" by (cases offer)
  show ?case
  proof (cases "offerPrice > cap")
    case True
    then show ?thesis using Cons.IH by (simp add: o)
  next
    case False
    show ?thesis
    proof (cases "scorePromoMatch rx name productName")
      case (Inl e)
      then show ?thesis using False by (simp add: o)
    next
      case (Inr s)
      then show ?thesis using False Cons.IH by (auto simp: o split: option.splits)
    qed
  qed
qed


text \<open>
  Claim C3. \<open>findBestPrice\<close> is meant to return a price for every ingredient; the lemmas
  above show that a returned price is not above the cap of the ingredient, and that a name
  without syntax characters always gets a result. The name is however handed to the
  \<open>RegExp\<close> constructor unescaped: for the name \<open>sel (fin\<close> and a store with one promotion
  within the cap, the constructor throws and \<open>findBestPrice\<close> fails.
\<close>

theorem findBestPrice_throws:
  "findBestPrice rx ''sel (fin'' None
     \<lparr>unified = [], promos = [\<lparr>promo_productName = ''sel de mer'', promoPrice = 2\<rparr>], refs = []\<rparr>
   = Inl SyntaxError"
  by code_simp

text \<open>An estimate is returned exactly when there is no usable catalogue entry and no
  promotion or reference price qualifies.\<close>

lemma findBestPrice_estimate_iff:
  assumes "findBestPrice rx name category storeData = Inr r"
  shows "source r = Estimate \<longleftrightarrow>
           (case findUnifiedPrice name storeData of None \<Rightarrow> True | Some m \<Rightarrow> \<not> match_unitPrice m > 0)
           \<and> bestOffer rx name (getIngredientPriceCap name)
                (map (\<lambda>p. (promo_productName p, promoPrice p)) (promos storeData)) None = Inr None
           \<and> bestOffer rx name (getIngredientPriceCap name)
                (map (\<lambda>r. (ref_productName r, ref_price r)) (refs storeData)) None = Inr None"
  using assms unfolding findBestPrice_def Let_def
  by (auto split: option.splits sum.splits if_splits)

section \<open>Properties of the pricing of a recipe at a store\<close>

text \<open>When the loop over the aggregated ingredients returns, it has added to the missing
  count the ingredient ids without an ingredient and the ingredients whose price is a
  category estimate.\<close>

lemma priceIngredients_counts:
  assumes "priceIngredients rx cache ingredientMap storeData aggs (t, m, b) = Inr (t', m', b')"
  shows "m' = m + unknownIngredients ingredientMap aggs
               + estimateFallbacks rx ingredientMap storeData aggs"
  using assms
proof (induction aggs arbitrary: t m b)
  case Nil
  then show ?case by (simp add: unknownIngredients_def estimateFallbacks_def)
next
  case (Cons a aggs)
  obtain ingredientId riQuantity riUnit where a: "a = (ingredientId, riQuantity, riUnit)"
    by (cases a)
  show ?case
  proof (cases "ingredientMap ingredientId")
    case None
    with Cons.prems a
    have "priceIngredients rx cache ingredientMap storeData aggs (t, m + 1, b) = Inr (t', m', b')"
      by simp
    from Cons.IH [OF this] show ?thesis using None a
      by (simp add: unknownIngredients_def estimateFallbacks_def fallsBackToEstimate_def)
  next
    case (Some ingredient)
    from Cons.prems a Some obtain pricing where
      pr: "findBestPrice rx (ingredient_name ingredient) (ingredient_category ingredient) storeData = Inr pricing"
      by (cases "findBestPrice rx (ingredient_name ingredient) (ingredient_category ingredient) storeData") auto
    from Cons.prems a Some pr obtain t1 item where
      rec: "priceIngredients rx cache ingredientMap storeData aggs
              (t1, (if source pricing = Estimate then m + 1 else m), b @ [item]) = Inr (t', m', b')"
      by (simp add: Let_def)
    from Cons.IH [OF rec] show ?thesis using Some a pr
      by (cases "source pricing = Estimate")
         (simp_all add: unknownIngredients_def estimateFallbacks_def fallsBackToEstimate_def)
  qed
qed

lemma priceRecipeAtStore_complete:
  assumes "priceRecipeAtStore rx cache ingredientMap storeData recipeIngs = Inr r"
  shows "pair_missingCount r
           = unknownIngredients ingredientMap (aggregateIngredients recipeIngs)
             + estimateFallbacks rx ingredientMap storeData (aggregateIngredients recipeIngs)
         \<and> (pair_isComplete r \<longleftrightarrow>
               unknownIngredients ingredientMap (aggregateIngredients recipeIngs) = 0
               \<and> estimateFallbacks rx ingredientMap storeData (aggregateIngredients recipeIngs) = 0
               \<and> jsLess (Fin 0) (pair_totalCost r))"
proof -
  from assms obtain t m b where
    p: "priceIngredients rx cache ingredientMap storeData (aggregateIngredients recipeIngs) (Fin 0, 0, [])
          = Inr (t, m, b)"
    and r: "pair_missingCount r = m" "pair_isComplete r = (m = 0 \<and> jsLess (Fin 0) (pair_totalCost r))"
    by (auto simp: priceRecipeAtStore_def Let_def split: sum.splits)
  from priceIngredients_counts [OF p] show ?thesis by (simp add: r)
qed

section \<open>Properties of the calculation run\<close>

text \<open>
  Claim C4. A call made while a run is in progress, started no longer ago than the timeout,
  returns at once with \<open>success = False\<close> and the single error
  \<open>Calculation already in progress\<close>; the whole state, with the lock, the cache and every table
  of the database, is the state before the call.
\<close>

theorem run_rejected_while_running:
  assumes running: "isCalculating st"
      and started: "calculationStartTime st = Some started"
      and recent: "clock_now clock - started \<le> MAX_CALCULATION_TIME_MS"
  shows "runRecipePriceCalculation rx faults clock st =
           (st, \<lparr>success = False, recipesProcessed = 0, storesProcessed = 0,
                 errors = [''Calculation already in progress'']\<rparr>)"
  using assms
  by (simp add: runRecipePriceCalculation_def autoReset_def alreadyInProgress_def Let_def)

text \<open>C4 at a lock taken 100 seconds before the call.\<close>

theorem run_rejected_while_running_witness:
  "runRecipePriceCalculation rejectingEngine noFaults exampleClock (runningState exampleDatabase)
     = (runningState exampleDatabase,
        \<lparr>success = False, recipesProcessed = 0, storesProcessed = 0,
         errors = [''Calculation already in progress'']\<rparr>)"
proof -
  have a: "isCalculating (runningState exampleDatabase)"
    by (simp add: runningState_def idleState_def)
  have b: "calculationStartTime (runningState exampleDatabase) = Some 900000"
    by (simp add: runningState_def idleState_def)
  have c: "clock_now exampleClock - 900000 \<le> MAX_CALCULATION_TIME_MS"
    by (simp add: exampleClock_def MAX_CALCULATION_TIME_MS_def)
  show ?thesis by (rule run_rejected_while_running [OF a b c])
qed

lemma autoReset_frame:
  "database (autoReset clock st) = database st"
  "ingredientEquivalenceCache (autoReset clock st) = ingredientEquivalenceCache st"
  "lastEquivalenceCacheLoad (autoReset clock st) = lastEquivalenceCacheLoad st"
  by (simp_all add: autoReset_def split: option.splits)

lemma load_frame:
  "database (loadIngredientEquivalences faults clock st) = database st"
  "isCalculating (loadIngredientEquivalences faults clock st) = isCalculating st"
  "calculationStartTime (loadIngredientEquivalences faults clock st) = calculationStartTime st"
  by (simp_all add: loadIngredientEquivalences_def split: option.splits)

lemma load_cache_lock:
  assumes "database st' = database st"
      and "ingredientEquivalenceCache st' = ingredientEquivalenceCache st"
      and "lastEquivalenceCacheLoad st' = lastEquivalenceCacheLoad st"
  shows "ingredientEquivalenceCache (loadIngredientEquivalences faults clock st')
           = ingredientEquivalenceCache (loadIngredientEquivalences faults clock st)"
  using assms by (simp add: loadIngredientEquivalences_def split: option.splits)

lemma run_accepted:
  assumes "accepted clock st"
  shows "\<exists>st3. runRecipePriceCalculation rx faults clock st
           = (st3\<lparr>database := fst (runBody rx faults clock
                                      (ingredientEquivalenceCache (loadIngredientEquivalences faults clock st))
                                      (database st)),
                   isCalculating := False, calculationStartTime := None\<rparr>,
              snd (runBody rx faults clock
                     (ingredientEquivalenceCache (loadIngredientEquivalences faults clock st))
                     (database st)))"
proof -
  let ?st2 = "(autoReset clock st)\<lparr>isCalculating := True, calculationStartTime := Some (clock_now clock)\<rparr>"
  let ?st3 = "loadIngredientEquivalences faults clock ?st2"
  have c: "ingredientEquivalenceCache ?st3
             = ingredientEquivalenceCache (loadIngredientEquivalences faults clock st)"
    by (rule load_cache_lock) (simp_all add: autoReset_frame)
  have d: "database ?st3 = database st"
    by (simp add: load_frame autoReset_frame)
  have "runRecipePriceCalculation rx faults clock st
          = (?st3\<lparr>database := fst (runBody rx faults clock (ingredientEquivalenceCache ?st3) (database ?st3)),
                   isCalculating := False, calculationStartTime := None\<rparr>,
             snd (runBody rx faults clock (ingredientEquivalenceCache ?st3) (database ?st3)))"
    using assms by (simp add: runRecipePriceCalculation_def accepted_def Let_def split: prod.splits)
  then show ?thesis unfolding c d by blast
qed

lemma processStores_fatal:
  "fst (processStores rx faults clock cache db ingredientMap allRecipes stores acc) = None
     \<longleftrightarrow> (\<forall>store \<in> set stores. storeFault faults store = None)"
proof (induction stores arbitrary: acc)
  case Nil
  show ?case by simp
next
  case (Cons store stores)
  obtain rows recipesDone processed errs where acc: "acc = (rows, recipesDone, processed, errs)"
    by (cases acc)
  show ?case
  proof (cases "storeFault faults store")
    case None
    then show ?thesis using Cons.IH by (simp add: acc split: prod.splits)
  next
    case (Some message)
    then show ?thesis by (simp add: acc)
  qed
qed

lemma runBody_success:
  "success (snd (runBody rx faults clock cache db)) \<longleftrightarrow> \<not> fatalFault faults db"
proof (cases "baseLoadFault faults")
  case (Some message)
  then show ?thesis by (simp add: runBody_def fatalFault_def)
next
  case None
  let ?ps = "processStores rx faults clock cache db
               (ingredientMapOf db)
               (db_recipes db) (allowedStores db) (db_recipeStorePrices db, 0, 0, [])"
  obtain fatal rows recipesDone processed errs where
    ps: "?ps = (fatal, rows, recipesDone, processed, errs)"
    by (cases ?ps)
  have f: "fatal = None \<longleftrightarrow> (\<forall>store \<in> set (allowedStores db). storeFault faults store = None)"
    using processStores_fatal [of rx faults clock cache db
            "ingredientMapOf db"
            "db_recipes db" "allowedStores db" "(db_recipeStorePrices db, 0, 0, [])"]
    unfolding ps by simp
  show ?thesis
    using None ps f
    by (cases fatal; cases "fault_rollup faults") (auto simp: runBody_def fatalFault_def Let_def)
qed

text \<open>
  Claim C8. A run that is accepted ends with the lock released and the start time cleared,
  whatever fails on the way, and returns a summary; the summary reports success exactly when
  no fault outside the loop over the pairs occurred, and a failing base table gives
  \<open>success = False\<close> with its message as the only error.
\<close>

theorem lock_released:
  assumes "accepted clock st"
  shows "\<not> isCalculating (fst (runRecipePriceCalculation rx faults clock st))
         \<and> calculationStartTime (fst (runRecipePriceCalculation rx faults clock st)) = None
         \<and> (success (snd (runRecipePriceCalculation rx faults clock st))
              \<longleftrightarrow> \<not> fatalFault faults (database st))
         \<and> (\<forall>message. baseLoadFault faults = Some message \<longrightarrow>
               snd (runRecipePriceCalculation rx faults clock st)
                 = \<lparr>success = False, recipesProcessed = 0, storesProcessed = 0, errors = [message]\<rparr>)"
proof -
  from run_accepted [OF assms] obtain st3 where
    run: "runRecipePriceCalculation rx faults clock st
           = (st3\<lparr>database := fst (runBody rx faults clock
                                      (ingredientEquivalenceCache (loadIngredientEquivalences faults clock st))
                                      (database st)),
                   isCalculating := False, calculationStartTime := None\<rparr>,
              snd (runBody rx faults clock
                     (ingredientEquivalenceCache (loadIngredientEquivalences faults clock st))
                     (database st)))"
    by blast
  show ?thesis
    by (simp add: run runBody_success) (simp add: runBody_def)
qed

lemma idle_accepted: "accepted clock (idleState db)"
  by (simp add: accepted_def autoReset_def idleState_def)

text \<open>C8 at a run whose first query is refused.\<close>

theorem lock_released_witness:
  "accepted exampleClock (idleState exampleDatabase)
   \<and> \<not> isCalculating (fst (runRecipePriceCalculation rejectingEngine brokenFaults exampleClock
                              (idleState exampleDatabase)))
   \<and> calculationStartTime (fst (runRecipePriceCalculation rejectingEngine brokenFaults exampleClock
                                  (idleState exampleDatabase))) = None
   \<and> snd (runRecipePriceCalculation rejectingEngine brokenFaults exampleClock (idleState exampleDatabase))
       = \<lparr>success = False, recipesProcessed = 0, storesProcessed = 0, errors = [''connection refused'']\<rparr>"
proof -
  have f: "baseLoadFault brokenFaults = Some ''connection refused''"
    by (simp add: baseLoadFault_def brokenFaults_def noFaults_def)
  from lock_released [where rx = rejectingEngine and faults = brokenFaults and clock = exampleClock
         and st = "idleState exampleDatabase", OF idle_accepted] f
  show ?thesis using idle_accepted by blast
qed

lemma processPair_counts:
  assumes "processPair rx faults clock cache
             (ingredientMapOf db)
             (db_recipeIngredients db) (loadStoreData db clock store) store recipe (rows, p, errs)
           = (rows', p', errs')"
  shows "p' = p + (if pairSucceeds rx faults clock cache db (store, recipe) then 1 else 0)
         \<and> p' + length errs' = p + length errs + 1"
  using assms
  by (auto simp: processPair_def pairSucceeds_def split: sum.splits option.splits)

lemma fold_processPair_counts:
  assumes "fold (processPair rx faults clock cache
                   (ingredientMapOf db)
                   (db_recipeIngredients db) (loadStoreData db clock store) store)
             recipes (rows, p, errs)
           = (rows', p', errs')"
  shows "p' = p + length (filter (pairSucceeds rx faults clock cache db) (map (Pair store) recipes))
         \<and> p' + length errs' = p + length errs + length recipes"
  using assms
proof (induction recipes arbitrary: rows p errs)
  case Nil
  then show ?case by simp
next
  case (Cons recipe recipes)
  let ?step = "processPair rx faults clock cache
                 (ingredientMapOf db)
                 (db_recipeIngredients db) (loadStoreData db clock store) store recipe (rows, p, errs)"
  obtain rows1 p1 errs1 where s: "?step = (rows1, p1, errs1)" by (cases ?step)
  from Cons.prems s have
    "fold (processPair rx faults clock cache
             (ingredientMapOf db)
             (db_recipeIngredients db) (loadStoreData db clock store) store)
       recipes (rows1, p1, errs1) = (rows', p', errs')"
    by simp
  from Cons.IH [OF this] processPair_counts [OF s] show ?case by simp
qed

lemma processStores_counts:
  assumes "processStores rx faults clock cache db
             (ingredientMapOf db)
             allRecipes stores (rows, rd, p, errs)
           = (None, rows', rd', p', errs')"
  shows "p' = p + length (filter (pairSucceeds rx faults clock cache db) (List.product stores allRecipes))
         \<and> p' + length errs' = p + length errs + length stores * length allRecipes
         \<and> rd' = (if stores = [] then rd else length allRecipes)"
  using assms
proof (induction stores arbitrary: rows rd p errs)
  case Nil
  then show ?case by simp
next
  case (Cons store stores)
  from Cons.prems have nf: "storeFault faults store = None"
    by (cases "storeFault faults store") simp_all
  let ?f = "fold (processPair rx faults clock cache
                   (ingredientMapOf db)
                   (db_recipeIngredients db) (loadStoreData db clock store) store)
             allRecipes (rows, p, errs)"
  obtain rows1 p1 errs1 where f: "?f = (rows1, p1, errs1)" by (cases ?f)
  from Cons.prems nf f have rest:
    "processStores rx faults clock cache db
       (ingredientMapOf db)
       allRecipes stores (rows1, length allRecipes, p1, errs1)
     = (None, rows', rd', p', errs')"
    by simp
  from Cons.IH [OF rest] fold_processPair_counts [OF f]
  show ?case by (auto simp: algebra_simps)
qed

text \<open>
  Claim C10. In the summary of an accepted run that succeeds, \<open>storesProcessed\<close> is the number
  of pairs of a non-excluded store and a recipe that were processed without error, so that
  together with the number of errors it is the number of pairs; \<open>recipesProcessed\<close> is the
  number of recipes, or 0 when there is no non-excluded store.
\<close>

theorem summary_counts:
  assumes acc: "accepted clock st"
      and ok: "success (snd (runRecipePriceCalculation rx faults clock st))"
  shows "storesProcessed (snd (runRecipePriceCalculation rx faults clock st))
           = length (filter (pairSucceeds rx faults clock
                               (ingredientEquivalenceCache (loadIngredientEquivalences faults clock st))
                               (database st))
                       (List.product (allowedStores (database st)) (db_recipes (database st))))
         \<and> storesProcessed (snd (runRecipePriceCalculation rx faults clock st))
             + length (errors (snd (runRecipePriceCalculation rx faults clock st)))
           = length (allowedStores (database st)) * length (db_recipes (database st))
         \<and> recipesProcessed (snd (runRecipePriceCalculation rx faults clock st))
           = (if allowedStores (database st) = [] then 0 else length (db_recipes (database st)))"
proof -
  let ?cache = "ingredientEquivalenceCache (loadIngredientEquivalences faults clock st)"
  let ?db = "database st"
  from run_accepted [OF acc] have
    run: "snd (runRecipePriceCalculation rx faults clock st) = snd (runBody rx faults clock ?cache ?db)"
    by (metis snd_conv)
  let ?ps = "processStores rx faults clock ?cache ?db
               (ingredientMapOf ?db)
               (db_recipes ?db) (allowedStores ?db) (db_recipeStorePrices ?db, 0, 0, [])"
  obtain fatal rows rd p errs where ps: "?ps = (fatal, rows, rd, p, errs)" by (cases ?ps)
  from ok run have nofatal: "\<not> fatalFault faults ?db" by (simp add: runBody_success)
  then have base: "baseLoadFault faults = None" and roll: "fault_rollup faults = None"
    by (auto simp: fatalFault_def)
  have "fatal = None"
    using nofatal processStores_fatal [of rx faults clock ?cache ?db
            "ingredientMapOf ?db"
            "db_recipes ?db" "allowedStores ?db" "(db_recipeStorePrices ?db, 0, 0, [])"]
    unfolding ps by (auto simp: fatalFault_def)
  with ps have ps': "?ps = (None, rows, rd, p, errs)" by simp
  have body: "snd (runBody rx faults clock ?cache ?db)
                = \<lparr>success = True, recipesProcessed = rd, storesProcessed = p, errors = errs\<rparr>"
    using base roll ps' by (simp add: runBody_def Let_def)
  from processStores_counts [OF ps'] show ?thesis
    by (simp add: run body)
qed

lemma example_run:
  "snd (runRecipePriceCalculation rejectingEngine noFaults exampleClock (idleState exampleDatabase))
     = \<lparr>success = True, recipesProcessed = 2, storesProcessed = 2, errors = []\<rparr>"
  by code_simp

text \<open>C10 at one non-excluded store and two recipes: \<open>storesProcessed\<close> is 2.\<close>

theorem summary_counts_witness:
  "storesProcessed (snd (runRecipePriceCalculation rejectingEngine noFaults exampleClock
                           (idleState exampleDatabase))) = 2
   \<and> recipesProcessed (snd (runRecipePriceCalculation rejectingEngine noFaults exampleClock
                              (idleState exampleDatabase))) = 2
   \<and> length (allowedStores exampleDatabase) = 1
   \<and> length (filter (pairSucceeds rejectingEngine noFaults exampleClock
                       (ingredientEquivalenceCache
                          (loadIngredientEquivalences noFaults exampleClock (idleState exampleDatabase)))
                       exampleDatabase)
               (List.product (allowedStores exampleDatabase) (db_recipes exampleDatabase))) = 2"
proof -
  have ok: "success (snd (runRecipePriceCalculation rejectingEngine noFaults exampleClock
                            (idleState exampleDatabase)))"
    by (simp add: example_run)
  have d: "database (idleState exampleDatabase) = exampleDatabase" by (simp add: idleState_def)
  have n: "length (allowedStores exampleDatabase) = 1" by code_simp
  from summary_counts [OF idle_accepted ok] show ?thesis
    by (simp add: example_run d n)
qed

lemma fold_max_ge: "x \<in> set xs \<Longrightarrow> x \<le> fold max xs (m::nat)"
proof (induction xs arbitrary: m)
  case Nil
  then show ?case by simp
next
  case (Cons y ys)
  have mono: "\<And>a. a \<le> fold max ys a"
  proof -
    fix a :: nat
    show "a \<le> fold max ys a"
    proof (induction ys arbitrary: a)
      case Nil
      show ?case by simp
    next
      case (Cons z zs)
      have "a \<le> max z a" by simp
      also have "\<dots> \<le> fold max zs (max z a)" by (rule Cons.IH)
      finally show ?case by simp
    qed
  qed
  show ?case
  proof (cases "x = y")
    case True
    have "y \<le> max y m" by simp
    also have "\<dots> \<le> fold max ys (max y m)" by (rule mono)
    finally show ?thesis using True by simp
  next
    case False
    with Cons.prems have "x \<in> set ys" by simp
    from Cons.IH [OF this] show ?thesis by simp
  qed
qed

lemma freshId_fresh: "freshId rows \<notin> set (map row_id rows)"
proof
  assume "freshId rows \<in> set (map row_id rows)"
  from fold_max_ge [OF this, of 0] show False by (simp add: freshId_def)
qed

text \<open>The upsert for an allowed store keeps every row of an allowed store allowed.\<close>

lemma upsertRow_allowed:
  assumes "isAllowedStoreId storeId"
      and "\<forall>row \<in> set rows. isAllowedStoreId (row_storeId row)"
  shows "\<forall>row \<in> set (upsertRow clock recipeId storeId res rows). isAllowedStoreId (row_storeId row)"
  using assms by (auto simp: upsertRow_def split: option.splits)

text \<open>With identifiers that are a key, the upsert for an allowed store changes or creates
  rows of allowed stores only.\<close>

lemma upsertRow_changes:
  assumes allowed: "isAllowedStoreId storeId"
      and key: "distinct (map row_id rows)"
      and inv: "\<forall>row \<in> set rows. row \<in> R \<or> isAllowedStoreId (row_storeId row)"
  shows "distinct (map row_id (upsertRow clock recipeId storeId res rows))
         \<and> (\<forall>row \<in> set (upsertRow clock recipeId storeId res rows).
               row \<in> R \<or> isAllowedStoreId (row_storeId row))"
proof (cases "existingPrice clock recipeId storeId rows")
  case None
  then show ?thesis using allowed key inv freshId_fresh [of rows]
    by (auto simp: upsertRow_def)
next
  case (Some existing)
  from find_Some_D [OF Some [unfolded existingPrice_def]]
  have ex: "existing \<in> set rows" and st: "row_storeId existing = storeId"
    by auto
  let ?f = "\<lambda>row. if row_id row = row_id existing
                   then row\<lparr>row_totalCost := pair_totalCost res,
                            row_missingIngredientsCount := pair_missingCount res,
                            row_isComplete := pair_isComplete res,
                            row_ingredientBreakdown := pair_breakdown res,
                            row_calculatedAt := clock_calculatedAt clock\<rparr>
                   else row"
  have up: "upsertRow clock recipeId storeId res rows = map ?f rows"
    using Some by (simp add: upsertRow_def)
  have ids: "map row_id (map ?f rows) = map row_id rows"
    by (induction rows) auto
  have same: "\<And>row. row \<in> set rows \<Longrightarrow> row_id row = row_id existing \<Longrightarrow> row = existing"
    using key ex by (meson distinct_map inj_onD)
  have "\<forall>row \<in> set (map ?f rows). row \<in> R \<or> isAllowedStoreId (row_storeId row)"
  proof
    fix row' assume "row' \<in> set (map ?f rows)"
    then obtain row where r: "row \<in> set rows" and r': "row' = ?f row" by auto
    show "row' \<in> R \<or> isAllowedStoreId (row_storeId row')"
    proof (cases "row_id row = row_id existing")
      case True
      with same [OF r] st allowed r' show ?thesis by simp
    next
      case False
      with r r' inv show ?thesis by simp
    qed
  qed
  then show ?thesis using key by (simp only: up ids)
qed

lemma processPair_rowsInv:
  assumes "isAllowedStoreId (store_id store)" and "rowsInv R (fst acc)"
  shows "rowsInv R (fst (processPair rx faults clock cache im ris sd store recipe acc))"
proof -
  obtain rows p errs where acc: "acc = (rows, p, errs)" by (cases acc)
  have "\<And>res. rowsInv R (upsertRow clock (recipe_id recipe) (store_id store) res rows)"
    using assms upsertRow_changes [of "store_id store" rows R clock "recipe_id recipe"]
    by (simp add: rowsInv_def acc)
  then show ?thesis using assms(2)
    by (simp add: processPair_def acc split: sum.splits option.splits)
qed

lemma processPair_rowsAllowed:
  assumes "isAllowedStoreId (store_id store)" and "rowsAllowed (fst acc)"
  shows "rowsAllowed (fst (processPair rx faults clock cache im ris sd store recipe acc))"
proof -
  obtain rows p errs where acc: "acc = (rows, p, errs)" by (cases acc)
  have "\<And>res. rowsAllowed (upsertRow clock (recipe_id recipe) (store_id store) res rows)"
    using assms upsertRow_allowed [of "store_id store" rows clock "recipe_id recipe"]
    by (simp add: rowsAllowed_def acc)
  then show ?thesis using assms(2)
    by (simp add: processPair_def acc split: sum.splits option.splits)
qed

lemma fold_processPair_rowsInv:
  assumes "isAllowedStoreId (store_id store)" and "rowsInv R (fst acc)"
  shows "rowsInv R (fst (fold (processPair rx faults clock cache im ris sd store) recipes acc))"
  using assms(2)
  by (induction recipes arbitrary: acc) (simp_all add: processPair_rowsInv [OF assms(1)])

lemma fold_processPair_rowsAllowed:
  assumes "isAllowedStoreId (store_id store)" and "rowsAllowed (fst acc)"
  shows "rowsAllowed (fst (fold (processPair rx faults clock cache im ris sd store) recipes acc))"
  using assms(2)
  by (induction recipes arbitrary: acc) (simp_all add: processPair_rowsAllowed [OF assms(1)])

lemma processStores_rowsInv:
  assumes "\<forall>store \<in> set stores. isAllowedStoreId (store_id store)" and "rowsInv R (fst acc)"
  shows "rowsInv R (fst (snd (processStores rx faults clock cache db im allRecipes stores acc)))"
  using assms
proof (induction stores arbitrary: acc)
  case Nil
  then show ?case by simp
next
  case (Cons store stores)
  obtain rows rd p errs where acc: "acc = (rows, rd, p, errs)" by (cases acc)
  let ?f = "fold (processPair rx faults clock cache im (db_recipeIngredients db)
                    (loadStoreData db clock store) store) allRecipes (rows, p, errs)"
  obtain rows1 p1 errs1 where f: "?f = (rows1, p1, errs1)" by (cases ?f)
  have al: "isAllowedStoreId (store_id store)" "\<forall>s \<in> set stores. isAllowedStoreId (store_id s)"
    using Cons.prems(1) by simp_all
  have "rowsInv R (fst (rows, p, errs))" using Cons.prems(2) acc by simp
  from fold_processPair_rowsInv [OF al(1) this, of rx faults clock cache im "db_recipeIngredients db"
         "loadStoreData db clock store" allRecipes]
  have "rowsInv R (fst (rows1, length allRecipes, p1, errs1))" by (simp add: f)
  from Cons.IH [OF al(2) this] Cons.prems(2) show ?case
    by (cases "storeFault faults store") (simp_all add: acc f)
qed

lemma processStores_rowsAllowed:
  assumes "\<forall>store \<in> set stores. isAllowedStoreId (store_id store)" and "rowsAllowed (fst acc)"
  shows "rowsAllowed (fst (snd (processStores rx faults clock cache db im allRecipes stores acc)))"
  using assms
proof (induction stores arbitrary: acc)
  case Nil
  then show ?case by simp
next
  case (Cons store stores)
  obtain rows rd p errs where acc: "acc = (rows, rd, p, errs)" by (cases acc)
  let ?f = "fold (processPair rx faults clock cache im (db_recipeIngredients db)
                    (loadStoreData db clock store) store) allRecipes (rows, p, errs)"
  obtain rows1 p1 errs1 where f: "?f = (rows1, p1, errs1)" by (cases ?f)
  have al: "isAllowedStoreId (store_id store)" "\<forall>s \<in> set stores. isAllowedStoreId (store_id s)"
    using Cons.prems(1) by simp_all
  have "rowsAllowed (fst (rows, p, errs))" using Cons.prems(2) acc by simp
  from fold_processPair_rowsAllowed [OF al(1) this, of rx faults clock cache im "db_recipeIngredients db"
         "loadStoreData db clock store" allRecipes]
  have "rowsAllowed (fst (rows1, length allRecipes, p1, errs1))" by (simp add: f)
  from Cons.IH [OF al(2) this] Cons.prems(2) show ?case
    by (cases "storeFault faults store") (simp_all add: acc f)
qed

lemma jsMin_cases: "x \<noteq> NaN \<Longrightarrow> y \<noteq> NaN \<Longrightarrow> jsMin x y = x \<or> jsMin x y = y"
  by (simp add: jsMin_def)

lemma fold_jsMin_in: "NaN \<notin> set (c # cs) \<Longrightarrow> fold jsMin cs c \<in> set (c # cs)"
proof (induction cs arbitrary: c)
  case Nil
  show ?case by simp
next
  case (Cons d cs)
  have m: "jsMin d c = d \<or> jsMin d c = c" using Cons.prems by (intro jsMin_cases) auto
  then have "NaN \<notin> set (jsMin d c # cs)" using Cons.prems by auto
  from Cons.IH [OF this] m show ?case by auto
qed

lemma completeTotals_numbers: "NaN \<notin> set (completeTotals rows recipeId)"
  by (auto simp: completeTotals_def)

lemma rollup_source:
  assumes "r \<in> set (rollup rows recipes)"
  shows "r \<in> set recipes
         \<or> (\<exists>row \<in> set rows. row_recipeId row = recipe_id r \<and> row_isComplete row
               \<and> estimatedPrice r = Some (row_totalCost row))"
proof -
  from assms obtain r0 where r0: "r0 \<in> set recipes"
    and r: "r = (case completeTotals rows (recipe_id r0) of
                   [] \<Rightarrow> r0 | c # cs \<Rightarrow> r0\<lparr>estimatedPrice := Some (fold jsMin cs c)\<rparr>)"
    by (auto simp: rollup_def)
  show ?thesis
  proof (cases "completeTotals rows (recipe_id r0)")
    case Nil
    with r r0 show ?thesis by simp
  next
    case (Cons c cs)
    have "NaN \<notin> set (c # cs)" using completeTotals_numbers [of rows "recipe_id r0"] Cons by simp
    from fold_jsMin_in [OF this]
    have "fold jsMin cs c \<in> set (completeTotals rows (recipe_id r0))"
      using Cons by simp
    then obtain row where "row \<in> set rows" "row_recipeId row = recipe_id r0" "row_isComplete row"
      "row_totalCost row = fold jsMin cs c"
      by (auto simp: completeTotals_def)
    then show ?thesis using r Cons by auto
  qed
qed

lemma runBody_rows:
  "db_recipeStorePrices (fst (runBody rx faults clock cache db)) = db_recipeStorePrices db
   \<or> db_recipeStorePrices (fst (runBody rx faults clock cache db))
       = fst (snd (processStores rx faults clock cache db
                    (ingredientMapOf db)
                    (db_recipes db) (allowedStores db) (db_recipeStorePrices db, 0, 0, [])))"
  by (auto simp: runBody_def Let_def split: option.splits prod.splits)

lemma runBody_recipes:
  "db_recipes (fst (runBody rx faults clock cache db)) = db_recipes db
   \<or> db_recipes (fst (runBody rx faults clock cache db))
       = rollup (db_recipeStorePrices (fst (runBody rx faults clock cache db))) (db_recipes db)"
  by (auto simp: runBody_def Let_def split: option.splits prod.splits)

lemma allowedStores_allowed: "\<forall>store \<in> set (allowedStores db). isAllowedStoreId (store_id store)"
  by (simp add: allowedStores_def)

lemma runBody_rowsAllowed:
  assumes "rowsAllowed (db_recipeStorePrices db)"
  shows "rowsAllowed (db_recipeStorePrices (fst (runBody rx faults clock cache db)))"
proof -
  have "rowsAllowed (fst (snd (processStores rx faults clock cache db
                    (ingredientMapOf db)
                    (db_recipes db) (allowedStores db) (db_recipeStorePrices db, 0, 0, []))))"
    by (rule processStores_rowsAllowed [OF allowedStores_allowed]) (simp add: assms)
  with runBody_rows [of rx faults clock cache db] assms show ?thesis by auto
qed

lemma runBody_rowsInv:
  assumes "distinct (map row_id (db_recipeStorePrices db))"
  shows "rowsInv (set (db_recipeStorePrices db)) (db_recipeStorePrices (fst (runBody rx faults clock cache db)))"
proof -
  have start: "rowsInv (set (db_recipeStorePrices db)) (db_recipeStorePrices db)"
    using assms by (simp add: rowsInv_def)
  have "rowsInv (set (db_recipeStorePrices db))
          (fst (snd (processStores rx faults clock cache db
                    (ingredientMapOf db)
                    (db_recipes db) (allowedStores db) (db_recipeStorePrices db, 0, 0, []))))"
    by (rule processStores_rowsInv [OF allowedStores_allowed]) (simp add: start)
  with runBody_rows [of rx faults clock cache db] start show ?thesis by auto
qed

lemma run_database:
  "database (fst (runRecipePriceCalculation rx faults clock st)) = database st
   \<or> database (fst (runRecipePriceCalculation rx faults clock st))
       = fst (runBody rx faults clock
                (ingredientEquivalenceCache (loadIngredientEquivalences faults clock st)) (database st))"
proof (cases "accepted clock st")
  case True
  from run_accepted [OF True, of rx faults] show ?thesis by auto
next
  case False
  then show ?thesis
    by (simp add: runRecipePriceCalculation_def accepted_def Let_def autoReset_frame)
qed

lemma bestDealLoop_store:
  assumes "bestDealLoop ingredient ps (best, bestPrice) = (Some deal, cost)"
      and "\<forall>p \<in> set ps. entry_storeId p \<in> S"
      and "\<And>d. best = Some d \<Longrightarrow> deal_storeId d \<in> S"
  shows "deal_storeId deal \<in> S"
  using assms
proof (induction ps arbitrary: best bestPrice)
  case Nil
  then show ?case by simp
next
  case (Cons p ps)
  from Cons.prems(1) obtain best' bestPrice' where
    rec: "bestDealLoop ingredient ps (best', bestPrice') = (Some deal, cost)"
    and b: "best' = best \<or> (\<exists>c. best' = Some \<lparr>deal_storeId = entry_storeId p, deal_price = entry_price p,
                                  deal_unit = entry_unit p, deal_costCalculated = c\<rparr>)"
    by (auto simp: Let_def split: if_splits)
  have "\<And>d. best' = Some d \<Longrightarrow> deal_storeId d \<in> S"
    using b Cons.prems(2,3) by auto
  from Cons.IH [OF rec _ this] Cons.prems(2) show ?case by simp
qed

lemma calculateIngredient_store:
  assumes "calculateIngredient prices ingredient = Deal (Some deal) cost"
  shows "deal_storeId deal \<in> set allowedStoreIds"
proof -
  have av: "\<forall>p \<in> set (availablePrices prices ingredient). entry_storeId p \<in> set allowedStoreIds"
    by (simp add: availablePrices_def)
  obtain bestDeal bestPrice where
    l: "bestDealLoop ingredient (availablePrices prices ingredient) (None, PosInf) = (bestDeal, bestPrice)"
    by (cases "bestDealLoop ingredient (availablePrices prices ingredient) (None, PosInf)")
  from assms have "availablePrices prices ingredient \<noteq> []"
    by (auto simp: calculateIngredient_def)
  then have "calculateIngredient prices ingredient = Deal bestDeal bestPrice"
    using l by (cases "availablePrices prices ingredient") (simp_all add: calculateIngredient_def del: bestDealLoop.simps)
  with assms l
  have "bestDealLoop ingredient (availablePrices prices ingredient) (None, PosInf) = (Some deal, cost)"
    by simp
  from bestDealLoop_store [OF this av] show ?thesis by simp
qed

lemma calculateIngredient_NoPrice_iff:
  "(\<exists>e. calculateIngredient prices ingredient = NoPrice e) \<longleftrightarrow> availablePrices prices ingredient = []"
  by (auto simp: calculateIngredient_def simp del: bestDealLoop.simps split: list.splits prod.splits)

text \<open>
  Claim C2, as amended. Every store that is priced is outside the exclusion set. When the
  identifiers of the price table are a key, every row that the run creates or changes belongs
  to such a store. When the table holds no row of an excluded store before the run, it holds
  none after it, and every estimated price that the final update sets is the total of a
  complete row of a non-excluded store. In the preview, every best deal that an ingredient
  receives, for any recipes and any price table, comes from a store of the allowed list, which
  holds neither excluded store.
\<close>

theorem excluded_stores_filtered:
  "(\<forall>store \<in> set (allowedStores (database st)). isAllowedStoreId (store_id store))
   \<and> (distinct (map row_id (db_recipeStorePrices (database st))) \<longrightarrow>
        (\<forall>row \<in> set (db_recipeStorePrices (database (fst (runRecipePriceCalculation rx faults clock st)))).
           row \<in> set (db_recipeStorePrices (database st)) \<or> isAllowedStoreId (row_storeId row)))
   \<and> (rowsAllowed (db_recipeStorePrices (database st)) \<longrightarrow>
        rowsAllowed (db_recipeStorePrices (database (fst (runRecipePriceCalculation rx faults clock st))))
        \<and> (\<forall>r \<in> set (db_recipes (database (fst (runRecipePriceCalculation rx faults clock st)))).
              r \<in> set (db_recipes (database st))
              \<or> (\<exists>row \<in> set (db_recipeStorePrices
                                 (database (fst (runRecipePriceCalculation rx faults clock st)))).
                    isAllowedStoreId (row_storeId row) \<and> row_recipeId row = recipe_id r
                    \<and> row_isComplete row \<and> estimatedPrice r = Some (row_totalCost row))))
   \<and> (\<forall>res \<in> set (calculate recipes prices). \<forall>(ingredient, r) \<in> set (result_ingredients res).
         \<forall>deal cost. r = Deal (Some deal) cost \<longrightarrow>
           deal_storeId deal \<in> set allowedStoreIds
           \<and> deal_storeId deal \<noteq> JStr STORE_IDS_ADONIS \<and> deal_storeId deal \<noteq> JStr STORE_IDS_PROVIGO)"
proof -
  let ?db = "database st"
  let ?db' = "database (fst (runRecipePriceCalculation rx faults clock st))"
  let ?body = "fst (runBody rx faults clock
                      (ingredientEquivalenceCache (loadIngredientEquivalences faults clock st)) ?db)"
  have cases: "?db' = ?db \<or> ?db' = ?body" by (rule run_database)
  have a: "\<forall>store \<in> set (allowedStores ?db). isAllowedStoreId (store_id store)"
    by (rule allowedStores_allowed)
  have b: "distinct (map row_id (db_recipeStorePrices ?db)) \<longrightarrow>
        (\<forall>row \<in> set (db_recipeStorePrices ?db').
           row \<in> set (db_recipeStorePrices ?db) \<or> isAllowedStoreId (row_storeId row))"
  proof
    assume key: "distinct (map row_id (db_recipeStorePrices ?db))"
    from runBody_rowsInv [OF key]
    have "\<forall>row \<in> set (db_recipeStorePrices ?body).
            row \<in> set (db_recipeStorePrices ?db) \<or> isAllowedStoreId (row_storeId row)"
      by (simp add: rowsInv_def)
    with cases show "\<forall>row \<in> set (db_recipeStorePrices ?db').
           row \<in> set (db_recipeStorePrices ?db) \<or> isAllowedStoreId (row_storeId row)"
      by auto
  qed
  have c: "rowsAllowed (db_recipeStorePrices ?db) \<longrightarrow>
        rowsAllowed (db_recipeStorePrices ?db')
        \<and> (\<forall>r \<in> set (db_recipes ?db').
              r \<in> set (db_recipes ?db)
              \<or> (\<exists>row \<in> set (db_recipeStorePrices ?db').
                    isAllowedStoreId (row_storeId row) \<and> row_recipeId row = recipe_id r
                    \<and> row_isComplete row \<and> estimatedPrice r = Some (row_totalCost row)))"
  proof
    assume al: "rowsAllowed (db_recipeStorePrices ?db)"
    from runBody_rowsAllowed [OF al] have alb: "rowsAllowed (db_recipeStorePrices ?body)" .
    from cases al alb have al': "rowsAllowed (db_recipeStorePrices ?db')" by auto
    have "\<forall>r \<in> set (db_recipes ?db').
              r \<in> set (db_recipes ?db)
              \<or> (\<exists>row \<in> set (db_recipeStorePrices ?db').
                    isAllowedStoreId (row_storeId row) \<and> row_recipeId row = recipe_id r
                    \<and> row_isComplete row \<and> estimatedPrice r = Some (row_totalCost row))"
    proof
      fix r assume r: "r \<in> set (db_recipes ?db')"
      from cases show "r \<in> set (db_recipes ?db)
              \<or> (\<exists>row \<in> set (db_recipeStorePrices ?db').
                    isAllowedStoreId (row_storeId row) \<and> row_recipeId row = recipe_id r
                    \<and> row_isComplete row \<and> estimatedPrice r = Some (row_totalCost row))"
      proof
        assume "?db' = ?db"
        with r show ?thesis by simp
      next
        assume eq: "?db' = ?body"
        from runBody_recipes [of rx faults clock
               "ingredientEquivalenceCache (loadIngredientEquivalences faults clock st)" ?db]
        have "db_recipes ?db' = db_recipes ?db
              \<or> db_recipes ?db' = rollup (db_recipeStorePrices ?db') (db_recipes ?db)"
          by (simp add: eq)
        then show ?thesis
        proof
          assume "db_recipes ?db' = db_recipes ?db"
          with r show ?thesis by simp
        next
          assume "db_recipes ?db' = rollup (db_recipeStorePrices ?db') (db_recipes ?db)"
          with r have "r \<in> set (rollup (db_recipeStorePrices ?db') (db_recipes ?db))" by simp
          from rollup_source [OF this] al' show ?thesis
            by (auto simp: rowsAllowed_def)
        qed
      qed
    qed
    with al' show "rowsAllowed (db_recipeStorePrices ?db')
        \<and> (\<forall>r \<in> set (db_recipes ?db').
              r \<in> set (db_recipes ?db)
              \<or> (\<exists>row \<in> set (db_recipeStorePrices ?db').
                    isAllowedStoreId (row_storeId row) \<and> row_recipeId row = recipe_id r
                    \<and> row_isComplete row \<and> estimatedPrice r = Some (row_totalCost row)))"
      by blast
  qed
  have d: "\<forall>res \<in> set (calculate recipes prices). \<forall>(ingredient, r) \<in> set (result_ingredients res).
         \<forall>deal cost. r = Deal (Some deal) cost \<longrightarrow>
           deal_storeId deal \<in> set allowedStoreIds
           \<and> deal_storeId deal \<noteq> JStr STORE_IDS_ADONIS \<and> deal_storeId deal \<noteq> JStr STORE_IDS_PROVIGO"
  proof -
    have "\<And>ingredient deal cost. calculateIngredient prices ingredient = Deal (Some deal) cost \<Longrightarrow>
            deal_storeId deal \<in> set allowedStoreIds
            \<and> deal_storeId deal \<noteq> JStr STORE_IDS_ADONIS \<and> deal_storeId deal \<noteq> JStr STORE_IDS_PROVIGO"
      using calculateIngredient_store by (fastforce simp: allowedStoreIds_def)
    then show ?thesis
      by (auto simp: calculate_def calculateRecipe_def Let_def)
  qed
  from a b c d show ?thesis by blast
qed

lemma example_rows:
  "map row_storeId (db_recipeStorePrices (database (fst (runRecipePriceCalculation rejectingEngine noFaults
      exampleClock (idleState exampleDatabase))))) = [''iga'', ''iga'']"
  by code_simp

lemma example_prices:
  "map estimatedPrice (db_recipes (database (fst (runRecipePriceCalculation rejectingEngine noFaults
      exampleClock (idleState exampleDatabase))))) = [Some (Fin 2), Some (Fin 4)]"
  by code_simp

lemma example_deals:
  "map (map snd \<circ> result_ingredients) (calculate [beefRecipe] beefPrices)
     = [[Deal (Some \<lparr>deal_storeId = JNum 4, deal_price = 4.44, deal_unit = ''lb'',
                     deal_costCalculated = Fin 4.44\<rparr>) (Fin 4.44)]]"
  by code_simp

text \<open>C2 at the small catalogue with an empty price table: the two rows written are those of
  the allowed store, and the estimated prices are its totals, although the excluded store
  sells at a quarter of the price. In the preview the pound of beef gets the deal of store 4
  at 4.44, although the excluded store and store 5 sell for less; the entry of quantity zero
  costs \<open>Infinity\<close> and is passed over.\<close>

theorem excluded_stores_filtered_witness:
  "rowsAllowed (db_recipeStorePrices (database (idleState exampleDatabase)))
   \<and> distinct (map row_id (db_recipeStorePrices (database (idleState exampleDatabase))))
   \<and> rowsAllowed (db_recipeStorePrices (database (fst (runRecipePriceCalculation rejectingEngine noFaults
        exampleClock (idleState exampleDatabase)))))
   \<and> map row_storeId (db_recipeStorePrices (database (fst (runRecipePriceCalculation rejectingEngine
        noFaults exampleClock (idleState exampleDatabase))))) = [''iga'', ''iga'']
   \<and> map estimatedPrice (db_recipes (database (fst (runRecipePriceCalculation rejectingEngine noFaults
        exampleClock (idleState exampleDatabase))))) = [Some (Fin 2), Some (Fin 4)]
   \<and> map (map snd \<circ> result_ingredients) (calculate [beefRecipe] beefPrices)
       = [[Deal (Some \<lparr>deal_storeId = JNum 4, deal_price = 4.44, deal_unit = ''lb'',
                       deal_costCalculated = Fin 4.44\<rparr>) (Fin 4.44)]]
   \<and> JNum 4 \<in> set allowedStoreIds
   \<and> JNum 4 \<noteq> JStr STORE_IDS_ADONIS \<and> JNum 4 \<noteq> JStr STORE_IDS_PROVIGO"
proof -
  let ?deal = "\<lparr>deal_storeId = JNum 4, deal_price = 4.44, deal_unit = ''lb'',
                deal_costCalculated = Fin 4.44\<rparr>"
  have h: "rowsAllowed (db_recipeStorePrices (database (idleState exampleDatabase)))"
          "distinct (map row_id (db_recipeStorePrices (database (idleState exampleDatabase))))"
    by (simp_all add: rowsAllowed_def idleState_def exampleDatabase_def)
  note inst = excluded_stores_filtered [where st = "idleState exampleDatabase" and rx = rejectingEngine
         and faults = noFaults and clock = exampleClock and recipes = "[beefRecipe]"
         and prices = beefPrices]
  from inst h
  have r: "rowsAllowed (db_recipeStorePrices (database (fst (runRecipePriceCalculation rejectingEngine noFaults
        exampleClock (idleState exampleDatabase)))))" by blast
  obtain res where res: "calculate [beefRecipe] beefPrices = [res]"
    by (simp add: calculate_def)
  from example_deals res obtain ingredient where
    "result_ingredients res = [(ingredient, Deal (Some ?deal) (Fin 4.44))]"
    by auto
  then have "(ingredient, Deal (Some ?deal) (Fin 4.44)) \<in> set (result_ingredients res)"
    and "res \<in> set (calculate [beefRecipe] beefPrices)"
    using res by simp_all
  with inst have "deal_storeId ?deal \<in> set allowedStoreIds
           \<and> deal_storeId ?deal \<noteq> JStr STORE_IDS_ADONIS \<and> deal_storeId ?deal \<noteq> JStr STORE_IDS_PROVIGO"
    by blast
  then have d: "JNum 4 \<in> set allowedStoreIds
           \<and> JNum 4 \<noteq> JStr STORE_IDS_ADONIS \<and> JNum 4 \<noteq> JStr STORE_IDS_PROVIGO"
    by simp
  from h r d example_rows example_prices example_deals show ?thesis by blast
qed

text \<open>Claim C2 as stated fails when the table already holds a row of an excluded store: the
  final update takes the least total over all rows, and the estimated price of the first
  recipe becomes 0.5, the total of the row of the excluded store.\<close>

theorem excluded_stores_filtered_counterexample:
  "map row_storeId (db_recipeStorePrices (database (fst (runRecipePriceCalculation rejectingEngine noFaults
      exampleClock (idleState staleDatabase))))) = [''adonis'', ''iga'', ''iga'']
   \<and> map row_recipeId (db_recipeStorePrices (database (fst (runRecipePriceCalculation rejectingEngine
      noFaults exampleClock (idleState staleDatabase))))) = [''r1'', ''r1'', ''r2'']
   \<and> map row_totalCost (db_recipeStorePrices (database (fst (runRecipePriceCalculation rejectingEngine
      noFaults exampleClock (idleState staleDatabase))))) = [Fin 0.5, Fin 2, Fin 4]
   \<and> map recipe_id (db_recipes (database (fst (runRecipePriceCalculation rejectingEngine noFaults
      exampleClock (idleState staleDatabase))))) = [''r1'', ''r2'']
   \<and> map estimatedPrice (db_recipes (database (fst (runRecipePriceCalculation rejectingEngine noFaults
      exampleClock (idleState staleDatabase))))) = [Some (Fin 0.5), Some (Fin 4)]
   \<and> \<not> isAllowedStoreId ''adonis''"
  by code_simp

text \<open>
  Claim C6. On the bundled data the preview reports every ingredient as unavailable, ground
  beef included, and both totals are 0: the price entries are matched against the property
  \<open>id\<close>, which the ingredients of the recipes do not have, and the store identifiers of the
  data are strings while the allowed list holds numbers.
\<close>

theorem preview_rejects_bundled_data:
  "map (map snd \<circ> result_ingredients) (calculate mockRecipes mockPrices)
     = [[NoPrice unavailable, NoPrice unavailable, NoPrice unavailable],
        [NoPrice unavailable, NoPrice unavailable]]
   \<and> map result_totalPrice (calculate mockRecipes mockPrices) = [Fin 0, Fin 0]"
  by code_simp

text \<open>A lock held for longer than the timeout does not reject the call: the run is accepted
  and releases it.\<close>

lemma stuck_lock_accepted:
  "accepted exampleClock ((runningState exampleDatabase)\<lparr>calculationStartTime := Some 1\<rparr>)"
  by (simp add: accepted_def autoReset_def runningState_def idleState_def exampleClock_def
        MAX_CALCULATION_TIME_MS_def)

section \<open>The row stored for a pair\<close>

lemma find_map_same:
  assumes "\<And>x. P (f x) = P x"
  shows "find P (map f xs) = map_option f (find P xs)"
  by (induction xs) (simp_all add: assms)

lemma find_snoc: "find P (xs @ [x]) = (case find P xs of None \<Rightarrow> (if P x then Some x else None) | Some y \<Rightarrow> Some y)"
  by (induction xs) simp_all

lemma upsertRow_distinct:
  assumes "distinct (map row_id rows)"
  shows "distinct (map row_id (upsertRow clock recipeId storeId res rows))"
proof (cases "existingPrice clock recipeId storeId rows")
  case None
  then show ?thesis using assms freshId_fresh [of rows] by (simp add: upsertRow_def)
next
  case (Some existing)
  have "map row_id (upsertRow clock recipeId storeId res rows) = map row_id rows"
    using Some by (simp add: upsertRow_def comp_def)
  then show ?thesis using assms by simp
qed

text \<open>After the upsert of a pair, the row that a \<open>select\<close> of the pair returns holds the
  result that was written.\<close>

lemma upsertRow_stored: "storedAs clock (upsertRow clock recipeId storeId res rows) recipeId storeId res"
proof (cases "existingPrice clock recipeId storeId rows")
  case None
  then show ?thesis
    by (simp add: storedAs_def upsertRow_def existingPrice_def find_snoc)
next
  case (Some existing)
  let ?f = "\<lambda>row. if row_id row = row_id existing
                   then row\<lparr>row_totalCost := pair_totalCost res,
                            row_missingIngredientsCount := pair_missingCount res,
                            row_isComplete := pair_isComplete res,
                            row_ingredientBreakdown := pair_breakdown res,
                            row_calculatedAt := clock_calculatedAt clock\<rparr>
                   else row"
  have up: "upsertRow clock recipeId storeId res rows = map ?f rows"
    using Some by (simp add: upsertRow_def)
  have "existingPrice clock recipeId storeId (map ?f rows)
          = map_option ?f (existingPrice clock recipeId storeId rows)"
    unfolding existingPrice_def by (rule find_map_same) simp
  then show ?thesis using Some by (simp add: up storedAs_def)
qed

text \<open>With identifiers that are a key, the upsert of a pair leaves the row of every other
  pair as it is.\<close>

lemma upsertRow_other:
  assumes key: "distinct (map row_id rows)"
      and ne: "recipeId' \<noteq> recipeId \<or> storeId' \<noteq> storeId"
  shows "existingPrice clock recipeId' storeId' (upsertRow clock recipeId storeId res rows)
           = existingPrice clock recipeId' storeId' rows"
proof (cases "existingPrice clock recipeId storeId rows")
  case None
  then show ?thesis using ne
    by (auto simp: upsertRow_def existingPrice_def find_snoc split: option.splits)
next
  case (Some existing)
  from find_Some_D [OF Some [unfolded existingPrice_def]]
  have ex: "existing \<in> set rows"
    and exk: "row_recipeId existing = recipeId" "row_storeId existing = storeId"
    by auto
  let ?f = "\<lambda>row. if row_id row = row_id existing
                   then row\<lparr>row_totalCost := pair_totalCost res,
                            row_missingIngredientsCount := pair_missingCount res,
                            row_isComplete := pair_isComplete res,
                            row_ingredientBreakdown := pair_breakdown res,
                            row_calculatedAt := clock_calculatedAt clock\<rparr>
                   else row"
  have up: "upsertRow clock recipeId storeId res rows = map ?f rows"
    using Some by (simp add: upsertRow_def)
  have m: "existingPrice clock recipeId' storeId' (map ?f rows)
          = map_option ?f (existingPrice clock recipeId' storeId' rows)"
    unfolding existingPrice_def by (rule find_map_same) simp
  have same: "\<And>row. row \<in> set rows \<Longrightarrow> row_id row = row_id existing \<Longrightarrow> row = existing"
    using key ex by (meson distinct_map inj_onD)
  show ?thesis
  proof (cases "existingPrice clock recipeId' storeId' rows")
    case None
    then show ?thesis by (simp add: up m)
  next
    case (Some other)
    from find_Some_D [OF Some [unfolded existingPrice_def]]
    have o: "other \<in> set rows" and ok: "row_recipeId other = recipeId'" "row_storeId other = storeId'"
      by auto
    have "other \<noteq> existing" using ne exk ok by auto
    then have "row_id other \<noteq> row_id existing" using same [OF o] by blast
    then show ?thesis using Some by (simp add: up m)
  qed
qed

lemma storedAs_other:
  assumes "distinct (map row_id rows)"
      and "recipeId' \<noteq> recipeId \<or> storeId' \<noteq> storeId"
      and "storedAs clock rows recipeId' storeId' res'"
  shows "storedAs clock (upsertRow clock recipeId storeId res rows) recipeId' storeId' res'"
  using assms(3) upsertRow_other [OF assms(1,2), of clock res]
  by (simp add: storedAs_def)

lemma pairPricing_ids:
  "store_id store' = store_id store \<Longrightarrow> recipe_id recipe' = recipe_id recipe
     \<Longrightarrow> pairPricing rx cache db clock store' recipe' = pairPricing rx cache db clock store recipe"
  by (simp add: pairPricing_def loadStoreData_def)

lemma processPair_rows:
  "fst (processPair rx faults clock cache (ingredientMapOf db) (db_recipeIngredients db)
          (loadStoreData db clock store) store recipe (rows, p, errs))
     = (case pairPricing rx cache db clock store recipe of
          Inl e \<Rightarrow> rows
        | Inr res \<Rightarrow>
            (case fault_upsert faults (recipe_id recipe) (store_id store) of
               Some message \<Rightarrow> rows
             | None \<Rightarrow> upsertRow clock (recipe_id recipe) (store_id store) res rows))"
  by (simp add: processPair_def pairPricing_def split: sum.splits option.splits)

lemma processPair_rowsStored:
  assumes inv: "rowsStored rx faults clock cache db done (fst acc)"
  shows "rowsStored rx faults clock cache db (insert (store, recipe) done)
           (fst (processPair rx faults clock cache (ingredientMapOf db) (db_recipeIngredients db)
                   (loadStoreData db clock store) store recipe acc))"
proof -
  obtain rows p errs where acc: "acc = (rows, p, errs)" by (cases acc)
  from inv acc have key: "distinct (map row_id rows)"
    and old: "\<And>s r res. (s, r) \<in> done \<Longrightarrow> pairPricing rx cache db clock s r = Inr res
                \<Longrightarrow> fault_upsert faults (recipe_id r) (store_id s) = None
                \<Longrightarrow> storedAs clock rows (recipe_id r) (store_id s) res"
    by (auto simp: rowsStored_def)
  let ?rows' = "fst (processPair rx faults clock cache (ingredientMapOf db) (db_recipeIngredients db)
                       (loadStoreData db clock store) store recipe (rows, p, errs))"
  show ?thesis
  proof (cases "\<exists>res0. pairPricing rx cache db clock store recipe = Inr res0
                  \<and> fault_upsert faults (recipe_id recipe) (store_id store) = None")
    case False
    then have same: "?rows' = rows"
      by (auto simp: processPair_rows split: sum.splits option.splits)
    have "\<And>s r res. (s, r) \<in> insert (store, recipe) done \<Longrightarrow> pairPricing rx cache db clock s r = Inr res
                \<Longrightarrow> fault_upsert faults (recipe_id r) (store_id s) = None
                \<Longrightarrow> storedAs clock rows (recipe_id r) (store_id s) res"
      using old False by auto
    then show ?thesis using key unfolding acc same rowsStored_def by blast
  next
    case True
    then obtain res0 where r0: "pairPricing rx cache db clock store recipe = Inr res0"
      and nf: "fault_upsert faults (recipe_id recipe) (store_id store) = None" by blast
    have up: "?rows' = upsertRow clock (recipe_id recipe) (store_id store) res0 rows"
      by (simp add: processPair_rows r0 nf)
    have key': "distinct (map row_id ?rows')"
      unfolding up by (rule upsertRow_distinct [OF key])
    have "\<And>s r res. (s, r) \<in> insert (store, recipe) done \<Longrightarrow> pairPricing rx cache db clock s r = Inr res
                \<Longrightarrow> fault_upsert faults (recipe_id r) (store_id s) = None
                \<Longrightarrow> storedAs clock ?rows' (recipe_id r) (store_id s) res"
    proof -
      fix s r res
      assume mem: "(s, r) \<in> insert (store, recipe) done"
        and pr: "pairPricing rx cache db clock s r = Inr res"
        and f: "fault_upsert faults (recipe_id r) (store_id s) = None"
      show "storedAs clock ?rows' (recipe_id r) (store_id s) res"
      proof (cases "recipe_id r = recipe_id recipe \<and> store_id s = store_id store")
        case True
        then have "pairPricing rx cache db clock s r = pairPricing rx cache db clock store recipe"
          by (intro pairPricing_ids) simp_all
        with pr r0 have "res = res0" by simp
        then show ?thesis using True upsertRow_stored [of clock "recipe_id recipe" "store_id store" res0 rows]
          by (simp add: up)
      next
        case False
        then have "(s, r) \<in> done" using mem by auto
        from old [OF this pr f] have "storedAs clock rows (recipe_id r) (store_id s) res" .
        from storedAs_other [OF key _ this, of "recipe_id recipe" "store_id store" res0] False
        show ?thesis by (auto simp: up)
      qed
    qed
    then show ?thesis using key' unfolding acc rowsStored_def by blast
  qed
qed

lemma fold_processPair_rowsStored:
  assumes "rowsStored rx faults clock cache db done (fst acc)"
  shows "rowsStored rx faults clock cache db (done \<union> {store} \<times> set recipes)
           (fst (fold (processPair rx faults clock cache (ingredientMapOf db) (db_recipeIngredients db)
                         (loadStoreData db clock store) store) recipes acc))"
  using assms
proof (induction recipes arbitrary: acc "done")
  case Nil
  then show ?case by simp
next
  case (Cons recipe recipes)
  let ?acc1 = "processPair rx faults clock cache (ingredientMapOf db) (db_recipeIngredients db)
                 (loadStoreData db clock store) store recipe acc"
  have "rowsStored rx faults clock cache db (insert (store, recipe) done) (fst ?acc1)"
    by (rule processPair_rowsStored [OF Cons.prems])
  from Cons.IH [OF this]
  have "rowsStored rx faults clock cache db (insert (store, recipe) done \<union> {store} \<times> set recipes)
          (fst (fold (processPair rx faults clock cache (ingredientMapOf db) (db_recipeIngredients db)
                        (loadStoreData db clock store) store) recipes ?acc1))" .
  moreover have "insert (store, recipe) done \<union> {store} \<times> set recipes
                   = done \<union> {store} \<times> set (recipe # recipes)" by auto
  ultimately show ?case by simp
qed

lemma processStores_rowsStored:
  assumes "rowsStored rx faults clock cache db done (fst acc)"
  shows "rowsStored rx faults clock cache db
           (done \<union> set (takeWhile (\<lambda>store. storeFault faults store = None) stores) \<times> set allRecipes)
           (fst (snd (processStores rx faults clock cache db (ingredientMapOf db) allRecipes stores acc)))"
  using assms
proof (induction stores arbitrary: acc "done")
  case Nil
  then show ?case by simp
next
  case (Cons store stores)
  obtain rows rd p errs where acc: "acc = (rows, rd, p, errs)" by (cases acc)
  show ?case
  proof (cases "storeFault faults store")
    case (Some message)
    then show ?thesis using Cons.prems by (simp add: acc)
  next
    case None
    let ?f = "fold (processPair rx faults clock cache (ingredientMapOf db) (db_recipeIngredients db)
                      (loadStoreData db clock store) store) allRecipes (rows, p, errs)"
    obtain rows1 p1 errs1 where f: "?f = (rows1, p1, errs1)" by (cases ?f)
    have "rowsStored rx faults clock cache db done (fst (rows, p, errs))"
      using Cons.prems acc by simp
    from fold_processPair_rowsStored [OF this, of store allRecipes]
    have "rowsStored rx faults clock cache db (done \<union> {store} \<times> set allRecipes)
            (fst (rows1, length allRecipes, p1, errs1))"
      by (simp add: f)
    from Cons.IH [OF this]
    have "rowsStored rx faults clock cache db
            (done \<union> {store} \<times> set allRecipes
               \<union> set (takeWhile (\<lambda>store. storeFault faults store = None) stores) \<times> set allRecipes)
            (fst (snd (processStores rx faults clock cache db (ingredientMapOf db) allRecipes stores
                         (rows1, length allRecipes, p1, errs1))))" .
    moreover have "done \<union> {store} \<times> set allRecipes
               \<union> set (takeWhile (\<lambda>store. storeFault faults store = None) stores) \<times> set allRecipes
             = done \<union> set (takeWhile (\<lambda>store. storeFault faults store = None) (store # stores))
                        \<times> set allRecipes"
      using None by auto
    ultimately show ?thesis using None by (simp add: acc f)
  qed
qed

lemma runBody_rows_loaded:
  assumes "baseLoadFault faults = None"
  shows "db_recipeStorePrices (fst (runBody rx faults clock cache db))
           = fst (snd (processStores rx faults clock cache db (ingredientMapOf db)
                        (db_recipes db) (allowedStores db) (db_recipeStorePrices db, 0, 0, [])))"
  using assms by (auto simp: runBody_def Let_def split: option.splits prod.splits)

lemma runBody_rowsStored:
  assumes "distinct (map row_id (db_recipeStorePrices db))"
  shows "rowsStored rx faults clock cache db (set (pricedStores faults db) \<times> set (db_recipes db))
           (db_recipeStorePrices (fst (runBody rx faults clock cache db)))"
proof (cases "baseLoadFault faults")
  case (Some message)
  then show ?thesis using assms by (simp add: pricedStores_def rowsStored_def runBody_def)
next
  case None
  have "rowsStored rx faults clock cache db {} (fst (db_recipeStorePrices db, 0::nat, 0::nat, []::string list))"
    using assms by (simp add: rowsStored_def)
  from processStores_rowsStored [OF this, where allRecipes = "db_recipes db" and stores = "allowedStores db"]
  show ?thesis using None by (simp add: runBody_rows_loaded pricedStores_def)
qed

text \<open>
  Claim C1, as amended. Take an accepted run on a price table whose identifiers are a key, a
  store whose loop over the recipes is run, and a recipe whose pricing at that store returns
  and whose upsert the database accepts. After the run the row that a \<open>select\<close> of the pair
  and the week returns exists and holds the result of that pricing: its total, its missing
  count, its flag and its breakdown. Its missing count is the number of ingredient ids of the
  recipe that are in no ingredient table plus the number of its ingredients for which
  \<open>findBestPrice\<close> returns a category estimate. Its flag \<open>isComplete\<close> holds exactly when
  both numbers are zero and the stored total is greater than zero; so one estimated
  ingredient makes the row incomplete, and so does a total that is \<open>NaN\<close>.
\<close>

theorem stored_isComplete_iff:
  assumes acc: "accepted clock st"
      and key: "distinct (map row_id (db_recipeStorePrices (database st)))"
      and cache: "cache = ingredientEquivalenceCache (loadIngredientEquivalences faults clock st)"
      and store: "store \<in> set (pricedStores faults (database st))"
      and recipe: "recipe \<in> set (db_recipes (database st))"
      and ok: "pairSucceeds rx faults clock cache (database st) (store, recipe)"
  shows "\<exists>row.
           existingPrice clock (recipe_id recipe) (store_id store)
             (db_recipeStorePrices (database (fst (runRecipePriceCalculation rx faults clock st))))
             = Some row
           \<and> pairPricing rx cache (database st) clock store recipe
               = Inr \<lparr>pair_totalCost = row_totalCost row,
                      pair_missingCount = row_missingIngredientsCount row,
                      pair_isComplete = row_isComplete row,
                      pair_breakdown = row_ingredientBreakdown row\<rparr>
           \<and> row_missingIngredientsCount row
               = unknownIngredients (ingredientMapOf (database st)) (aggregatedIngsOf (database st) recipe)
                 + estimateFallbacks rx (ingredientMapOf (database st))
                     (loadStoreData (database st) clock store) (aggregatedIngsOf (database st) recipe)
           \<and> (row_isComplete row \<longleftrightarrow>
                 unknownIngredients (ingredientMapOf (database st)) (aggregatedIngsOf (database st) recipe) = 0
                 \<and> estimateFallbacks rx (ingredientMapOf (database st))
                     (loadStoreData (database st) clock store) (aggregatedIngsOf (database st) recipe) = 0
                 \<and> jsLess (Fin 0) (row_totalCost row))"
proof -
  let ?db = "database st"
  let ?rows' = "db_recipeStorePrices (database (fst (runRecipePriceCalculation rx faults clock st)))"
  from run_accepted [OF acc, of rx faults]
  have db': "database (fst (runRecipePriceCalculation rx faults clock st))
               = fst (runBody rx faults clock cache ?db)"
    unfolding cache by auto
  from ok obtain res where res: "pairPricing rx cache ?db clock store recipe = Inr res"
    and nf: "fault_upsert faults (recipe_id recipe) (store_id store) = None"
    by (auto simp: pairSucceeds_def pairPricing_def split: sum.splits)
  have "rowsStored rx faults clock cache ?db (set (pricedStores faults ?db) \<times> set (db_recipes ?db)) ?rows'"
    unfolding db' by (rule runBody_rowsStored [OF key])
  moreover have "(store, recipe) \<in> set (pricedStores faults ?db) \<times> set (db_recipes ?db)"
    using store recipe by simp
  ultimately have "storedAs clock ?rows' (recipe_id recipe) (store_id store) res"
    using res nf unfolding rowsStored_def by blast
  then obtain row where row: "existingPrice clock (recipe_id recipe) (store_id store) ?rows' = Some row"
    and fields: "row_totalCost row = pair_totalCost res"
      "row_missingIngredientsCount row = pair_missingCount res"
      "row_isComplete row = pair_isComplete res"
      "row_ingredientBreakdown row = pair_breakdown res"
    by (auto simp: storedAs_def split: option.splits)
  have eq: "res = \<lparr>pair_totalCost = row_totalCost row,
                  pair_missingCount = row_missingIngredientsCount row,
                  pair_isComplete = row_isComplete row,
                  pair_breakdown = row_ingredientBreakdown row\<rparr>"
    using fields by simp
  from priceRecipeAtStore_complete [OF res [unfolded pairPricing_def]]
  have counts: "pair_missingCount res
           = unknownIngredients (ingredientMapOf ?db) (aggregatedIngsOf ?db recipe)
             + estimateFallbacks rx (ingredientMapOf ?db) (loadStoreData ?db clock store)
                 (aggregatedIngsOf ?db recipe)"
    and flag: "pair_isComplete res \<longleftrightarrow>
               unknownIngredients (ingredientMapOf ?db) (aggregatedIngsOf ?db recipe) = 0
               \<and> estimateFallbacks rx (ingredientMapOf ?db) (loadStoreData ?db clock store)
                   (aggregatedIngsOf ?db recipe) = 0
               \<and> jsLess (Fin 0) (pair_totalCost res)"
    by (simp_all add: aggregatedIngsOf_def)
  show ?thesis
  proof (intro exI [of _ row] conjI)
    show "existingPrice clock (recipe_id recipe) (store_id store) ?rows' = Some row" by (rule row)
    show "pairPricing rx cache ?db clock store recipe
            = Inr \<lparr>pair_totalCost = row_totalCost row,
                   pair_missingCount = row_missingIngredientsCount row,
                   pair_isComplete = row_isComplete row,
                   pair_breakdown = row_ingredientBreakdown row\<rparr>"
      using res eq by simp
    show "row_missingIngredientsCount row
            = unknownIngredients (ingredientMapOf ?db) (aggregatedIngsOf ?db recipe)
              + estimateFallbacks rx (ingredientMapOf ?db) (loadStoreData ?db clock store)
                  (aggregatedIngsOf ?db recipe)"
      using counts fields(2) by simp
    show "row_isComplete row \<longleftrightarrow>
            unknownIngredients (ingredientMapOf ?db) (aggregatedIngsOf ?db recipe) = 0
            \<and> estimateFallbacks rx (ingredientMapOf ?db) (loadStoreData ?db clock store)
                (aggregatedIngsOf ?db recipe) = 0
            \<and> jsLess (Fin 0) (row_totalCost row)"
      using flag fields(1,3) by simp
  qed
qed

lemma example_stored:
  "existingPrice exampleClock ''r1'' ''iga''
     (db_recipeStorePrices (database (fst (runRecipePriceCalculation rejectingEngine noFaults
        exampleClock (idleState exampleDatabase)))))
   = Some \<lparr>row_id = 1, row_recipeId = ''r1'', row_storeId = ''iga'', row_weekOf = ''2026-01-05'',
           row_totalCost = Fin 2, row_missingIngredientsCount = 0, row_isComplete = True,
           row_ingredientBreakdown =
             [\<lparr>item_ingredientId = ''i1'', item_ingredientName = ''sel'', item_quantity = 500,
               item_unit = ''g'', item_unitPrice = Fin 4, item_priceUnit = ''kg'',
               item_calculatedCost = Fin 2, item_source = Unified\<rparr>],
           row_calculatedAt = ''2026-01-07T08:00:00.000Z''\<rparr>"
  by code_simp

lemma estimate_stored:
  "map_option (\<lambda>row. (row_totalCost row, row_missingIngredientsCount row, row_isComplete row,
                       map item_source (row_ingredientBreakdown row)))
     (existingPrice exampleClock ''r1'' ''iga''
        (db_recipeStorePrices (database (fst (runRecipePriceCalculation rejectingEngine noFaults
           exampleClock (idleState estimateDatabase))))))
   = Some (Fin 3.99, 1, False, [Estimate])"
  by code_simp

lemma example_hypotheses:
  "distinct (map row_id (db_recipeStorePrices (database (idleState exampleDatabase))))"
  "igaStore \<in> set (pricedStores noFaults (database (idleState exampleDatabase)))"
  "saumure \<in> set (db_recipes (database (idleState exampleDatabase)))"
  "pairSucceeds rejectingEngine noFaults exampleClock
     (ingredientEquivalenceCache (loadIngredientEquivalences noFaults exampleClock (idleState exampleDatabase)))
     (database (idleState exampleDatabase)) (igaStore, saumure)"
  "distinct (map row_id (db_recipeStorePrices (database (idleState estimateDatabase))))"
  "igaStore \<in> set (pricedStores noFaults (database (idleState estimateDatabase)))"
  "saumure \<in> set (db_recipes (database (idleState estimateDatabase)))"
  "pairSucceeds rejectingEngine noFaults exampleClock
     (ingredientEquivalenceCache (loadIngredientEquivalences noFaults exampleClock (idleState estimateDatabase)))
     (database (idleState estimateDatabase)) (igaStore, saumure)"
  "unknownIngredients (ingredientMapOf (database (idleState estimateDatabase)))
     (aggregatedIngsOf (database (idleState estimateDatabase)) saumure) = 0"
  "recipe_id saumure = ''r1''" "store_id igaStore = ''iga''"
  by code_simp+

text \<open>C1 at the small catalogue, for the first recipe at the allowed store. Salt is found at
  4 per kg: the stored row is complete with total 2, and no ingredient is unknown or
  estimated. In the catalogue without prices salt is estimated: the stored row is incomplete
  with missing count 1, which is the one fall-back.\<close>

theorem stored_isComplete_iff_witness:
  "(\<exists>row. existingPrice exampleClock ''r1'' ''iga''
            (db_recipeStorePrices (database (fst (runRecipePriceCalculation rejectingEngine noFaults
               exampleClock (idleState exampleDatabase))))) = Some row
          \<and> row_isComplete row \<and> row_totalCost row = Fin 2 \<and> row_missingIngredientsCount row = 0)
   \<and> unknownIngredients (ingredientMapOf (database (idleState exampleDatabase)))
       (aggregatedIngsOf (database (idleState exampleDatabase)) saumure) = 0
   \<and> estimateFallbacks rejectingEngine (ingredientMapOf (database (idleState exampleDatabase)))
       (loadStoreData (database (idleState exampleDatabase)) exampleClock igaStore)
       (aggregatedIngsOf (database (idleState exampleDatabase)) saumure) = 0
   \<and> (\<exists>row. existingPrice exampleClock ''r1'' ''iga''
            (db_recipeStorePrices (database (fst (runRecipePriceCalculation rejectingEngine noFaults
               exampleClock (idleState estimateDatabase))))) = Some row
          \<and> \<not> row_isComplete row \<and> row_totalCost row = Fin 3.99 \<and> row_missingIngredientsCount row = 1)
   \<and> estimateFallbacks rejectingEngine (ingredientMapOf (database (idleState estimateDatabase)))
       (loadStoreData (database (idleState estimateDatabase)) exampleClock igaStore)
       (aggregatedIngsOf (database (idleState estimateDatabase)) saumure) = 1"
proof -
  note h = example_hypotheses
  from stored_isComplete_iff [OF idle_accepted h(1) refl h(2) h(3) h(4)]
  obtain row where row: "existingPrice exampleClock ''r1'' ''iga''
            (db_recipeStorePrices (database (fst (runRecipePriceCalculation rejectingEngine noFaults
               exampleClock (idleState exampleDatabase))))) = Some row"
    and m: "row_missingIngredientsCount row
             = unknownIngredients (ingredientMapOf (database (idleState exampleDatabase)))
                 (aggregatedIngsOf (database (idleState exampleDatabase)) saumure)
               + estimateFallbacks rejectingEngine (ingredientMapOf (database (idleState exampleDatabase)))
                   (loadStoreData (database (idleState exampleDatabase)) exampleClock igaStore)
                   (aggregatedIngsOf (database (idleState exampleDatabase)) saumure)"
    by (auto simp: h(10,11))
  from row example_stored have v: "row_isComplete row" "row_totalCost row = Fin 2"
    "row_missingIngredientsCount row = 0" by auto
  from stored_isComplete_iff [OF idle_accepted h(5) refl h(6) h(7) h(8)]
  obtain row' where row': "existingPrice exampleClock ''r1'' ''iga''
            (db_recipeStorePrices (database (fst (runRecipePriceCalculation rejectingEngine noFaults
               exampleClock (idleState estimateDatabase))))) = Some row'"
    and m': "row_missingIngredientsCount row'
             = unknownIngredients (ingredientMapOf (database (idleState estimateDatabase)))
                 (aggregatedIngsOf (database (idleState estimateDatabase)) saumure)
               + estimateFallbacks rejectingEngine (ingredientMapOf (database (idleState estimateDatabase)))
                   (loadStoreData (database (idleState estimateDatabase)) exampleClock igaStore)
                   (aggregatedIngsOf (database (idleState estimateDatabase)) saumure)"
    by (auto simp: h(10,11))
  from row' estimate_stored have v': "\<not> row_isComplete row'" "row_totalCost row' = Fin 3.99"
    "row_missingIngredientsCount row' = 1" by auto
  from m v(3) have z: "unknownIngredients (ingredientMapOf (database (idleState exampleDatabase)))
       (aggregatedIngsOf (database (idleState exampleDatabase)) saumure) = 0"
    "estimateFallbacks rejectingEngine (ingredientMapOf (database (idleState exampleDatabase)))
       (loadStoreData (database (idleState exampleDatabase)) exampleClock igaStore)
       (aggregatedIngsOf (database (idleState exampleDatabase)) saumure) = 0"
    by simp_all
  from m' v'(3) h(9) have z': "estimateFallbacks rejectingEngine (ingredientMapOf (database (idleState estimateDatabase)))
       (loadStoreData (database (idleState estimateDatabase)) exampleClock igaStore)
       (aggregatedIngsOf (database (idleState estimateDatabase)) saumure) = 1"
    by simp
  from row v z row' v' z' show ?thesis by blast
qed

text \<open>Claim C1 as stated fails. In the catalogue whose first recipe has a line with an
  ingredient id that is in no table, the run stores for that recipe at the allowed store a
  row with total 2 that is not complete, although none of its ingredients fell back to an
  estimate: the unknown id alone is counted as missing.\<close>

theorem stored_isComplete_iff_counterexample:
  "map row_recipeId (db_recipeStorePrices (database (fst (runRecipePriceCalculation rejectingEngine
      noFaults exampleClock (idleState unknownLineDatabase))))) = [''r1'', ''r2'']
   \<and> map row_storeId (db_recipeStorePrices (database (fst (runRecipePriceCalculation rejectingEngine
      noFaults exampleClock (idleState unknownLineDatabase))))) = [''iga'', ''iga'']
   \<and> map row_isComplete (db_recipeStorePrices (database (fst (runRecipePriceCalculation rejectingEngine
      noFaults exampleClock (idleState unknownLineDatabase))))) = [False, True]
   \<and> map row_totalCost (db_recipeStorePrices (database (fst (runRecipePriceCalculation rejectingEngine
      noFaults exampleClock (idleState unknownLineDatabase))))) = [Fin 2, Fin 4]
   \<and> map row_missingIngredientsCount (db_recipeStorePrices (database (fst (runRecipePriceCalculation
      rejectingEngine noFaults exampleClock (idleState unknownLineDatabase))))) = [1, 0]
   \<and> map (map item_source \<circ> row_ingredientBreakdown) (db_recipeStorePrices (database (fst
      (runRecipePriceCalculation rejectingEngine noFaults exampleClock (idleState unknownLineDatabase)))))
      = [[Unified], [Unified]]
   \<and> estimateFallbacks rejectingEngine (ingredientMapOf unknownLineDatabase)
       (loadStoreData unknownLineDatabase exampleClock igaStore)
       (aggregatedIngsOf unknownLineDatabase saumure) = 0
   \<and> jsLess (Fin 0) (Fin 2)"
  by code_simp


end
